theory Spec2Isabelle
  imports Complex_Main "HOL-Library.Multiset"
begin

section \<open>JavaScript values used by the metrics calculator\<close>

text \<open>
  The class \<open>StravaMetrics\<close> computes with JavaScript numbers, the binary64 numbers of
  IEEE 754. A finite number is modelled by the real number it stands for, and an integer
  result of \<open>Math.round\<close> or \<open>Math.floor\<close> by an integer; \<open>NaN\<close> and the two
  infinities are outside the model, and the theorems speak about the runs in which every
  JavaScript number is finite. A number that is not finite can only come from an overflow
  or from a division by zero. Where a quotient with a divisor that can be zero is only
  compared or printed, the model writes the outcome out (\<open>quotient_exceeds\<close>,
  \<open>avg_pace\<close>); the two places where it would flow on as a number are the heart-rate
  branch of \<open>calculateTSS\<close> for a calculator with \<open>maxHR = restingHR\<close> and
  \<open>predictTime\<close> when its \<open>velocity\<close> is \<open>0\<close>. A divisor that is not zero in exact
  arithmetic can be rounded to zero only by an underflow, below \<open>2^(-1075)\<close>.

  Every arithmetic operation of the source is written with its binary64 rounding
  (\<open>fadd\<close>, \<open>fsub\<close>, \<open>fmul\<close>, \<open>fdiv\<close>), in the order in which JavaScript evaluates
  the expression. The operations that are exact in binary64 are written with the
  operations of the real numbers: a comparison, the unary minus, \<open>Math.abs\<close>,
  \<open>Math.max\<close>, the remainder \<open>%\<close>, and the arithmetic of integers below \<open>2^53\<close>
  (years, heart-rate thresholds, sums of TSS values, the score of a workout).

  An optional numeric field of a record is a \<open>real option\<close>; \<open>None\<close> is a field
  that is absent (\<open>undefined\<close> or \<open>null\<close>).
\<close>

definition truthy :: "real option \<Rightarrow> bool" where
  \<comment> \<open>a numeric field used as a condition: absent and \<open>0\<close> are falsy\<close>
  "truthy v = (case v of None \<Rightarrow> False | Some x \<Rightarrow> x \<noteq> 0)"

definition num :: "real option \<Rightarrow> real" where
  \<comment> \<open>the number held by a field; every use is under a guard that found the field truthy\<close>
  "num v = (case v of None \<Rightarrow> 0 | Some x \<Rightarrow> x)"

definition math_round :: "real \<Rightarrow> int" where
  \<comment> \<open>\<open>Math.round\<close>: the nearest integer, a tie going up; exact on a binary64 value\<close>
  "math_round x = \<lfloor>x + 1 / 2\<rfloor>"

subsection \<open>Binary64 arithmetic\<close>

text \<open>
  A finite Number is a real number that binary64 represents. An arithmetic operation of
  the source returns the exact result rounded to the nearest representable number, a tie
  going to the even significand: \<open>fl\<close>. The exponent of the rounded result is not
  bounded above, so an overflow to \<open>Infinity\<close> is outside the model; below
  \<open>2^(-1022)\<close> the spacing stays \<open>2^(-1074)\<close>, as for the subnormal numbers. A decimal
  literal \<open>c\<close> of the source is the number \<open>fl c\<close>.
\<close>

definition rne :: "real \<Rightarrow> int" where
  \<comment> \<open>the nearest integer, a tie going to the even one\<close>
  "rne x =
     (let f = \<lfloor>x\<rfloor>; r = x - real_of_int f
      in if r < 1 / 2 then f else if r > 1 / 2 then f + 1 else if even f then f else f + 1)"

definition binade :: "real \<Rightarrow> int" where
  \<comment> \<open>the binary exponent of a non-zero number, not below that of the subnormal numbers\<close>
  "binade x = max (- 1022) \<lfloor>log 2 \<bar>x\<bar>\<rfloor>"

definition ulp :: "real \<Rightarrow> real" where
  \<comment> \<open>the spacing of the binary64 numbers around \<open>x\<close>: 53 significant bits\<close>
  "ulp x = 2 powr (real_of_int (binade x) - 52)"

definition fl :: "real \<Rightarrow> real" where
  "fl x = (if x = 0 then 0 else ulp x * real_of_int (rne (x / ulp x)))"

definition fadd :: "real \<Rightarrow> real \<Rightarrow> real" where
  "fadd x y = fl (x + y)"

definition fsub :: "real \<Rightarrow> real \<Rightarrow> real" where
  "fsub x y = fl (x - y)"

definition fmul :: "real \<Rightarrow> real \<Rightarrow> real" where
  "fmul x y = fl (x * y)"

definition fdiv :: "real \<Rightarrow> real \<Rightarrow> real" where
  \<comment> \<open>for a divisor that is not zero\<close>
  "fdiv x y = fl (x / y)"

definition math_exp :: "real \<Rightarrow> real" where
  \<comment> \<open>\<open>Math.exp\<close>, whose last bit the language leaves to the implementation: taken as
      the correctly rounded exponential\<close>
  "math_exp x = fl (exp x)"

definition round1 :: "real \<Rightarrow> real" where
  \<comment> \<open>\<open>Math.round(x * 10) / 10\<close>\<close>
  "round1 x = fdiv (real_of_int (math_round (fmul x 10))) 10"

text \<open>
  \<open>Array.prototype.sort\<close> with a comparator is stable. It is modelled as an insertion
  sort; \<open>after a b\<close> says that the comparator is positive on \<open>(a, b)\<close>, so that
  \<open>a\<close> has to come after \<open>b\<close>. A comparator value of \<open>NaN\<close> counts as \<open>0\<close>.
\<close>

fun insert_by :: "('a \<Rightarrow> 'a \<Rightarrow> bool) \<Rightarrow> 'a \<Rightarrow> 'a list \<Rightarrow> 'a list" where
  "insert_by after x [] = [x]"
| "insert_by after x (y # ys) =
     (if after x y then y # insert_by after x ys else x # y # ys)"

definition sort_by :: "('a \<Rightarrow> 'a \<Rightarrow> bool) \<Rightarrow> 'a list \<Rightarrow> 'a list" where
  "sort_by after xs = foldr (insert_by after) xs []"

text \<open>
  Where JavaScript divides by a number that can be zero and only compares the quotient
  with a non-negative constant, the comparison is written out: \<open>x / 0\<close> is
  \<open>Infinity\<close> for positive \<open>x\<close> and \<open>NaN\<close> or \<open>-Infinity\<close> otherwise.
\<close>

definition quotient_exceeds :: "real \<Rightarrow> real \<Rightarrow> real \<Rightarrow> bool" where
  \<comment> \<open>\<open>x / y > c\<close>\<close>
  "quotient_exceeds x y c = (if y = 0 then 0 < x else c < fdiv x y)"

definition js_trunc :: "real \<Rightarrow> int" where
  "js_trunc x = (if 0 \<le> x then \<lfloor>x\<rfloor> else \<lceil>x\<rceil>)"

definition js_rem :: "real \<Rightarrow> real \<Rightarrow> real" where
  \<comment> \<open>the operator \<open>%\<close> for a non-zero divisor: the remainder has the sign of \<open>x\<close>\<close>
  "js_rem x y = x - y * real_of_int (js_trunc (x / y))"

subsection \<open>Strings\<close>

function show_nat :: "nat \<Rightarrow> string" where
  "show_nat n =
     (if n < 10 then [''0123456789'' ! n]
      else show_nat (n div 10) @ [''0123456789'' ! (n mod 10)])"
  by pat_completeness auto
termination
  by (relation "measure (\<lambda>n. n)") auto

declare show_nat.simps [simp del]

definition show_int :: "int \<Rightarrow> string" where
  \<comment> \<open>the decimal text of an integer-valued number\<close>
  "show_int i = (if i < 0 then ''-'' @ show_nat (nat (- i)) else show_nat (nat i))"

definition padStart2 :: "string \<Rightarrow> string" where
  \<comment> \<open>\<open>s.padStart(2, '0')\<close>\<close>
  "padStart2 s = replicate (2 - length s) (CHR ''0'') @ s"

definition toFixed2 :: "real \<Rightarrow> string" where
  \<comment> \<open>\<open>x.toFixed(2)\<close> for a binary64 value \<open>x\<close> with \<open>|x| < 1e21\<close>: the nearest
      multiple of \<open>0.01\<close> of the exact value, a tie going away from zero\<close>
  "toFixed2 x =
     (let n = nat (math_round (\<bar>x\<bar> * 100))
      in (if x < 0 then ''-'' else [])
           @ show_nat (n div 100) @ ''.'' @ padStart2 (show_nat (n mod 100)))"

definition split_T :: "string \<Rightarrow> string" where
  \<comment> \<open>\<open>s.split('T')[0]\<close>\<close>
  "split_T s = takeWhile (\<lambda>c. c \<noteq> CHR ''T'') s"

definition lower_char :: "char \<Rightarrow> char" where
  \<comment> \<open>\<open>toLowerCase\<close> on the ASCII letters\<close>
  "lower_char c =
     (case map_of (zip ''ABCDEFGHIJKLMNOPQRSTUVWXYZ'' ''abcdefghijklmnopqrstuvwxyz'') c of
        Some l \<Rightarrow> l
      | None \<Rightarrow> c)"

definition toLowerCase :: "string \<Rightarrow> string" where
  "toLowerCase s = map lower_char s"

fun str_includes :: "string \<Rightarrow> string \<Rightarrow> bool" where
  \<comment> \<open>\<open>s.includes(pat)\<close>\<close>
  "str_includes [] pat = (pat = [])"
| "str_includes (c # cs) pat = (take (length pat) (c # cs) = pat \<or> str_includes cs pat)"

subsection \<open>Dates\<close>

text \<open>
  A \<open>Date\<close> is its time value, the milliseconds since the epoch; a time value beyond
  \<open>8.64e15\<close> is the invalid date, \<open>None\<close>. The clock, the date parser and the local
  time zone of the JavaScript runtime are parameters of the model. The zone has a
  standard offset from UTC and a list of intervals of UTC time in which local time is
  one hour ahead of standard time (daylight saving time). \<open>local_tza\<close> is the offset
  that ECMAScript uses to turn a UTC time into local time and, with \<open>isUTC\<close> false, a
  local time into UTC: a local time that occurs twice or not at all around a change of
  the offset is read with the offset before the change. A calendar day is its day
  number, the days since 1 January 1970; the day number stands for the text
  \<open>YYYY-MM-DD\<close> that \<open>toISOString().split('T')[0]\<close> produces.
\<close>

record runtime =
  now :: int  \<comment> \<open>the time value of \<open>new Date()\<close>\<close>
  std_offset :: int  \<comment> \<open>local standard time minus UTC, in milliseconds\<close>
  dst_windows :: "(int \<times> int) list"
    \<comment> \<open>the UTC intervals \<open>[start, end)\<close> of daylight saving time\<close>
  parse_date :: "string \<Rightarrow> int option"  \<comment> \<open>\<open>new Date(s)\<close>; \<open>None\<close> is \<open>Invalid Date\<close>\<close>

definition day_ms :: int where
  "day_ms = 86400000"

definition hour_ms :: int where
  "hour_ms = 3600000"

definition time_clip :: "int \<Rightarrow> int option" where
  "time_clip t = (if \<bar>t\<bar> \<le> 8640000000000000 then Some t else None)"

definition dst_active :: "runtime \<Rightarrow> int \<Rightarrow> bool" where
  "dst_active rt t = (\<exists>w \<in> set (dst_windows rt). fst w \<le> t \<and> t < snd w)"

definition local_tza :: "runtime \<Rightarrow> int \<Rightarrow> bool \<Rightarrow> int" where
  "local_tza rt t isUTC =
     (if isUTC then std_offset rt + (if dst_active rt t then hour_ms else 0)
      else std_offset rt
             + (if dst_active rt (t - std_offset rt - hour_ms) then hour_ms else 0))"

definition local_time :: "runtime \<Rightarrow> int \<Rightarrow> int" where
  "local_time rt t = t + local_tza rt t True"

definition utc_time :: "runtime \<Rightarrow> int \<Rightarrow> int" where
  "utc_time rt t = t - local_tza rt t False"

definition add_days :: "runtime \<Rightarrow> int \<Rightarrow> int \<Rightarrow> int option" where
  \<comment> \<open>the time value after \<open>d.setDate(d.getDate() + n)\<close>: \<open>n\<close> local calendar days
      later at the same local time of day\<close>
  "add_days rt t n = time_clip (utc_time rt (local_time rt t + n * day_ms))"

definition date_value :: "runtime \<Rightarrow> string option \<Rightarrow> int option" where
  \<comment> \<open>\<open>new Date(a.start_date_local)\<close>; an absent field gives \<open>Invalid Date\<close>\<close>
  "date_value rt s = (case s of None \<Rightarrow> None | Some x \<Rightarrow> parse_date rt x)"

definition local_day :: "runtime \<Rightarrow> int \<Rightarrow> int" where
  \<comment> \<open>the calendar day that \<open>toDateString()\<close> prints\<close>
  "local_day rt t = local_time rt t div day_ms"

definition iso_day :: "int \<Rightarrow> int" where
  \<comment> \<open>the calendar day that \<open>toISOString()\<close> prints\<close>
  "iso_day t = t div day_ms"

section \<open>Activity records and the calculator object\<close>

datatype error = TypeError

record activity =
  type :: "string option"
  name :: "string option"
  start_date_local :: "string option"
  moving_time :: real
  distance :: "real option"
  has_heartrate :: bool
  average_heartrate :: "real option"
  average_watts :: "real option"
  weighted_average_watts :: "real option"

record metrics =
  activities :: "activity list"
  maxHR :: int
  thresholdHR :: int
  restingHR :: int
  ftp :: int

definition calculateAge :: "int \<Rightarrow> int \<Rightarrow> int" where
  \<comment> \<open>\<open>currentYear\<close> and \<open>accountYear\<close> are the \<open>getFullYear()\<close> of now and of \<open>created_at\<close>\<close>
  "calculateAge currentYear accountYear =
     (let yearsActive = currentYear - accountYear in 25 + yearsActive)"

definition effort_power :: "activity \<Rightarrow> real" where
  \<comment> \<open>\<open>a.weighted_average_watts || a.average_watts\<close>\<close>
  "effort_power a =
     (if truthy (weighted_average_watts a) then num (weighted_average_watts a)
      else num (average_watts a))"

definition estimateFTP :: "activity list \<Rightarrow> int" where
  \<comment> \<open>the comparator subtracts two powers: the difference of two binary64 numbers has
      the sign of the exact difference\<close>
  "estimateFTP acts =
     (let activitiesWithPower =
            filter (\<lambda>a. truthy (average_watts a) \<and> moving_time a \<ge> 1200) acts
      in case activitiesWithPower of
           [] \<Rightarrow> 250
         | a0 # rest \<Rightarrow>
             (case sort_by (\<lambda>a b. effort_power b - effort_power a > 0)
                     (filter (\<lambda>a. moving_time a \<ge> 1200 \<and> moving_time a \<le> 1800)
                        activitiesWithPower) of
                best20Min # _ \<Rightarrow> math_round (fmul (effort_power best20Min) (fl 0.95))
              | [] \<Rightarrow>
                  (let bestAvgWatts =
                         fold max (map (\<lambda>a. num (average_watts a)) rest)
                           (num (average_watts a0))
                   in math_round (fmul bestAvgWatts 0.75))))"

definition StravaMetrics :: "int \<Rightarrow> int \<Rightarrow> activity list \<Rightarrow> metrics" where
  \<comment> \<open>the constructor\<close>
  "StravaMetrics currentYear accountYear acts =
     (let age = calculateAge currentYear accountYear;
          mx = 220 - age
      in \<lparr> activities = acts,
           maxHR = mx,
           thresholdHR = math_round (fmul (real_of_int mx) (fl 0.9)),
           restingHR = 60,
           ftp = estimateFTP acts \<rparr>)"

definition calculateTSS :: "metrics \<Rightarrow> activity \<Rightarrow> int" where
  \<comment> \<open>when \<open>maxHR = restingHR\<close> the heart-rate branch divides by zero in JavaScript\<close>
  "calculateTSS m a =
     (let durationHours = fdiv (moving_time a) 3600 in
      if truthy (average_watts a) \<and> ftp m \<noteq> 0 then
        (let intensityFactor = fdiv (num (average_watts a)) (real_of_int (ftp m))
         in math_round
              (fmul (fmul (fmul durationHours intensityFactor) intensityFactor) 100))
      else if has_heartrate a \<and> truthy (average_heartrate a) then
        (let hrr = fdiv (fsub (num (average_heartrate a)) (real_of_int (restingHR m)))
                     (real_of_int (maxHR m - restingHR m));
             trimp = fmul (fmul (fmul (fdiv (moving_time a) 60) hrr) (fl 0.64))
                       (math_exp (fmul (fl 1.92) hrr))
         in math_round trimp)
      else if truthy (distance a) \<and> moving_time a \<noteq> 0 then
        (let paceMinPerKm = fdiv (fdiv (moving_time a) 60) (fdiv (num (distance a)) 1000);
             intensity = (if paceMinPerKm < 4.5 then fl 1.2
                          else if paceMinPerKm < 5.5 then fl 0.8 else 0.5)
         in math_round (fmul (fmul durationHours 60) intensity))
      else 0)"

section \<open>Training load\<close>

record training_load_point =
  tl_date :: int
  ctl :: real
  atl :: real
  tsb :: real

definition on_day :: "runtime \<Rightarrow> int \<Rightarrow> activity \<Rightarrow> bool" where
  \<comment> \<open>\<open>new Date(a.start_date_local).toDateString() === date.toDateString()\<close>\<close>
  "on_day rt d a =
     (case date_value rt (start_date_local a) of
        None \<Rightarrow> False
      | Some t \<Rightarrow> local_day rt t = local_day rt d)"

definition tss_today :: "runtime \<Rightarrow> metrics \<Rightarrow> activity list \<Rightarrow> int \<Rightarrow> real" where
  \<comment> \<open>a sum of integers, which binary64 adds exactly below \<open>2^53\<close>\<close>
  "tss_today rt m acts d =
     foldl (\<lambda>sum a. sum + real_of_int (calculateTSS m a)) 0 (filter (on_day rt d) acts)"

definition calculateCTL :: "runtime \<Rightarrow> metrics \<Rightarrow> activity list \<Rightarrow> int \<Rightarrow> real \<Rightarrow> real" where
  "calculateCTL rt m acts d previousCTL =
     (let tssToday = tss_today rt m acts d
      in fadd previousCTL
           (fmul (fsub tssToday previousCTL) (fsub 1 (math_exp (fdiv (- 1) 42)))))"

definition calculateATL :: "runtime \<Rightarrow> metrics \<Rightarrow> activity list \<Rightarrow> int \<Rightarrow> real \<Rightarrow> real" where
  "calculateATL rt m acts d previousATL =
     (let tssToday = tss_today rt m acts d
      in fadd previousATL
           (fmul (fsub tssToday previousATL) (fsub 1 (math_exp (fdiv (- 1) 7)))))"

definition calculateTSB :: "real \<Rightarrow> real \<Rightarrow> real" where
  "calculateTSB c a = fsub c a"

definition starts_after :: "runtime \<Rightarrow> activity \<Rightarrow> activity \<Rightarrow> bool" where
  \<comment> \<open>\<open>new Date(a.start_date_local) - new Date(b.start_date_local) > 0\<close>\<close>
  "starts_after rt a b =
     (case (date_value rt (start_date_local a), date_value rt (start_date_local b)) of
        (Some x, Some y) \<Rightarrow> x - y > 0
      | _ \<Rightarrow> False)"

function history_loop ::
  "runtime \<Rightarrow> metrics \<Rightarrow> activity list \<Rightarrow> int \<Rightarrow> int \<Rightarrow> real \<Rightarrow> real
     \<Rightarrow> training_load_point list" where
  "history_loop rt m acts today d c a =
     (if d \<le> today then
        (let c' = calculateCTL rt m acts d c;
             a' = calculateATL rt m acts d a;
             b = calculateTSB c' a'
         in \<lparr> tl_date = iso_day d, ctl = round1 c', atl = round1 a', tsb = round1 b \<rparr>
              # (case add_days rt d 1 of
                   None \<Rightarrow> []
                 | Some d' \<Rightarrow> history_loop rt m acts today d' c' a'))
      else [])"
  by pat_completeness auto
termination
proof (relation "measure (\<lambda>(rt, m, acts, today, d, c, a). nat (today - d + 1))")
  show "wf (measure (\<lambda>(rt, m, acts, today, d, c, a). nat (today - d + 1)))"
    by simp
next
  fix rt :: runtime and m :: metrics and acts :: "activity list" and today d d' :: int
    and c a x xa xb :: real
  assume le: "d \<le> today" and step: "add_days rt d 1 = Some d'"
  have "d' = utc_time rt (local_time rt d + 1 * day_ms)"
    using step by (simp add: add_days_def time_clip_def split: if_splits)
  then have "d + day_ms - hour_ms \<le> d'"
    by (simp add: utc_time_def local_time_def local_tza_def hour_ms_def)
  then have "d < d'" by (simp add: day_ms_def hour_ms_def)
  with le show "((rt, m, acts, today, d', x, xa), (rt, m, acts, today, d, c, a))
      \<in> measure (\<lambda>(rt, m, acts, today, d, c, a). nat (today - d + 1))"
    by simp
qed

declare history_loop.simps [simp del]

definition generateTrainingLoadHistory ::
  "runtime \<Rightarrow> metrics \<Rightarrow> int \<Rightarrow> training_load_point list" where
  \<comment> \<open>\<open>daysBack\<close> is a whole number of days; a call without it passes \<open>90\<close>. An
      invalid \<open>startDate\<close> fails the loop guard at once.\<close>
  "generateTrainingLoadHistory rt m daysBack =
     (let sortedActs = sort_by (starts_after rt) (activities m);
          today = now rt
      in case add_days rt today (- daysBack) of
           None \<Rightarrow> []
         | Some startDate \<Rightarrow> history_loop rt m sortedActs today startDate 0 0)"

section \<open>VO2max and race predictions\<close>

record vo2max_sample =
  vs_date :: string
  vo2max :: real
  vs_distance :: "real option"
  activityName :: "string option"

definition vdot_formula :: "real \<Rightarrow> real \<Rightarrow> real" where
  \<comment> \<open>the expression that \<open>estimateVO2max\<close> assigns to \<open>vdot\<close>\<close>
  "vdot_formula velocity timeMinutes =
     fdiv (fadd (fadd (- fl 4.6) (fmul (fl 0.182258) velocity))
             (fmul (fmul (fl 0.000104) velocity) velocity))
       (fadd (fadd (fl 0.8)
                (fmul (fl 0.1894393) (math_exp (fmul (- fl 0.012778) timeMinutes))))
          (fmul (fl 0.2989558) (math_exp (fmul (- fl 0.1932605) timeMinutes))))"

definition estimateVO2max :: "metrics \<Rightarrow> activity \<Rightarrow> real option" where
  \<comment> \<open>\<open>None\<close> is \<open>null\<close>; the source also computes \<open>paceMetersPerMin\<close> and \<open>vo2\<close>
      and never reads them\<close>
  "estimateVO2max m a =
     (if \<not> has_heartrate a \<or> \<not> truthy (average_heartrate a) then None
      else if \<not> truthy (distance a) \<or> moving_time a = 0 then None
      else if num (distance a) > 3000
                \<and> quotient_exceeds (num (average_heartrate a)) (real_of_int (maxHR m)) 0.75
      then
        (let timeMinutes = fdiv (moving_time a) 60;
             distanceKm = fdiv (num (distance a)) 1000;
             velocity = fdiv (fmul distanceKm 1000) timeMinutes;
             vdot = vdot_formula velocity timeMinutes
         in Some (round1 vdot))
      else None)"

definition quality_run :: "metrics \<Rightarrow> activity \<Rightarrow> bool" where
  \<comment> \<open>the filter of \<open>generateVO2maxHistory\<close>\<close>
  "quality_run m a =
     (if \<not> has_heartrate a \<or> \<not> truthy (average_heartrate a) then False
      else if \<not> truthy (distance a) \<or> num (distance a) < 3000 then False
      else quotient_exceeds (num (average_heartrate a)) (real_of_int (maxHR m)) 0.75)"

fun vo2max_loop :: "metrics \<Rightarrow> activity list \<Rightarrow> error + vo2max_sample list" where
  "vo2max_loop m [] = Inr []"
| "vo2max_loop m (a # rest) =
     (case estimateVO2max m a of
        None \<Rightarrow> vo2max_loop m rest
      | Some v \<Rightarrow>
          if v \<noteq> 0 \<and> v > 30 \<and> v < 90 then
            (case start_date_local a of
               None \<Rightarrow> Inl TypeError
             | Some s \<Rightarrow>
                 (case vo2max_loop m rest of
                    Inl e \<Rightarrow> Inl e
                  | Inr history \<Rightarrow>
                      Inr (\<lparr> vs_date = split_T s, vo2max = v, vs_distance = distance a,
                             activityName = name a \<rparr> # history)))
          else vo2max_loop m rest)"

definition generateVO2maxHistory :: "runtime \<Rightarrow> metrics \<Rightarrow> error + vo2max_sample list" where
  "generateVO2maxHistory rt m =
     (let qualityRuns = sort_by (starts_after rt) (filter (quality_run m) (activities m))
      in vo2max_loop m qualityRuns)"

definition race_velocity :: "real \<Rightarrow> real \<Rightarrow> real" where
  \<comment> \<open>\<open>velocity\<close> of \<open>predictTime\<close>\<close>
  "race_velocity distanceKm v =
     fdiv (fmul (fmul v (fl 0.2)) distanceKm)
       (fadd (fmul (fl 0.000104) distanceKm) (fl 0.182258))"

definition time_minutes :: "real \<Rightarrow> real \<Rightarrow> real" where
  \<comment> \<open>\<open>timeMinutes\<close> of \<open>predictTime\<close>\<close>
  "time_minutes distanceKm v =
     (let velocity = race_velocity distanceKm v
      in fdiv (fmul distanceKm 1000) velocity)"

definition predictTime :: "real \<Rightarrow> real \<Rightarrow> string" where
  \<comment> \<open>when \<open>velocity\<close> is \<open>0\<close> JavaScript divides by zero; the operator \<open>%\<close> is exact\<close>
  "predictTime distanceKm v =
     (let timeMinutes = time_minutes distanceKm v;
          hours = \<lfloor>fdiv timeMinutes 60\<rfloor>;
          minutes = \<lfloor>js_rem timeMinutes 60\<rfloor>;
          seconds = \<lfloor>fmul (js_rem timeMinutes 1) 60\<rfloor>
      in if hours > 0
         then show_int hours @ '':'' @ padStart2 (show_int minutes) @ '':''
                @ padStart2 (show_int seconds)
         else show_int minutes @ '':'' @ padStart2 (show_int seconds))"

record race_predictions =
  currentVO2max :: real
  predictions :: "(string \<times> string) list"

definition predictRaceTimes :: "runtime \<Rightarrow> metrics \<Rightarrow> error + race_predictions option" where
  "predictRaceTimes rt m =
     (case generateVO2maxHistory rt m of
        Inl e \<Rightarrow> Inl e
      | Inr vo2History \<Rightarrow>
          if vo2History = [] then Inr None
          else
            (let thirtyDaysAgo = add_days rt (now rt) (- 30);
                 recentVO2 =
                   map vo2max
                     (filter (\<lambda>h. case (parse_date rt (vs_date h), thirtyDaysAgo) of
                                     (Some t, Some limit) \<Rightarrow> t \<ge> limit
                                   | _ \<Rightarrow> False) vo2History);
                 current =
                   (case recentVO2 of
                      [] \<Rightarrow> vo2max (last vo2History)
                    | x # xs \<Rightarrow> fdiv (foldl fadd x xs) (real (length recentVO2)))
             in Inr (Some \<lparr> currentVO2max = round1 current,
                            predictions =
                              [(''5k'', predictTime 5 current),
                               (''10k'', predictTime 10 current),
                               (''Half Marathon'', predictTime (fl 21.097) current),
                               (''Marathon'', predictTime (fl 42.195) current)] \<rparr>)))"

section \<open>Power curve and critical power\<close>

record curve_point =
  duration :: real
  power :: real
  pc_date :: string
  pc_activityName :: "string option"

record critical_power =
  cp :: int
  wPrime :: int

record power_analysis =
  curve :: "curve_point list"
  criticalPower :: "critical_power option"

definition calculateCriticalPower :: "curve_point list \<Rightarrow> critical_power option" where
  "calculateCriticalPower points =
     (if length points < 3 then None
      else
        case (find (\<lambda>c. duration c \<ge> 250 \<and> duration c \<le> 350) points,
              find (\<lambda>c. duration c \<ge> 1000 \<and> duration c \<le> 1400) points) of
          (Some fiveMin, Some twentyMin) \<Rightarrow>
            (let c = fdiv (fsub (fmul (power fiveMin) (duration fiveMin))
                             (fmul (power twentyMin) (duration twentyMin)))
                       (fsub (duration fiveMin) (duration twentyMin));
                 w = fmul (fsub (power fiveMin) c) (duration fiveMin)
             in Some \<lparr> cp = math_round c, wPrime = math_round w \<rparr>)
        | _ \<Rightarrow> None)"

definition near_duration :: "real \<Rightarrow> activity \<Rightarrow> bool" where
  \<comment> \<open>\<open>Math.abs(a.moving_time - duration) < duration * 0.2\<close>\<close>
  "near_duration d a = (\<bar>fsub (moving_time a) d\<bar> < fmul d (fl 0.2))"

fun curve_loop :: "activity list \<Rightarrow> real list \<Rightarrow> error + curve_point list" where
  "curve_loop activitiesWithPower [] = Inr []"
| "curve_loop activitiesWithPower (d # ds) =
     (case filter (near_duration d) activitiesWithPower of
        [] \<Rightarrow> curve_loop activitiesWithPower ds
      | c0 # candidates \<Rightarrow>
          (let bestEffort =
                 foldl (\<lambda>best current.
                          if effort_power current > effort_power best then current else best)
                   c0 candidates
           in case start_date_local bestEffort of
                None \<Rightarrow> Inl TypeError
              | Some s \<Rightarrow>
                  (case curve_loop activitiesWithPower ds of
                     Inl e \<Rightarrow> Inl e
                   | Inr points \<Rightarrow>
                       Inr (\<lparr> duration = d, power = effort_power bestEffort,
                              pc_date = split_T s, pc_activityName = name bestEffort \<rparr>
                            # points))))"

definition analyzePowerCurve :: "metrics \<Rightarrow> error + power_analysis option" where
  "analyzePowerCurve m =
     (let activitiesWithPower = filter (\<lambda>a. truthy (average_watts a)) (activities m)
      in if activitiesWithPower = [] then Inr None
         else
           case curve_loop activitiesWithPower
                  [5, 10, 30, 60, 120, 300, 600, 1200, 1800, 3600] of
             Inl e \<Rightarrow> Inl e
           | Inr points \<Rightarrow>
               Inr (Some \<lparr> curve = points,
                            criticalPower = calculateCriticalPower points \<rparr>))"

section \<open>Interval workouts\<close>

record interval_workout =
  iw_date :: string
  iw_name :: "string option"
  iw_distance :: string
  avgPace :: string
  avgHR :: "int option"
  avgPower :: "int option"
  tss :: int
  quality :: int

definition calculateWorkoutQuality :: "metrics \<Rightarrow> activity \<Rightarrow> real \<Rightarrow> int" where
  "calculateWorkoutQuality m a t =
     (let score0 = 5;
          score1 =
            (if quotient_exceeds t (fdiv (moving_time a) 3600) 80 then score0 + 2
             else if quotient_exceeds t (fdiv (moving_time a) 3600) 60 then score0 + 1
             else score0);
          score2 =
            (if has_heartrate a then
               (case average_heartrate a of
                  None \<Rightarrow> score1
                | Some h \<Rightarrow>
                    if quotient_exceeds h (real_of_int (maxHR m)) (fl 0.85) then score1 + 2
                    else if quotient_exceeds h (real_of_int (maxHR m)) 0.75 then score1 + 1
                    else score1)
             else score1);
          score3 =
            (if truthy (average_watts a) \<and> ftp m \<noteq> 0 then
               (let powerPercent = fdiv (num (average_watts a)) (real_of_int (ftp m))
                in if powerPercent > fl 0.9 then score2 + 1 else score2)
             else score2)
      in min 10 (max 0 score3))"

definition interval_name :: "string \<Rightarrow> bool" where
  "interval_name n =
     (let lowered = toLowerCase n
      in str_includes lowered ''interval'' \<or>
         str_includes lowered ''x '' \<or>
         str_includes lowered ''tempo'' \<or>
         str_includes lowered ''fartlek'' \<or>
         str_includes lowered ''rep'')"

fun interval_filter :: "activity list \<Rightarrow> error + activity list" where
  \<comment> \<open>\<open>a.name.toLowerCase()\<close> raises when the name is absent\<close>
  "interval_filter [] = Inr []"
| "interval_filter (a # rest) =
     (case name a of
        None \<Rightarrow> Inl TypeError
      | Some n \<Rightarrow>
          (case interval_filter rest of
             Inl e \<Rightarrow> Inl e
           | Inr kept \<Rightarrow> Inr (if interval_name n then a # kept else kept)))"

definition avg_pace :: "activity \<Rightarrow> string" where
  \<comment> \<open>the text of \<open>avgPace\<close>; without a distance the pace is \<open>NaN\<close>, with distance \<open>0\<close>
      it is \<open>NaN\<close> or infinite\<close>
  "avg_pace w =
     (case distance w of
        None \<Rightarrow> ''NaN:NaN''
      | Some d \<Rightarrow>
          if d = 0 then
            (if moving_time w > 0 then ''Infinity:NaN''
             else if moving_time w < 0 then ''-Infinity:NaN''
             else ''NaN:NaN'')
          else
            (let paceMinPerKm = fdiv (fdiv (moving_time w) 60) (fdiv d 1000)
             in show_int \<lfloor>paceMinPerKm\<rfloor> @ '':''
                  @ padStart2 (show_int (math_round (fmul (js_rem paceMinPerKm 1) 60)))))"

fun interval_map :: "metrics \<Rightarrow> activity list \<Rightarrow> error + interval_workout list" where
  "interval_map m [] = Inr []"
| "interval_map m (workout # rest) =
     (let t = calculateTSS m workout
      in case start_date_local workout of
           None \<Rightarrow> Inl TypeError
         | Some s \<Rightarrow>
             (case interval_map m rest of
                Inl e \<Rightarrow> Inl e
              | Inr summaries \<Rightarrow>
                  Inr (\<lparr> iw_date = split_T s,
                         iw_name = name workout,
                         iw_distance =
                           (case distance workout of
                              None \<Rightarrow> ''NaN''
                            | Some d \<Rightarrow> toFixed2 (fdiv d 1000)),
                         avgPace = avg_pace workout,
                         avgHR =
                           (if truthy (average_heartrate workout)
                            then Some (math_round (num (average_heartrate workout)))
                            else None),
                         avgPower =
                           (if truthy (average_watts workout)
                            then Some (math_round (num (average_watts workout)))
                            else None),
                         tss = t,
                         quality = calculateWorkoutQuality m workout (real_of_int t) \<rparr>
                       # summaries)))"

definition dated_before :: "runtime \<Rightarrow> interval_workout \<Rightarrow> interval_workout \<Rightarrow> bool" where
  \<comment> \<open>\<open>new Date(b.date) - new Date(a.date) > 0\<close>\<close>
  "dated_before rt a b =
     (case (parse_date rt (iw_date b), parse_date rt (iw_date a)) of
        (Some x, Some y) \<Rightarrow> x - y > 0
      | _ \<Rightarrow> False)"

definition detectIntervals :: "runtime \<Rightarrow> metrics \<Rightarrow> int \<Rightarrow> error + interval_workout list" where
  \<comment> \<open>the parameter \<open>minActivities\<close> is not read\<close>
  "detectIntervals rt m minActivities =
     (case interval_filter (activities m) of
        Inl e \<Rightarrow> Inl e
      | Inr intervalWorkouts \<Rightarrow>
          (case interval_map m intervalWorkouts of
             Inl e \<Rightarrow> Inl e
           | Inr summaries \<Rightarrow> Inr (sort_by (dated_before rt) summaries)))"

section \<open>Daily TSS\<close>

fun daily_loop ::
  "metrics \<Rightarrow> activity list \<Rightarrow> (string \<rightharpoonup> int) \<Rightarrow> error + (string \<rightharpoonup> int)" where
  "daily_loop m [] dailyData = Inr dailyData"
| "daily_loop m (a # rest) dailyData =
     (case start_date_local a of
        None \<Rightarrow> Inl TypeError
      | Some s \<Rightarrow>
          (let date = split_T s;
               t = calculateTSS m a;
               current = (case dailyData date of
                            None \<Rightarrow> 0
                          | Some v \<Rightarrow> if v = 0 then 0 else v)
           in daily_loop m rest (dailyData(date \<mapsto> current + t))))"

definition getDailyTSS :: "metrics \<Rightarrow> int \<Rightarrow> error + (string \<rightharpoonup> int)" where
  \<comment> \<open>the parameter \<open>daysBack\<close> is not read\<close>
  "getDailyTSS m daysBack = daily_loop m (activities m) Map.empty"

section \<open>Notions of the specification\<close>

definition qualifying :: "activity \<Rightarrow> bool" where
  \<comment> \<open>an effort that FTP estimation considers: power present and at least 20 minutes\<close>
  "qualifying a = (truthy (average_watts a) \<and> moving_time a \<ge> 1200)"

definition twenty_to_thirty :: "activity \<Rightarrow> bool" where
  \<comment> \<open>\<open>moving_time\<close> in \<open>[1200, 1800]\<close>\<close>
  "twenty_to_thirty a = (moving_time a \<ge> 1200 \<and> moving_time a \<le> 1800)"

definition cp_model :: "real \<Rightarrow> real \<Rightarrow> real \<Rightarrow> real \<Rightarrow> real" where
  \<comment> \<open>\<open>CP = (P5 t5 - P20 t20) / (t5 - t20)\<close>, each operation rounded to binary64\<close>
  "cp_model p5 t5 p20 t20 = fdiv (fsub (fmul p5 t5) (fmul p20 t20)) (fsub t5 t20)"

definition five_min :: "curve_point \<Rightarrow> bool" where
  "five_min c = (250 \<le> duration c \<and> duration c \<le> 350)"

definition twenty_min :: "curve_point \<Rightarrow> bool" where
  "twenty_min c = (1000 \<le> duration c \<and> duration c \<le> 1400)"


definition exact_minutes :: "real \<Rightarrow> real \<Rightarrow> real" where
  \<comment> \<open>\<open>timeMinutes = (D * 1000) / velocity\<close> with
      \<open>velocity = v * 0.2 * D / (0.000104 D + 0.182258)\<close>, in exact arithmetic\<close>
  "exact_minutes distanceKm v =
     (distanceKm * 1000) / (v * 0.2 * distanceKm / (0.000104 * distanceKm + 0.182258))"

definition format_duration :: "real \<Rightarrow> string" where
  \<comment> \<open>a duration in minutes as \<open>H:MM:SS\<close> from one hour on and as \<open>M:SS\<close> below, in
      whole seconds, minutes and seconds padded to two digits\<close>
  "format_duration timeMinutes =
     (let total = \<lfloor>timeMinutes * 60\<rfloor>;
          h = total div 3600;
          mi = total div 60 mod 60;
          s = total mod 60
      in if timeMinutes \<ge> 60
         then show_int h @ '':'' @ padStart2 (show_int mi) @ '':'' @ padStart2 (show_int s)
         else show_int (total div 60) @ '':'' @ padStart2 (show_int s))"

definition whole_seconds :: "real \<Rightarrow> int" where
  \<comment> \<open>the seconds that \<open>predictTime\<close> prints: the fraction of a minute times 60, rounded
      to binary64 and then down to an integer\<close>
  "whole_seconds timeMinutes = \<lfloor>fmul (timeMinutes - real_of_int \<lfloor>timeMinutes\<rfloor>) 60\<rfloor>"

definition date_key :: "activity \<Rightarrow> string option" where
  \<comment> \<open>the local calendar date of an activity, the text before the \<open>T\<close> of
      \<open>start_date_local\<close>\<close>
  "date_key a = map_option split_T (start_date_local a)"

definition daily_total :: "metrics \<Rightarrow> activity list \<Rightarrow> string \<rightharpoonup> int" where
  \<comment> \<open>for each date that has an activity, the sum of the TSS of the activities on it\<close>
  "daily_total m acts =
     (\<lambda>k. if \<exists>a \<in> set acts. date_key a = Some k
          then Some (sum_list (map (calculateTSS m) (filter (\<lambda>a. date_key a = Some k) acts)))
          else None)"

definition merge_totals :: "(string \<rightharpoonup> int) \<Rightarrow> (string \<rightharpoonup> int) \<Rightarrow> (string \<rightharpoonup> int)" where
  "merge_totals d e =
     (\<lambda>k. case e k of None \<Rightarrow> d k
                     | Some s \<Rightarrow> Some ((case d k of None \<Rightarrow> 0 | Some v \<Rightarrow> v) + s))"

definition accepted :: "metrics \<Rightarrow> activity \<Rightarrow> bool" where
  \<comment> \<open>the estimate of the activity is a number inside the open interval \<open>(30, 90)\<close>\<close>
  "accepted m a = (case estimateVO2max m a of None \<Rightarrow> False | Some v \<Rightarrow> 30 < v \<and> v < 90)"

definition untyped :: "activity \<Rightarrow> activity" where
  \<comment> \<open>the record with its \<open>type\<close> removed; two records differ only in \<open>type\<close> when
      their images agree\<close>
  "untyped a = a \<lparr> type := None \<rparr>"

definition without_types :: "metrics \<Rightarrow> metrics" where
  "without_types m = m \<lparr> activities := map untyped (activities m) \<rparr>"

section \<open>Concrete athletes and activities\<close>

definition bare_activity :: activity where
  \<comment> \<open>a record that carries only the fields every Strava activity has\<close>
  "bare_activity =
     \<lparr> type = Some ''Run'', name = Some ''Morning Run'',
       start_date_local = Some ''2025-06-01T08:00:00Z'', moving_time = 3600,
       distance = None, has_heartrate = False, average_heartrate = None,
       average_watts = None, weighted_average_watts = None \<rparr>"

definition zero_watts_run :: activity where
  \<comment> \<open>one hour, 10 km, a power meter that reported 0 W\<close>
  "zero_watts_run = bare_activity \<lparr> distance := Some 10000, average_watts := Some 0 \<rparr>"

definition threshold_hour :: activity where
  \<comment> \<open>one hour at 250 W with heart-rate and distance data\<close>
  "threshold_hour =
     bare_activity \<lparr> distance := Some 12000, has_heartrate := True,
       average_heartrate := Some 165, average_watts := Some 250 \<rparr>"

definition half_hour_ride :: activity where
  \<comment> \<open>half an hour at 175 W\<close>
  "half_hour_ride = bare_activity \<lparr> moving_time := 1800, average_watts := Some 175 \<rparr>"

definition brisk_run :: activity where
  \<comment> \<open>5 km in 17 minutes 5 seconds, no sensors\<close>
  "brisk_run = bare_activity \<lparr> moving_time := 1025, distance := Some 5000 \<rparr>"

definition long_ride :: activity where
  \<comment> \<open>one hour at 200 W: longer than any 20 to 30 minute effort\<close>
  "long_ride = bare_activity \<lparr> type := Some ''Ride'', average_watts := Some 200 \<rparr>"

definition tempo_effort :: activity where
  \<comment> \<open>25 minutes at 300 W, 310 W weighted\<close>
  "tempo_effort =
     bare_activity \<lparr> moving_time := 1500, average_watts := Some 300,
       weighted_average_watts := Some 310 \<rparr>"

definition twenty_minute_effort :: activity where
  \<comment> \<open>20 minutes 50 seconds at 280 W\<close>
  "twenty_minute_effort = bare_activity \<lparr> moving_time := 1250, average_watts := Some 280 \<rparr>"

definition three_point_curve :: "curve_point list" where
  "three_point_curve =
     [\<lparr> duration = 60, power = 400, pc_date = ''2025-05-01'', pc_activityName = None \<rparr>,
      \<lparr> duration = 300, power = 330, pc_date = ''2025-05-02'', pc_activityName = None \<rparr>,
      \<lparr> duration = 1200, power = 280, pc_date = ''2025-05-03'', pc_activityName = None \<rparr>]"

definition twenty_minute_analysis :: power_analysis where
  \<comment> \<open>what \<open>analyzePowerCurve\<close> returns for \<open>twenty_minute_effort\<close> alone\<close>
  "twenty_minute_analysis =
     \<lparr> curve = [\<lparr> duration = 1200, power = 280, pc_date = ''2025-06-01'',
                  pc_activityName = Some ''Morning Run'' \<rparr>],
       criticalPower = None \<rparr>"

definition demo_parse :: "string \<Rightarrow> int option" where
  \<comment> \<open>the time values of the date texts that the concrete activities use\<close>
  "demo_parse =
     map_of [(''2025-06-01T08:00:00Z'', 1748764800000), (''2025-06-01'', 1748736000000),
             (''2025-06-02T19:30:00Z'', 1748892600000), (''2025-06-02'', 1748822400000)]"

definition brussels_2025 :: "(int \<times> int) list" where
  \<comment> \<open>daylight saving time of 2025 in the zone Europe/Brussels: from 30 March, 01:00 UTC,
      to 26 October, 01:00 UTC\<close>
  "brussels_2025 = [(1743296400000, 1761440400000)]"

definition demo_runtime :: runtime where
  \<comment> \<open>1 June 2025, 18:00 UTC, in the zone Europe/Brussels\<close>
  "demo_runtime =
     \<lparr> now = 1748800800000, std_offset = 3600000, dst_windows = brussels_2025,
       parse_date = demo_parse \<rparr>"



definition spring_gap :: runtime where
  \<comment> \<open>2 April 2025, 00:30 UTC, in the zone Europe/Brussels: 02:30 local time, a time
      of day that 30 March did not have\<close>
  "spring_gap = demo_runtime \<lparr> now := 1743553800000 \<rparr>"

definition short_jog :: activity where
  \<comment> \<open>four minutes, 600 m, no sensors: a TSS of 2\<close>
  "short_jog = bare_activity \<lparr> moving_time := 240, distance := Some 600 \<rparr>"

definition evening_jog :: activity where
  \<comment> \<open>the next day: half an hour, 5 km, no sensors: a TSS of 15\<close>
  "evening_jog =
     bare_activity \<lparr> name := Some ''Evening Run'',
       start_date_local := Some ''2025-06-02T19:30:00Z'',
       moving_time := 1800, distance := Some 5000 \<rparr>"

definition jog_day_point :: training_load_point where
  \<comment> \<open>the binary64 numbers \<open>0.3\<close> and \<open>-0.2\<close>\<close>
  "jog_day_point = \<lparr> tl_date = 20240, ctl = 0, atl = fl (3 / 10), tsb = fl (- (2 / 10)) \<rparr>"

definition steady_run :: activity where
  \<comment> \<open>10 km in 40 minutes at 160 bpm\<close>
  "steady_run =
     bare_activity \<lparr> distance := Some 10000, moving_time := 2400, has_heartrate := True,
       average_heartrate := Some 160 \<rparr>"

definition steady_vdot :: real where
  \<comment> \<open>the VDOT of \<open>steady_run\<close> before rounding: 250 m/min for 40 minutes\<close>
  "steady_vdot = vdot_formula 250 40"

definition steady_sample :: vo2max_sample where
  "steady_sample =
     \<lparr> vs_date = ''2025-06-01'', vo2max = round1 steady_vdot, vs_distance = Some 10000,
       activityName = Some ''Morning Run'' \<rparr>"

definition unnamed_run :: activity where
  \<comment> \<open>a record without a \<open>name\<close>\<close>
  "unnamed_run = bare_activity \<lparr> name := None \<rparr>"

definition undated_run :: activity where
  \<comment> \<open>a record without a \<open>start_date_local\<close>\<close>
  "undated_run = bare_activity \<lparr> start_date_local := None \<rparr>"

definition steady_ride :: activity where
  \<comment> \<open>\<open>steady_run\<close> labelled as a ride\<close>
  "steady_ride = steady_run \<lparr> type := Some ''Ride'' \<rparr>"

definition long_run :: activity where
  \<comment> \<open>\<open>long_ride\<close> labelled as a run\<close>
  "long_run = long_ride \<lparr> type := Some ''Run'' \<rparr>"

section \<open>Auxiliary facts\<close>

subsection \<open>Binary64 rounding\<close>

text \<open>
  The rounding error of \<open>fl\<close>, the grid of the representable numbers, and two rules
  that evaluate \<open>fl\<close> on a concrete rational number: \<open>fl_eval_ge1\<close> for a number of
  absolute value in \<open>[2^n, 2^(n+1))\<close>, \<open>fl_eval_lt1\<close> for one in
  \<open>[2^(-n), 2^(1-n))\<close>.
\<close>

lemma rne_error: "\<bar>real_of_int (rne x) - x\<bar> \<le> 1 / 2"
  unfolding rne_def Let_def by (auto; linarith)

lemma rne_of_int: "rne (real_of_int n) = n"
  by (simp add: rne_def)

lemma rne_mono_int: "x \<le> real_of_int n \<Longrightarrow> rne x \<le> n"
proof -
  assume a: "x \<le> real_of_int n"
  show ?thesis
  proof (cases "x = real_of_int n")
    case True then show ?thesis by (simp add: rne_of_int)
  next
    case False
    with a have "x < real_of_int n" by simp
    then have "\<lfloor>x\<rfloor> < n" by (simp add: floor_less_iff)
    then have "\<lfloor>x\<rfloor> + 1 \<le> n" by simp
    then show ?thesis unfolding rne_def Let_def by auto
  qed
qed

lemma rne_ge_int: "real_of_int n \<le> x \<Longrightarrow> n \<le> rne x"
proof -
  assume "real_of_int n \<le> x"
  then have "n \<le> \<lfloor>x\<rfloor>" by (simp add: le_floor_iff)
  then show ?thesis unfolding rne_def Let_def by auto
qed

lemma ulp_pos: "0 < ulp x"
  by (simp add: ulp_def)

lemma binade_unique:
  assumes "2 powr real_of_int e \<le> \<bar>x\<bar>" and "\<bar>x\<bar> < 2 powr (real_of_int e + 1)"
    and "- 1022 \<le> e"
  shows "binade x = e"
proof -
  have pos: "0 < \<bar>x\<bar>" using assms(1) powr_gt_zero [of 2 "real_of_int e"] by linarith
  have "\<lfloor>log 2 \<bar>x\<bar>\<rfloor> = e"
    using assms(1,2) pos by (simp add: floor_log_eq_powr_iff)
  with assms(3) show ?thesis by (simp add: binade_def)
qed

lemma fl_error: "x \<noteq> 0 \<Longrightarrow> \<bar>fl x - x\<bar> \<le> ulp x / 2"
proof -
  assume nz: "x \<noteq> 0"
  define u where "u = ulp x"
  have u: "0 < u" by (simp add: u_def ulp_pos)
  define r where "r = real_of_int (rne (x / u))"
  have "fl x - x = u * (r - x / u)"
    using nz u by (simp add: fl_def u_def r_def right_diff_distrib)
  then have "\<bar>fl x - x\<bar> = u * \<bar>r - x / u\<bar>"
    using u by (simp add: abs_mult)
  also have "\<dots> \<le> u * (1 / 2)"
    using u rne_error [of "x / u"] unfolding r_def by (intro mult_left_mono) simp_all
  finally show ?thesis by (simp add: u_def)
qed

lemma ulp_bound: "x \<noteq> 0 \<Longrightarrow> ulp x \<le> \<bar>x\<bar> / 2 ^ 52 + 1 / 2 ^ 1074"
proof -
  assume nz: "x \<noteq> 0"
  show ?thesis
  proof (cases "- 1022 \<le> \<lfloor>log 2 \<bar>x\<bar>\<rfloor>")
    case True
    then have b: "binade x = \<lfloor>log 2 \<bar>x\<bar>\<rfloor>" by (simp add: binade_def)
    have "2 powr real_of_int \<lfloor>log 2 \<bar>x\<bar>\<rfloor> \<le> 2 powr log 2 \<bar>x\<bar>"
      by (intro powr_mono) simp_all
    also have "\<dots> = \<bar>x\<bar>" using nz by simp
    finally have "2 powr real_of_int (binade x) \<le> \<bar>x\<bar>" by (simp add: b)
    moreover have "ulp x = 2 powr real_of_int (binade x) / 2 ^ 52"
      by (simp add: ulp_def powr_diff)
    ultimately have "ulp x \<le> \<bar>x\<bar> / 2 ^ 52" by (simp add: divide_right_mono)
    then show ?thesis by (simp add: add_increasing2)
  next
    case False
    then have b: "binade x = - 1022" by (simp add: binade_def)
    have "ulp x = 2 powr (- 1074)" by (simp add: ulp_def b)
    also have "\<dots> = 1 / 2 ^ 1074"
      by (simp add: powr_minus_divide powr_realpow [symmetric])
    finally show ?thesis by simp
  qed
qed

lemma fl_near: "\<bar>fl x - x\<bar> \<le> \<bar>x\<bar> / 2 ^ 53 + 1 / 2 ^ 1075"
proof (cases "x = 0")
  case True
  then show ?thesis by (simp add: fl_def)
next
  case False
  have "\<bar>fl x - x\<bar> \<le> ulp x / 2" using False by (rule fl_error)
  also have "\<dots> \<le> (\<bar>x\<bar> / 2 ^ 52 + 1 / 2 ^ 1074) / 2"
    using ulp_bound [OF False] by simp
  also have "\<dots> = \<bar>x\<bar> / 2 ^ 53 + 1 / 2 ^ 1075" by simp
  finally show ?thesis .
qed


lemma fl_exact:
  assumes "x \<noteq> 0" and "x / ulp x = real_of_int k"
  shows "fl x = x"
proof -
  have "fl x = ulp x * real_of_int k"
    using assms by (simp add: fl_def rne_of_int)
  also have "\<dots> = ulp x * (x / ulp x)" by (simp only: assms(2))
  also have "\<dots> = x" using ulp_pos [of x] by simp
  finally show ?thesis .
qed

lemma two_powr_nat: "2 powr real n = (2::real) ^ n"
  by (simp add: powr_realpow)

lemma two_powr_neg: "2 powr (- real n) = 1 / (2::real) ^ n"
  by (simp add: powr_minus_divide two_powr_nat)

lemma ulp_of_binade:
  "binade x = int n \<Longrightarrow> n \<le> 52 \<Longrightarrow> ulp x = 1 / 2 ^ (52 - n)"
proof -
  assume b: "binade x = int n" and n: "n \<le> 52"
  have "real_of_int (int n) - 52 = - real (52 - n)" using n by simp
  then have "ulp x = 2 powr (- real (52 - n))" by (simp only: ulp_def b)
  then show ?thesis by (simp only: two_powr_neg)
qed

lemma binade_ge1:
  assumes "2 ^ n \<le> \<bar>x\<bar>" and "\<bar>x\<bar> < 2 ^ Suc n"
  shows "binade x = int n"
proof (rule binade_unique)
  have r: "real_of_int (int n) = real n" by simp
  show "2 powr real_of_int (int n) \<le> \<bar>x\<bar>" using assms(1) by (simp only: r two_powr_nat)
  have "real_of_int (int n) + 1 = real (Suc n)" by simp
  then have "2 powr (real_of_int (int n) + 1) = 2 ^ Suc n" by (simp only: two_powr_nat)
  then show "\<bar>x\<bar> < 2 powr (real_of_int (int n) + 1)" using assms(2) by simp
  show "- 1022 \<le> int n" by simp
qed

lemma binade_lt1:
  assumes "1 / 2 ^ n \<le> \<bar>x\<bar>" and "\<bar>x\<bar> < 2 / 2 ^ n" and "n \<le> 1022"
  shows "binade x = - int n"
proof (rule binade_unique)
  have r: "real_of_int (- int n) = - real n" by simp
  show "2 powr real_of_int (- int n) \<le> \<bar>x\<bar>" using assms(1) by (simp only: r two_powr_neg)
  have "2 powr (real_of_int (- int n) + 1) = 2 powr (- real n) * 2 powr 1"
    by (simp only: r powr_add)
  also have "\<dots> = 1 / 2 ^ n * 2" by (simp only: two_powr_neg powr_one_gt_zero_iff) simp
  finally have "2 powr (real_of_int (- int n) + 1) = 2 / 2 ^ n" by simp
  then show "\<bar>x\<bar> < 2 powr (real_of_int (- int n) + 1)" using assms(2) by simp
  show "- 1022 \<le> - int n" using assms(3) by simp
qed

lemma nonzero_of_lower:
  fixes x :: real
  assumes "0 < c" and "c \<le> \<bar>x\<bar>"
  shows "x \<noteq> 0"
  using assms by auto

lemma fl_eval_ge1:
  assumes "2 ^ n \<le> \<bar>x\<bar>" and "\<bar>x\<bar> < 2 ^ Suc n" and "n \<le> 52"
  shows "fl x = real_of_int (rne (x * 2 ^ (52 - n))) / 2 ^ (52 - n)"
proof -
  have nz: "x \<noteq> 0" using _ assms(1) by (rule nonzero_of_lower) simp
  have u: "ulp x = 1 / 2 ^ (52 - n)"
    using binade_ge1 [OF assms(1,2)] assms(3) by (rule ulp_of_binade)
  show ?thesis using nz by (simp add: fl_def u)
qed

lemma fl_eval_lt1:
  assumes "1 / 2 ^ n \<le> \<bar>x\<bar>" and "\<bar>x\<bar> < 2 / 2 ^ n" and "n \<le> 1022"
  shows "fl x = real_of_int (rne (x * 2 ^ (52 + n))) / 2 ^ (52 + n)"
proof -
  have nz: "x \<noteq> 0" using _ assms(1) by (rule nonzero_of_lower) simp
  have "real_of_int (- int n) - 52 = - real (52 + n)" by simp
  then have "ulp x = 2 powr (- real (52 + n))"
    by (simp only: ulp_def binade_lt1 [OF assms])
  then have u: "ulp x = 1 / 2 ^ (52 + n)" by (simp only: two_powr_neg)
  show ?thesis using nz by (simp add: fl_def u)
qed

lemma fl_of_int:
  assumes "\<bar>z\<bar> < 2 ^ 53"
  shows "fl (real_of_int z) = real_of_int z"
proof (cases "z = 0")
  case True
  then show ?thesis by (simp add: fl_def)
next
  case False
  define x where "x = real_of_int z"
  have "1 \<le> \<bar>z\<bar>" using False by linarith
  then have "real_of_int 1 \<le> real_of_int \<bar>z\<bar>" by (simp only: of_int_le_iff)
  then have x1: "1 \<le> \<bar>x\<bar>" by (simp add: x_def)
  have "real_of_int \<bar>z\<bar> < real_of_int (2 ^ 53)" using assms by (simp only: of_int_less_iff)
  then have "\<bar>x\<bar> < 2 ^ 53" by (simp add: x_def)
  then have xlt: "\<bar>x\<bar> < 2 powr real (53::nat)" by (simp only: two_powr_nat)
  have l0: "0 \<le> log 2 \<bar>x\<bar>" using x1 by simp
  have l53: "log 2 \<bar>x\<bar> < real (53::nat)"
    using x1 xlt by (subst log_less_iff) simp_all
  define e where "e = \<lfloor>log 2 \<bar>x\<bar>\<rfloor>"
  have e0: "0 \<le> e" using l0 unfolding e_def by simp
  have "e < 53" using l53 unfolding e_def by (simp add: floor_less_iff)
  then have e52: "e \<le> 52" by simp
  have b: "binade x = int (nat e)" using e0 by (simp add: binade_def e_def)
  have u: "ulp x = 1 / 2 ^ (52 - nat e)"
    using b by (rule ulp_of_binade) (use e52 in simp)
  have "x / ulp x = real_of_int (z * 2 ^ (52 - nat e))"
    unfolding u by (simp add: x_def)
  moreover have "x \<noteq> 0" using x1 by auto
  ultimately have "fl x = x" by (rule fl_exact [rotated])
  then show ?thesis by (simp add: x_def)
qed


lemma fl_zero [simp]: "fl 0 = 0"
  by (simp add: fl_def)

lemma fl_close: "\<bar>fl x - x\<bar> \<le> (\<bar>x\<bar> + 1) / (8 * 10 ^ 15)"
proof -
  have "\<bar>x\<bar> / 2 ^ 53 \<le> \<bar>x\<bar> / (8 * 10 ^ 15)"
    by (intro divide_left_mono) simp_all
  moreover have "(1::real) / 2 ^ 1075 \<le> 1 / 2 ^ 53"
    by (intro divide_left_mono power_increasing) simp_all
  then have "(1::real) / 2 ^ 1075 \<le> 1 / (8 * 10 ^ 15)" by simp
  ultimately have "\<bar>x\<bar> / 2 ^ 53 + 1 / 2 ^ 1075 \<le> \<bar>x\<bar> / (8 * 10 ^ 15) + 1 / (8 * 10 ^ 15)"
    by (rule add_mono)
  with fl_near [of x] show ?thesis by (simp add: add_divide_distrib)
qed

lemma rne_nonneg: "0 \<le> x \<Longrightarrow> 0 \<le> rne x"
  using rne_ge_int [of 0 x] by simp

lemma fl_nonneg: "0 \<le> x \<Longrightarrow> 0 \<le> fl x"
proof (cases "x = 0")
  case True
  then show ?thesis by (simp add: fl_def)
next
  case False
  assume "0 \<le> x"
  then have "0 \<le> x / ulp x" using ulp_pos [of x] by simp
  then have "0 \<le> rne (x / ulp x)" by (rule rne_nonneg)
  then show ?thesis using False ulp_pos [of x] by (simp add: fl_def)
qed

lemma rne_below_half: "x < real_of_int n + 1 / 2 \<Longrightarrow> rne x \<le> n"
proof -
  assume a: "x < real_of_int n + 1 / 2"
  have f: "\<lfloor>x\<rfloor> \<le> n"
  proof -
    have "x < real_of_int (n + 1)" using a by simp
    then have "\<lfloor>x\<rfloor> < n + 1" by (simp only: floor_less_iff)
    then show ?thesis by simp
  qed
  show ?thesis
  proof (cases "\<lfloor>x\<rfloor> = n")
    case True
    then have "x - real_of_int \<lfloor>x\<rfloor> < 1 / 2" using a by simp
    then show ?thesis using True by (simp add: rne_def Let_def)
  next
    case False
    with f have "\<lfloor>x\<rfloor> + 1 \<le> n" by simp
    then show ?thesis unfolding rne_def Let_def by auto
  qed
qed

lemma binade_powr_le:
  assumes "2 powr (- 1022) \<le> \<bar>x\<bar>"
  shows "2 powr real_of_int (binade x) \<le> \<bar>x\<bar>"
proof -
  have pos: "0 < \<bar>x\<bar>" using assms powr_gt_zero [of 2 "- 1022"] by linarith
  have "- 1022 \<le> log 2 \<bar>x\<bar>"
    using assms pos by (simp add: le_log_iff)
  then have "- 1022 \<le> \<lfloor>log 2 \<bar>x\<bar>\<rfloor>" by (simp add: le_floor_iff)
  then have b: "binade x = \<lfloor>log 2 \<bar>x\<bar>\<rfloor>" by (simp add: binade_def)
  have "2 powr real_of_int \<lfloor>log 2 \<bar>x\<bar>\<rfloor> \<le> 2 powr log 2 \<bar>x\<bar>"
    by (intro powr_mono) simp_all
  also have "\<dots> = \<bar>x\<bar>" using pos by simp
  finally show ?thesis by (simp only: b)
qed

lemma binade_powr_gt: "x \<noteq> 0 \<Longrightarrow> \<bar>x\<bar> < 2 powr (real_of_int (binade x) + 1)"
proof -
  assume nz: "x \<noteq> 0"
  have "log 2 \<bar>x\<bar> < real_of_int \<lfloor>log 2 \<bar>x\<bar>\<rfloor> + 1" by linarith
  also have "\<dots> \<le> real_of_int (binade x) + 1" by (simp add: binade_def)
  finally have "log 2 \<bar>x\<bar> < real_of_int (binade x) + 1" .
  then show ?thesis using nz by (simp add: log_less_iff)
qed

lemma fl_abs_upper: "\<bar>fl x\<bar> \<le> 2 powr (real_of_int (binade x) + 1)"
proof (cases "x = 0")
  case True
  then show ?thesis by (simp add: fl_def)
next
  case False
  define u where "u = ulp x"
  have u: "0 < u" by (simp add: u_def ulp_pos)
  have p: "2 powr (real_of_int (binade x) + 1) = u * 2 ^ 53"
  proof -
    have "real_of_int (binade x) + 1 = (real_of_int (binade x) - 52) + real (53::nat)" by simp
    then have "2 powr (real_of_int (binade x) + 1)
                 = 2 powr (real_of_int (binade x) - 52) * 2 powr real (53::nat)"
      by (simp only: powr_add)
    then show ?thesis by (simp only: two_powr_nat u_def ulp_def)
  qed
  have "\<bar>x\<bar> < u * 2 ^ 53" using binade_powr_gt [OF False] by (simp only: p)
  then have "x < u * 2 ^ 53" and "- (u * 2 ^ 53) < x" by linarith+
  then have "x / u < 2 ^ 53" and "- (2 ^ 53) < x / u"
    using u by (simp_all add: field_simps)
  then have up: "x / u \<le> real_of_int (2 ^ 53)" and lo: "real_of_int (- (2 ^ 53)) \<le> x / u"
    by simp_all
  from up have "rne (x / u) \<le> 2 ^ 53" by (rule rne_mono_int)
  moreover from lo have "- (2 ^ 53) \<le> rne (x / u)" by (rule rne_ge_int)
  ultimately have "\<bar>rne (x / u)\<bar> \<le> 2 ^ 53" by simp
  then have "\<bar>real_of_int (rne (x / u))\<bar> \<le> 2 ^ 53"
    by (metis of_int_abs of_int_le_iff of_int_numeral of_int_power)
  then have "u * \<bar>real_of_int (rne (x / u))\<bar> \<le> u * 2 ^ 53"
    using u by (intro mult_left_mono) simp_all
  moreover have "\<bar>fl x\<bar> = u * \<bar>real_of_int (rne (x / u))\<bar>"
    using False u by (simp add: fl_def u_def abs_mult)
  ultimately show ?thesis by (simp only: p)
qed

lemma fl_ge_one:
  assumes "1 \<le> x"
  shows "1 \<le> fl x"
proof -
  have nz: "x \<noteq> 0" using assms by simp
  have ax: "\<bar>x\<bar> = x" using assms by simp
  have l0: "0 \<le> log 2 \<bar>x\<bar>" using assms by simp
  then have e0: "0 \<le> \<lfloor>log 2 \<bar>x\<bar>\<rfloor>" by simp
  then have b: "binade x = \<lfloor>log 2 \<bar>x\<bar>\<rfloor>" by (simp add: binade_def)
  define n where "n = nat (binade x)"
  have bn: "binade x = int n" using e0 b by (simp add: n_def)
  define u where "u = ulp x"
  have u: "0 < u" by (simp add: u_def ulp_pos)
  have "(2::real) powr (- 1022) \<le> 2 powr 0" by (intro powr_mono) simp_all
  then have "2 powr (- 1022) \<le> (1::real)" by simp
  then have "2 powr (- 1022) \<le> \<bar>x\<bar>" using assms by linarith
  then have "2 powr real_of_int (binade x) \<le> \<bar>x\<bar>" by (rule binade_powr_le)
  then have low: "2 ^ n \<le> x" by (simp only: bn ax of_int_of_nat_eq two_powr_nat)
  have pu: "(2::real) ^ n = u * 2 ^ 52"
  proof -
    have "real n = (real_of_int (binade x) - 52) + real (52::nat)" by (simp add: bn)
    then have "2 powr real n = 2 powr (real_of_int (binade x) - 52) * 2 powr real (52::nat)"
      by (simp only: powr_add)
    then show ?thesis by (simp only: two_powr_nat u_def ulp_def)
  qed
  have "real_of_int (2 ^ 52) \<le> x / u"
    using low u unfolding pu by (simp add: field_simps)
  then have "2 ^ 52 \<le> rne (x / u)" by (rule rne_ge_int)
  then have "real_of_int (2 ^ 52) \<le> real_of_int (rne (x / u))" by (simp only: of_int_le_iff)
  then have "u * 2 ^ 52 \<le> u * real_of_int (rne (x / u))"
    using u by (intro mult_left_mono) simp_all
  then have "2 ^ n \<le> fl x" using nz by (simp add: fl_def u_def pu)
  moreover have "(1::real) \<le> 2 ^ n" by simp
  ultimately show ?thesis by linarith
qed

lemma binade_le:
  assumes "x \<noteq> 0" and "\<bar>x\<bar> < 2 powr (real_of_int e + 1)" and "- 1022 \<le> e"
  shows "binade x \<le> e"
proof -
  have "log 2 \<bar>x\<bar> < real_of_int e + 1"
    using assms(1,2) by (simp add: log_less_iff)
  then have "log 2 \<bar>x\<bar> < real_of_int (e + 1)" by simp
  then have "\<lfloor>log 2 \<bar>x\<bar>\<rfloor> < e + 1" by (simp only: floor_less_iff)
  then show ?thesis using assms(3) by (simp add: binade_def)
qed

lemma fl_abs_le_powr:
  assumes "\<bar>x\<bar> < 2 powr (real_of_int e + 1)" and "- 1022 \<le> e"
  shows "\<bar>fl x\<bar> \<le> 2 powr (real_of_int e + 1)"
proof (cases "x = 0")
  case True
  then show ?thesis by (simp add: fl_def)
next
  case False
  have "binade x \<le> e" using False assms by (rule binade_le)
  then have "2 powr (real_of_int (binade x) + 1) \<le> 2 powr (real_of_int e + 1)"
    by (intro powr_mono) simp_all
  with fl_abs_upper [of x] show ?thesis by linarith
qed

lemma fl_abs_le_half: "\<bar>x\<bar> < 1 / 2 \<Longrightarrow> \<bar>fl x\<bar> \<le> 1 / 2"
proof -
  assume a: "\<bar>x\<bar> < 1 / 2"
  have p: "2 powr (real_of_int (- 2) + 1) = (1 / 2 :: real)"
    using two_powr_neg [of 1] by simp
  show ?thesis using fl_abs_le_powr [of x "- 2"] a unfolding p by simp
qed

lemma fl_abs_le_one: "\<bar>x\<bar> \<le> 1 \<Longrightarrow> \<bar>fl x\<bar> \<le> 1"
proof (cases "\<bar>x\<bar> = 1")
  case True
  then have "x = real_of_int 1 \<or> x = real_of_int (- 1)" by auto
  then show ?thesis using fl_of_int [of 1] fl_of_int [of "- 1"] by auto
next
  case False
  assume "\<bar>x\<bar> \<le> 1"
  with False have a: "\<bar>x\<bar> < 1" by simp
  have p: "2 powr (real_of_int (- 1) + 1) = (1 :: real)" by simp
  show ?thesis using fl_abs_le_powr [of x "- 1"] a unfolding p by simp
qed

lemma fl_abs_le_32: "\<bar>x\<bar> < 32 \<Longrightarrow> \<bar>fl x\<bar> \<le> 32"
proof -
  assume a: "\<bar>x\<bar> < 32"
  have "2 powr (real_of_int 4 + 1) = 2 powr (real (5::nat))" by simp
  also have "\<dots> = (32::real)" by (simp only: two_powr_nat) simp
  finally have p: "2 powr (real_of_int 4 + 1) = (32 :: real)" .
  show ?thesis using fl_abs_le_powr [of x 4] a unfolding p by simp
qed

lemma fl_grid:
  assumes "2 powr real_of_int e \<le> \<bar>fl x\<bar>"
  shows "\<exists>k. fl x = real_of_int k * 2 powr (real_of_int e - 52)"
proof -
  have pos: "0 < 2 powr real_of_int e" by simp
  have nz: "x \<noteq> 0"
  proof
    assume "x = 0"
    then have "fl x = 0" by (simp add: fl_def)
    with assms pos show False by simp
  qed
  define b where "b = binade x"
  have up: "\<bar>fl x\<bar> \<le> 2 powr (real_of_int b + 1)"
    unfolding b_def by (rule fl_abs_upper)
  with assms have "2 powr real_of_int e \<le> 2 powr (real_of_int b + 1)" by linarith
  then have "real_of_int e \<le> real_of_int b + 1" by simp
  then have eb: "e \<le> b + 1" by linarith
  show ?thesis
  proof (cases "e \<le> b")
    case True
    define n where "n = nat (b - e)"
    have "real_of_int b - 52 = (real_of_int e - 52) + real n"
      using True by (simp add: n_def)
    then have "2 powr (real_of_int b - 52) = 2 powr (real_of_int e - 52) * 2 powr real n"
      by (simp only: powr_add)
    then have u: "ulp x = 2 powr (real_of_int e - 52) * 2 ^ n"
      by (simp only: ulp_def b_def [symmetric] two_powr_nat)
    have "fl x = real_of_int (rne (x / ulp x) * 2 ^ n) * 2 powr (real_of_int e - 52)"
      using nz by (simp add: fl_def u)
    then show ?thesis by blast
  next
    case False
    with eb have e: "e = b + 1" by simp
    have "\<bar>fl x\<bar> = 2 powr real_of_int e"
      using up assms unfolding e by simp
    moreover have "2 powr real_of_int e = 2 powr (real_of_int e - 52) * 2 ^ 52"
    proof -
      have "2 powr (real_of_int e - 52) * 2 powr real (52::nat)
              = 2 powr ((real_of_int e - 52) + real (52::nat))"
        by (simp only: powr_add)
      also have "(real_of_int e - 52) + real (52::nat) = real_of_int e" by simp
      finally show ?thesis by (simp only: two_powr_nat)
    qed
    ultimately have a: "\<bar>fl x\<bar> = 2 ^ 52 * 2 powr (real_of_int e - 52)" by simp
    show ?thesis
    proof (cases "0 \<le> fl x")
      case True
      with a have "fl x = real_of_int (2 ^ 52) * 2 powr (real_of_int e - 52)" by simp
      then show ?thesis by blast
    next
      case False
      with a have "fl x = real_of_int (- (2 ^ 52)) * 2 powr (real_of_int e - 52)" by simp
      then show ?thesis by blast
    qed
  qed
qed

lemma fl_grid_53:
  assumes "1 / 2 \<le> \<bar>fl x\<bar>"
  shows "\<exists>k. fl x = real_of_int k / 2 ^ 53"
proof -
  have p: "2 powr real_of_int (- 1) = (1 / 2 :: real)"
    using two_powr_neg [of 1] by simp
  have "real_of_int (- 1) - 52 = - real (53::nat)" by simp
  then have q: "2 powr (real_of_int (- 1) - 52) = (1 / 2 ^ 53 :: real)"
    by (simp only: two_powr_neg)
  from assms have "2 powr real_of_int (- 1) \<le> \<bar>fl x\<bar>" by (simp only: p)
  then obtain k where "fl x = real_of_int k * 2 powr (real_of_int (- 1) - 52)"
    using fl_grid by blast
  then have "fl x = real_of_int k / 2 ^ 53" by (simp only: q) simp
  then show ?thesis by blast
qed

lemma fl_grid_48:
  assumes "16 \<le> \<bar>fl x\<bar>"
  shows "\<exists>k. fl x = real_of_int k / 2 ^ 48"
proof -
  have "2 powr real_of_int 4 = 2 powr real (4::nat)" by simp
  also have "\<dots> = (16::real)" by (simp only: two_powr_nat) simp
  finally have p: "2 powr real_of_int 4 = (16 :: real)" .
  have "real_of_int 4 - 52 = - real (48::nat)" by simp
  then have q: "2 powr (real_of_int 4 - 52) = (1 / 2 ^ 48 :: real)"
    by (simp only: two_powr_neg)
  from assms have "2 powr real_of_int 4 \<le> \<bar>fl x\<bar>" by (simp only: p)
  then obtain k where "fl x = real_of_int k * 2 powr (real_of_int 4 - 52)"
    using fl_grid by blast
  then have "fl x = real_of_int k / 2 ^ 48" by (simp only: q) simp
  then show ?thesis by blast
qed

lemma fl_numeral [simp]: "(numeral k :: real) < 2 ^ 53 \<Longrightarrow> fl (numeral k) = numeral k"
  using fl_of_int [of "numeral k"] by simp

lemma fl_neg_numeral [simp]:
  "(numeral k :: real) < 2 ^ 53 \<Longrightarrow> fl (- numeral k) = - numeral k"
  using fl_of_int [of "- numeral k"] by simp

lemma fl_one [simp]: "fl 1 = 1"
  using fl_of_int [of 1] by simp


lemma fl_half: "fl (1 / 2) = 1 / 2"
  by (subst fl_eval_lt1 [where n = 1]) (simp_all add: rne_def)

lemma fdiv_self: "x \<noteq> 0 \<Longrightarrow> fdiv x x = 1"
  by (simp add: fdiv_def)

text \<open>The decimal literals of the source as binary64 numbers.\<close>

lemma binary64_0_95: "fl (19 / 20) = 4278419646001971 / 4503599627370496"
  by (subst fl_eval_lt1 [where n = 1]) (simp_all add: rne_def)

lemma binary64_0_2: "fl (1 / 5) = 3602879701896397 / 18014398509481984"
  by (subst fl_eval_lt1 [where n = 3]) (simp_all add: rne_def)

lemma binary64_42_195: "fl (8439 / 200) = 5938418321153065 / 140737488355328"
  by (subst fl_eval_ge1 [where n = 5]) (simp_all add: rne_def)

lemma binary64_0_000104: "fl (13 / 125000) = 7673845534663173 / 73786976294838206464"
  by (subst fl_eval_lt1 [where n = 14]) (simp_all add: rne_def)

lemma binary64_0_182258: "fl (91129 / 500000) = 6566536487082335 / 36028797018963968"
  by (subst fl_eval_lt1 [where n = 3]) (simp_all add: rne_def)

lemma binary64_36_9: "fl (369 / 10) = 5193213320311603 / 140737488355328"
  by (subst fl_eval_ge1 [where n = 5]) (simp_all add: rne_def)

lemma binary64_0_3: "fl (3 / 10) = 5404319552844595 / 18014398509481984"
  by (subst fl_eval_lt1 [where n = 2]) (simp_all add: rne_def)

lemma binary64_minus0_2: "fl (- (1 / 5)) = - (3602879701896397 / 18014398509481984)"
  by (subst fl_eval_lt1 [where n = 3]) (simp_all add: rne_def)

lemma binary64_4_6: "fl (23 / 5) = 2589569785738035 / 562949953421312"
  by (subst fl_eval_ge1 [where n = 2]) (simp_all add: rne_def)

lemma binary64_0_012778: "fl (6389 / 500000) = 7366015492933145 / 576460752303423488"
  by (subst fl_eval_lt1 [where n = 7]) (simp_all add: rne_def)

lemma binary64_0_1932605: "fl (386521 / 2000000) = 3481471663141743 / 18014398509481984"
  by (subst fl_eval_lt1 [where n = 3]) (simp_all add: rne_def)

lemma binary64_0_8: "fl (4 / 5) = 3602879701896397 / 4503599627370496"
  by (subst fl_eval_lt1 [where n = 1]) (simp_all add: rne_def)

lemma binary64_0_1894393: "fl (1894393 / 10000000) = 6825270087114621 / 36028797018963968"
  by (subst fl_eval_lt1 [where n = 3]) (simp_all add: rne_def)

lemma binary64_0_2989558: "fl (1494779 / 5000000) = 2692754458960497 / 9007199254740992"
  by (subst fl_eval_lt1 [where n = 2]) (simp_all add: rne_def)

lemma binary64_1_2: "fl (6 / 5) = 5404319552844595 / 4503599627370496"
  by (subst fl_eval_ge1 [where n = 0]) (simp_all add: rne_def)

lemma binary64_15_2315: "fl (30463 / 2000) = 4287286107768357 / 281474976710656"
  by (subst fl_eval_ge1 [where n = 3]) (simp_all add: rne_def)

lemma binary64_1_005: "fl (201 / 200) = 1131529406376837 / 1125899906842624"
  by (subst fl_eval_ge1 [where n = 0]) (simp_all add: rne_def)

subsection \<open>Sorting\<close>

lemma insert_by_nonempty: "insert_by after x ys \<noteq> []"
  by (cases ys) auto

lemma set_insert_by: "set (insert_by after x ys) = insert x (set ys)"
  by (induction ys) auto

lemma sort_by_Cons: "sort_by after (x # xs) = insert_by after x (sort_by after xs)"
  by (simp add: sort_by_def)

lemma set_sort_by: "set (sort_by after xs) = set xs"
  by (induction xs) (auto simp: sort_by_def set_insert_by)

lemma sort_by_Nil_iff: "sort_by after xs = [] \<longleftrightarrow> xs = []"
  by (cases xs) (auto simp: sort_by_def insert_by_nonempty)

lemma hd_insert_by_less:
  fixes f :: "'a \<Rightarrow> real"
  shows "ys \<noteq> [] \<Longrightarrow> f (hd (insert_by (\<lambda>a b. f a < f b) x ys)) = max (f x) (f (hd ys))"
  by (cases ys) (auto simp: max_def)

lemma hd_sort_by_less:
  fixes f :: "'a \<Rightarrow> real"
  shows "xs \<noteq> [] \<Longrightarrow> f (hd (sort_by (\<lambda>a b. f a < f b) xs)) = Max (f ` set xs)"
proof (induction xs)
  case Nil
  then show ?case by simp
next
  case (Cons x xs)
  show ?case
  proof (cases "xs = []")
    case True
    then show ?thesis by (simp add: sort_by_def)
  next
    case False
    then have ne: "sort_by (\<lambda>a b. f a < f b) xs \<noteq> []"
      by (simp add: sort_by_Nil_iff)
    have "f (hd (sort_by (\<lambda>a b. f a < f b) (x # xs)))
            = max (f x) (f (hd (sort_by (\<lambda>a b. f a < f b) xs)))"
      unfolding sort_by_Cons by (rule hd_insert_by_less [OF ne])
    also have "\<dots> = max (f x) (Max (f ` set xs))"
      using Cons.IH False by simp
    also have "\<dots> = Max (f ` set (x # xs))"
      using False by simp
    finally show ?thesis .
  qed
qed

subsection \<open>FTP estimation\<close>

lemma estimateFTP_unfold:
  "estimateFTP acts =
     (if filter qualifying acts = [] then 250
      else case sort_by (\<lambda>a b. effort_power a < effort_power b)
                  (filter twenty_to_thirty (filter qualifying acts)) of
             best20Min # _ \<Rightarrow> math_round (fmul (effort_power best20Min) (fl 0.95))
           | [] \<Rightarrow> math_round (fmul (Max ((\<lambda>a. num (average_watts a)) `
                                            set (filter qualifying acts))) 0.75))"
proof (cases "filter qualifying acts")
  case Nil
  then show ?thesis
    by (simp add: estimateFTP_def qualifying_def [abs_def])
next
  case (Cons a0 rest)
  have eq: "fold max (map (\<lambda>a. num (average_watts a)) rest) (num (average_watts a0))
          = Max ((\<lambda>a. num (average_watts a)) ` set (a0 # rest))"
    unfolding Max.set_eq_fold [symmetric] by simp
  have q: "filter (\<lambda>a. truthy (average_watts a) \<and> moving_time a \<ge> 1200) acts = a0 # rest"
    using Cons by (simp add: qualifying_def [abs_def])
  have t: "(\<lambda>a. moving_time a \<ge> 1200 \<and> moving_time a \<le> 1800) = twenty_to_thirty"
    by (simp add: twenty_to_thirty_def [abs_def])
  show ?thesis
    by (simp only: estimateFTP_def Let_def q t Cons diff_gt_0_iff_gt list.case eq
          list.distinct if_False)
qed

lemma estimateFTP_no_power: "estimateFTP [] = 250"
  by (simp add: estimateFTP_def)

lemma StravaMetrics_fields:
  "activities (StravaMetrics cy ay acts) = acts"
  "maxHR (StravaMetrics cy ay acts) = 195 - (cy - ay)"
  "restingHR (StravaMetrics cy ay acts) = 60"
  "ftp (StravaMetrics cy ay acts) = estimateFTP acts"
  by (simp_all add: StravaMetrics_def calculateAge_def Let_def)

subsection \<open>Power curve\<close>

lemma find_None_set: "find P xs = None \<longleftrightarrow> \<not> (\<exists>x \<in> set xs. P x)"
  by (auto simp: find_None_iff)

lemma find_Some_set: "find P xs = Some x \<Longrightarrow> x \<in> set xs \<and> P x"
  by (auto simp: find_Some_iff)

lemma calculateCriticalPower_unfold:
  "calculateCriticalPower ps =
     (if length ps < 3 then None
      else case (find five_min ps, find twenty_min ps) of
          (Some f, Some t) \<Rightarrow>
             Some \<lparr> cp = math_round (cp_model (power f) (duration f) (power t) (duration t)),
                  wPrime = math_round
                    (fmul (fsub (power f)
                             (cp_model (power f) (duration f) (power t) (duration t)))
                       (duration f)) \<rparr>
        | _ \<Rightarrow> None)"
  unfolding calculateCriticalPower_def five_min_def [abs_def] twenty_min_def [abs_def]
    cp_model_def Let_def
  by (simp add: conj_commute)

lemma calculateCriticalPower_None_iff:
  "calculateCriticalPower ps = None \<longleftrightarrow>
     length ps < 3 \<or> \<not> (\<exists>c \<in> set ps. five_min c) \<or> \<not> (\<exists>c \<in> set ps. twenty_min c)"
  unfolding calculateCriticalPower_unfold
  by (auto simp: find_None_set dest: find_Some_set split: option.splits)

lemma curve_loop_points:
  "curve_loop awp ds = Inr ps \<Longrightarrow>
     \<forall>c \<in> set ps. duration c \<in> set ds \<and> (\<exists>a \<in> set awp. near_duration (duration c) a)"
proof (induction ds arbitrary: ps)
  case Nil
  then show ?case by simp
next
  case (Cons d ds)
  show ?case
  proof (cases "filter (near_duration d) awp")
    case Nil
    with Cons show ?thesis by auto
  next
    case (Cons c0 cands)
    then have "c0 \<in> set (filter (near_duration d) awp)" by simp
    then have ex: "\<exists>a \<in> set awp. near_duration d a" by auto
    from Cons.prems Cons obtain p qs where
      ps: "ps = p # qs" and p: "duration p = d" and qs: "curve_loop awp ds = Inr qs"
      by (auto simp: Let_def split: option.splits sum.splits)
    from Cons.IH [OF qs] ex show ?thesis
      unfolding ps using p by auto
  qed
qed

lemma analyzePowerCurve_no_five_min:
  assumes "analyzePowerCurve m = Inr (Some r)"
    and "\<not> (\<exists>a \<in> set (activities m). truthy (average_watts a) \<and> near_duration 300 a)"
  shows "criticalPower r = None"
proof -
  let ?awp = "filter (\<lambda>a. truthy (average_watts a)) (activities m)"
  from assms(1)
  have loop: "curve_loop ?awp [5, 10, 30, 60, 120, 300, 600, 1200, 1800, 3600] = Inr (curve r)"
    and cp: "criticalPower r = calculateCriticalPower (curve r)"
    by (auto simp: analyzePowerCurve_def Let_def split: if_splits sum.splits)
  have "\<not> (\<exists>c \<in> set (curve r). five_min c)"
  proof
    assume "\<exists>c \<in> set (curve r). five_min c"
    then obtain c where c: "c \<in> set (curve r)" and five: "five_min c" by blast
    from curve_loop_points [OF loop] c
    have d: "duration c \<in> set [5, 10, 30, 60, 120, 300, 600, 1200, 1800, 3600]"
      and a: "\<exists>a \<in> set ?awp. near_duration (duration c) a"
      by blast+
    from d five have "duration c = 300" by (auto simp: five_min_def)
    with a assms(2) show False by auto
  qed
  then show ?thesis
    unfolding cp calculateCriticalPower_None_iff by blast
qed

section \<open>Power-based TSS (claim C1)\<close>

lemma half_hour_1: "fdiv 1800 3600 = 1 / 2"
  unfolding fdiv_def by (subst fl_eval_lt1 [where n = 1]) (simp_all add: rne_def)

lemma half_hour_2: "fdiv 175 250 = 3152519739159347 / 4503599627370496"
  unfolding fdiv_def by (subst fl_eval_lt1 [where n = 1]) (simp_all add: rne_def)

lemma half_hour_3:
  "fmul (1 / 2) (3152519739159347 / 4503599627370496)
     = 3152519739159347 / 9007199254740992"
  unfolding fmul_def by (subst fl_eval_lt1 [where n = 2]) (simp_all add: rne_def)

lemma half_hour_4:
  "fmul (3152519739159347 / 9007199254740992) (3152519739159347 / 4503599627370496)
     = 8827055269646171 / 36028797018963968"
  unfolding fmul_def by (subst fl_eval_lt1 [where n = 3]) (simp_all add: rne_def)

lemma half_hour_5:
  "fmul (8827055269646171 / 36028797018963968) 100
     = 6896136929411071 / 281474976710656"
  unfolding fmul_def by (subst fl_eval_ge1 [where n = 4]) (simp_all add: rne_def)

text \<open>
  Claim C1, as the code has it: for an activity whose \<open>average_watts\<close> is present and
  not zero, and a calculator whose FTP is not zero, \<open>calculateTSS\<close> returns the
  power-based score whatever heart-rate or pace data the record carries: \<open>Math.round\<close>
  of \<open>durationHours * IF * IF * 100\<close> with \<open>durationHours = moving_time / 3600\<close> and
  \<open>IF = average_watts / FTP\<close>, each operation rounded to binary64 and the products
  taken from left to right. One hour at FTP scores 100.
\<close>

theorem calculateTSS_power_based:
  assumes "average_watts a = Some w" and "w \<noteq> 0" and "ftp m \<noteq> 0"
  shows "calculateTSS m a
           = math_round
               (fmul (fmul (fmul (fdiv (moving_time a) 3600) (fdiv w (real_of_int (ftp m))))
                        (fdiv w (real_of_int (ftp m)))) 100)
         \<and> (moving_time a = 3600 \<and> w = real_of_int (ftp m) \<longrightarrow> calculateTSS m a = 100)"
proof -
  have score: "calculateTSS m a
           = math_round
               (fmul (fmul (fmul (fdiv (moving_time a) 3600) (fdiv w (real_of_int (ftp m))))
                        (fdiv w (real_of_int (ftp m)))) 100)"
    using assms by (simp add: calculateTSS_def truthy_def num_def Let_def)
  have "calculateTSS m a = 100" if "moving_time a = 3600 \<and> w = real_of_int (ftp m)"
  proof -
    have "fdiv w (real_of_int (ftp m)) = 1" using that assms(2) by (simp add: fdiv_self)
    moreover have "fdiv (moving_time a) 3600 = 1" using that by (simp add: fdiv_self)
    ultimately show ?thesis
      unfolding score by (simp add: fmul_def math_round_def)
  qed
  with score show ?thesis by blast
qed

theorem calculateTSS_power_based_witness:
  "average_watts threshold_hour = Some 250 \<and> (250::real) \<noteq> 0
   \<and> ftp (StravaMetrics 2025 2020 []) \<noteq> 0
   \<and> moving_time threshold_hour = 3600
   \<and> (250::real) = real_of_int (ftp (StravaMetrics 2025 2020 []))
   \<and> has_heartrate threshold_hour
   \<and> calculateTSS (StravaMetrics 2025 2020 []) threshold_hour = 100
   \<and> average_watts half_hour_ride = Some 175 \<and> moving_time half_hour_ride = 1800
   \<and> calculateTSS (StravaMetrics 2025 2020 []) half_hour_ride = 24"
proof -
  have a: "average_watts threshold_hour = Some 250"
    by (simp add: threshold_hour_def bare_activity_def)
  have f: "ftp (StravaMetrics 2025 2020 []) = 250"
    by (simp add: StravaMetrics_fields estimateFTP_no_power)
  have t: "moving_time threshold_hour = 3600" "has_heartrate threshold_hour"
    by (simp_all add: threshold_hour_def bare_activity_def)
  have h: "average_watts half_hour_ride = Some 175" "moving_time half_hour_ride = 1800"
    by (simp_all add: half_hour_ride_def bare_activity_def)
  have 1: "calculateTSS (StravaMetrics 2025 2020 []) threshold_hour = 100"
    using calculateTSS_power_based [of threshold_hour 250 "StravaMetrics 2025 2020 []"] a f t
    by simp
  have 2: "calculateTSS (StravaMetrics 2025 2020 []) half_hour_ride = 24"
    using calculateTSS_power_based [of half_hour_ride 175 "StravaMetrics 2025 2020 []"] h f
    by (simp add: half_hour_1 half_hour_2 half_hour_3 half_hour_4 half_hour_5 math_round_def)
  from a f t h 1 2 show ?thesis by simp
qed

text \<open>
  In the last example the exact value of the formula is \<open>24.5\<close>, which rounds to 25; the
  binary64 product is \<open>24.499999999999996\<close>.
\<close>

lemma half_hour_exact: "math_round (1800 / 3600 * (175 / 250)\<^sup>2 * 100) = 25"
  by (simp add: math_round_def power2_eq_square)

text \<open>
  The claim as stated, for every record with \<open>average_watts\<close> present, fails on a record
  whose \<open>average_watts\<close> is \<open>0\<close>: the guard \<open>activity.average_watts && this.ftp\<close> is
  false, and the pace-based branch returns 30 where the power formula gives 0.
\<close>

theorem calculateTSS_zero_watts_counterexample:
  "average_watts zero_watts_run = Some 0
   \<and> calculateTSS (StravaMetrics 2025 2020 [zero_watts_run]) zero_watts_run = 30
   \<and> math_round
        (fmul (fmul (fmul (fdiv (moving_time zero_watts_run) 3600)
                       (fdiv 0 (real_of_int (ftp (StravaMetrics 2025 2020 [zero_watts_run])))))
                 (fdiv 0 (real_of_int (ftp (StravaMetrics 2025 2020 [zero_watts_run]))))) 100)
       = 0"
proof -
  have f: "estimateFTP [zero_watts_run] = 250"
    by (simp add: estimateFTP_def zero_watts_run_def bare_activity_def truthy_def)
  show ?thesis
    by (simp add: calculateTSS_def StravaMetrics_fields f Let_def zero_watts_run_def
          bare_activity_def truthy_def num_def math_round_def fdiv_def fmul_def)
qed

section \<open>The branches of FTP estimation (claim C6)\<close>

text \<open>
  Claim C6, as the code has it: when at least one activity has a non-zero
  \<open>average_watts\<close> and \<open>moving_time \<ge> 1200\<close>, \<open>estimateFTP\<close> returns
  \<open>round(p * 0.95)\<close>, \<open>p\<close> the greatest power (\<open>weighted_average_watts\<close>, falling
  back to \<open>average_watts\<close>) of the qualifying efforts with \<open>moving_time\<close> in
  \<open>[1200, 1800]\<close>, if there is such an effort; otherwise it takes the fallback branch
  and returns \<open>round(w * 0.75)\<close>, \<open>w\<close> the greatest \<open>average_watts\<close> of the
  qualifying activities. The products are binary64 products.
\<close>

theorem estimateFTP_branches:
  assumes "\<exists>a \<in> set acts. qualifying a"
  shows "estimateFTP acts =
     (if \<exists>a \<in> set acts. qualifying a \<and> twenty_to_thirty a
      then math_round
             (fmul (Max (effort_power ` set (filter twenty_to_thirty (filter qualifying acts))))
                (fl 0.95))
      else math_round
             (fmul (Max ((\<lambda>a. num (average_watts a)) ` set (filter qualifying acts))) 0.75))"
proof -
  define q where "q = filter qualifying acts"
  define r where "r = filter twenty_to_thirty q"
  define s where "s = sort_by (\<lambda>a b. effort_power a < effort_power b) r"
  have ex_r: "(\<exists>a \<in> set acts. qualifying a \<and> twenty_to_thirty a) \<longleftrightarrow> r \<noteq> []"
    by (auto simp: r_def q_def filter_empty_conv)
  from assms have qne: "q \<noteq> []" by (auto simp: q_def filter_empty_conv)
  have unfold: "estimateFTP acts =
      (case s of best20Min # _ \<Rightarrow> math_round (fmul (effort_power best20Min) (fl 0.95))
               | [] \<Rightarrow> math_round (fmul (Max ((\<lambda>a. num (average_watts a)) ` set q)) 0.75))"
    unfolding estimateFTP_unfold s_def r_def q_def [symmetric] using qne by simp
  show ?thesis
  proof (cases "r = []")
    case True
    then have "s = []" by (simp add: s_def sort_by_Nil_iff)
    then show ?thesis
      unfolding unfold ex_r q_def [symmetric] using True by simp
  next
    case False
    then have "s \<noteq> []" by (simp add: s_def sort_by_Nil_iff)
    then obtain b bs where s: "s = b # bs" by (cases s) auto
    have "effort_power (hd s) = Max (effort_power ` set r)"
      unfolding s_def using False by (rule hd_sort_by_less)
    then have "effort_power b = Max (effort_power ` set r)" by (simp add: s)
    then show ?thesis
      unfolding unfold ex_r q_def [symmetric] r_def [symmetric] using False
      by (simp add: s)
  qed
qed

lemma tempo_ftp_1: "fmul 310 (4278419646001971 / 4503599627370496) = 589 / 2"
  unfolding fmul_def by (subst fl_eval_ge1 [where n = 8]) (simp_all add: rne_def)

lemma ride_ftp_1: "fmul 200 (4278419646001971 / 4503599627370496) = 190"
  unfolding fmul_def by (subst fl_eval_ge1 [where n = 7]) (simp_all add: rne_def)

theorem estimateFTP_branches_witness:
  "(\<exists>a \<in> set [long_ride, tempo_effort]. qualifying a)
   \<and> estimateFTP [long_ride, tempo_effort] = 295
   \<and> estimateFTP [long_ride] = 150"
proof -
  have q: "qualifying long_ride" "qualifying tempo_effort"
      "\<not> twenty_to_thirty long_ride" "twenty_to_thirty tempo_effort"
    by (simp_all add: qualifying_def twenty_to_thirty_def long_ride_def tempo_effort_def
          bare_activity_def truthy_def)
  have p: "effort_power tempo_effort = 310" "num (average_watts long_ride) = 200"
    by (simp_all add: effort_power_def long_ride_def tempo_effort_def bare_activity_def
          truthy_def num_def)
  have 1: "estimateFTP [long_ride, tempo_effort] = 295"
    using estimateFTP_branches [of "[long_ride, tempo_effort]"] q p
    by (simp add: binary64_0_95 tempo_ftp_1 math_round_def)
  have 2: "estimateFTP [long_ride] = 150"
    using estimateFTP_branches [of "[long_ride]"] q p
    by (simp add: fmul_def math_round_def)
  from q 1 2 show ?thesis by simp
qed

text \<open>
  The fallback branch is reached: a single activity of one hour at 200 W qualifies, is
  not a 20 to 30 minute effort, and the estimate is \<open>round(200 * 0.75) = 150\<close>, not
  \<open>round(200 * 0.95) = 190\<close>.
\<close>

theorem estimateFTP_fallback_counterexample:
  "truthy (average_watts long_ride) \<and> moving_time long_ride \<ge> 1200
   \<and> \<not> (1200 \<le> moving_time long_ride \<and> moving_time long_ride \<le> 1800)
   \<and> estimateFTP [long_ride] = math_round (fmul 200 0.75)
   \<and> estimateFTP [long_ride] \<noteq> math_round (fmul (effort_power long_ride) (fl 0.95))"
proof -
  have "estimateFTP [long_ride] = 150"
    by (simp add: estimateFTP_def long_ride_def bare_activity_def truthy_def num_def
          sort_by_def math_round_def fmul_def)
  moreover have "effort_power long_ride = 200"
    by (simp add: effort_power_def long_ride_def bare_activity_def truthy_def num_def)
  ultimately show ?thesis
    by (simp add: long_ride_def bare_activity_def truthy_def math_round_def
          binary64_0_95 ride_ftp_1)
      (simp add: fmul_def)
qed

section \<open>Critical power (claim C7)\<close>

text \<open>
  Claim C7: \<open>calculateCriticalPower\<close> returns \<open>null\<close> exactly when the curve has fewer
  than 3 points, or no point with duration in \<open>[250, 350]\<close>, or no point with duration
  in \<open>[1000, 1400]\<close>. Otherwise the result is computed from the first point \<open>f\<close> of the
  first range and the first point \<open>t\<close> of the second: \<open>cp\<close> is \<open>Math.round\<close> of
  \<open>CP = (P5 t5 - P20 t20) / (t5 - t20)\<close> and \<open>wPrime\<close> is \<open>Math.round\<close> of
  \<open>(P5 - CP) t5\<close>, in binary64 arithmetic. In particular the critical power that
  \<open>analyzePowerCurve\<close> reports is \<open>null\<close> when no activity with power falls in the
  bucket of 300 s, whatever efforts of about 20 minutes there are; an activity falls
  in the bucket when \<open>moving_time - 300\<close>, rounded to binary64, is less than 60 in
  absolute value (\<open>near_duration_300\<close> below).
\<close>

theorem calculateCriticalPower_null_exactly:
  "(calculateCriticalPower ps = None \<longleftrightarrow>
      length ps < 3 \<or> \<not> (\<exists>c \<in> set ps. five_min c) \<or> \<not> (\<exists>c \<in> set ps. twenty_min c))
   \<and> (length ps \<ge> 3 \<and> find five_min ps = Some f \<and> find twenty_min ps = Some t \<longrightarrow>
         calculateCriticalPower ps =
           Some \<lparr> cp = math_round (cp_model (power f) (duration f) (power t) (duration t)),
                  wPrime = math_round
                    (fmul (fsub (power f)
                             (cp_model (power f) (duration f) (power t) (duration t)))
                       (duration f)) \<rparr>)
   \<and> (analyzePowerCurve m = Inr (Some r)
        \<and> \<not> (\<exists>a \<in> set (activities m). truthy (average_watts a) \<and> near_duration 300 a)
       \<longrightarrow> criticalPower r = None)"
proof (intro conjI impI)
  show "calculateCriticalPower ps = None \<longleftrightarrow>
      length ps < 3 \<or> \<not> (\<exists>c \<in> set ps. five_min c) \<or> \<not> (\<exists>c \<in> set ps. twenty_min c)"
    by (rule calculateCriticalPower_None_iff)
next
  assume "length ps \<ge> 3 \<and> find five_min ps = Some f \<and> find twenty_min ps = Some t"
  then show "calculateCriticalPower ps =
           Some \<lparr> cp = math_round (cp_model (power f) (duration f) (power t) (duration t)),
                  wPrime = math_round
                    (fmul (fsub (power f)
                             (cp_model (power f) (duration f) (power t) (duration t)))
                       (duration f)) \<rparr>"
    unfolding calculateCriticalPower_unfold by simp
next
  assume "analyzePowerCurve m = Inr (Some r)
        \<and> \<not> (\<exists>a \<in> set (activities m). truthy (average_watts a) \<and> near_duration 300 a)"
  then show "criticalPower r = None"
    using analyzePowerCurve_no_five_min by blast
qed

lemma three_point_1: "fmul 330 300 = 99000"
  by (simp add: fmul_def)

lemma three_point_2: "fmul 280 1200 = 336000"
  by (simp add: fmul_def)

lemma three_point_3: "fsub 99000 336000 = - 237000"
  by (simp add: fsub_def)

lemma three_point_4: "fsub 300 1200 = - 900"
  by (simp add: fsub_def)

lemma three_point_5: "fdiv (- 237000) (- 900) = 4632608991696213 / 17592186044416"
  unfolding fdiv_def by (subst fl_eval_ge1 [where n = 8]) (simp_all add: rne_def)

lemma three_point_6:
  "fsub 330 (4632608991696213 / 17592186044416)
     = 1172812402961067 / 17592186044416"
  unfolding fsub_def by (subst fl_eval_ge1 [where n = 6]) (simp_all add: rne_def)

lemma three_point_7:
  "fmul (1172812402961067 / 17592186044416) 300
     = 2748779069440001 / 137438953472"
  unfolding fmul_def by (subst fl_eval_ge1 [where n = 14]) (simp_all add: rne_def)

lemma bucket_1: "fmul 5 (3602879701896397 / 18014398509481984) = 1"
  unfolding fmul_def by (subst fl_eval_ge1 [where n = 0]) (simp_all add: rne_def)

lemma bucket_2: "fmul 10 (3602879701896397 / 18014398509481984) = 2"
  unfolding fmul_def by (subst fl_eval_ge1 [where n = 1]) (simp_all add: rne_def)

lemma bucket_3: "fmul 30 (3602879701896397 / 18014398509481984) = 6"
  unfolding fmul_def by (subst fl_eval_ge1 [where n = 2]) (simp_all add: rne_def)

lemma bucket_4: "fmul 60 (3602879701896397 / 18014398509481984) = 12"
  unfolding fmul_def by (subst fl_eval_ge1 [where n = 3]) (simp_all add: rne_def)

lemma bucket_5: "fmul 120 (3602879701896397 / 18014398509481984) = 24"
  unfolding fmul_def by (subst fl_eval_ge1 [where n = 4]) (simp_all add: rne_def)

lemma bucket_6: "fmul 300 (3602879701896397 / 18014398509481984) = 60"
  unfolding fmul_def by (subst fl_eval_ge1 [where n = 5]) (simp_all add: rne_def)

lemma bucket_7: "fmul 600 (3602879701896397 / 18014398509481984) = 120"
  unfolding fmul_def by (subst fl_eval_ge1 [where n = 6]) (simp_all add: rne_def)

lemma bucket_8: "fmul 1200 (3602879701896397 / 18014398509481984) = 240"
  unfolding fmul_def by (subst fl_eval_ge1 [where n = 7]) (simp_all add: rne_def)

lemma bucket_9: "fmul 1800 (3602879701896397 / 18014398509481984) = 360"
  unfolding fmul_def by (subst fl_eval_ge1 [where n = 8]) (simp_all add: rne_def)

lemma bucket_10: "fmul 3600 (3602879701896397 / 18014398509481984) = 720"
  unfolding fmul_def by (subst fl_eval_ge1 [where n = 9]) (simp_all add: rne_def)

lemma near_duration_300: "near_duration 300 a \<longleftrightarrow> \<bar>fsub (moving_time a) 300\<bar> < 60"
  by (simp add: near_duration_def binary64_0_2 bucket_1 bucket_2 bucket_3 bucket_4 bucket_5 bucket_6 bucket_7
      bucket_8 bucket_9 bucket_10)

lemma twenty_minute_buckets:
  "\<not> near_duration 5 twenty_minute_effort" "\<not> near_duration 10 twenty_minute_effort"
  "\<not> near_duration 30 twenty_minute_effort" "\<not> near_duration 60 twenty_minute_effort"
  "\<not> near_duration 120 twenty_minute_effort" "\<not> near_duration 300 twenty_minute_effort"
  "\<not> near_duration 600 twenty_minute_effort" "near_duration 1200 twenty_minute_effort"
  "\<not> near_duration 1800 twenty_minute_effort" "\<not> near_duration 3600 twenty_minute_effort"
  by (simp_all add: near_duration_def twenty_minute_effort_def bare_activity_def fsub_def
        binary64_0_2 bucket_1 bucket_2 bucket_3 bucket_4 bucket_5 bucket_6 bucket_7
        bucket_8 bucket_9 bucket_10)

theorem calculateCriticalPower_null_exactly_witness:
  "calculateCriticalPower three_point_curve = Some \<lparr> cp = 263, wPrime = 20000 \<rparr>
   \<and> calculateCriticalPower (take 2 three_point_curve) = None
   \<and> analyzePowerCurve (StravaMetrics 2025 2020 [twenty_minute_effort])
       = Inr (Some twenty_minute_analysis)
   \<and> near_duration 1200 twenty_minute_effort
   \<and> criticalPower twenty_minute_analysis = None"
proof -
  let ?f = "\<lparr> duration = 300, power = 330, pc_date = ''2025-05-02'', pc_activityName = None \<rparr>"
  let ?t = "\<lparr> duration = 1200, power = 280, pc_date = ''2025-05-03'', pc_activityName = None \<rparr>"
  let ?m = "StravaMetrics 2025 2020 [twenty_minute_effort]"
  have l: "length three_point_curve \<ge> 3" by (simp add: three_point_curve_def)
  have f: "find five_min three_point_curve = Some ?f"
    by (simp add: three_point_curve_def five_min_def)
  have t: "find twenty_min three_point_curve = Some ?t"
    by (simp add: three_point_curve_def twenty_min_def)
  have w: "truthy (average_watts twenty_minute_effort)"
      "effort_power twenty_minute_effort = 280"
      "start_date_local twenty_minute_effort = Some ''2025-06-01T08:00:00Z''"
      "name twenty_minute_effort = Some ''Morning Run''"
    by (simp_all add: twenty_minute_effort_def bare_activity_def truthy_def effort_power_def
          num_def)
  have a: "analyzePowerCurve ?m = Inr (Some twenty_minute_analysis)"
    by (simp add: analyzePowerCurve_def StravaMetrics_fields twenty_minute_buckets w Let_def
          split_T_def calculateCriticalPower_def twenty_minute_analysis_def)
  have n: "\<not> (\<exists>a \<in> set (activities ?m). truthy (average_watts a) \<and> near_duration 300 a)"
    by (simp add: StravaMetrics_fields twenty_minute_buckets)
  have 1: "calculateCriticalPower three_point_curve = Some \<lparr> cp = 263, wPrime = 20000 \<rparr>"
    using calculateCriticalPower_null_exactly [of three_point_curve ?f ?t] l f t
    by (simp add: cp_model_def math_round_def three_point_1 three_point_2 three_point_3 three_point_4 three_point_5
          three_point_6 three_point_7)
  have 2: "calculateCriticalPower (take 2 three_point_curve) = None"
    using calculateCriticalPower_null_exactly [of "take 2 three_point_curve"]
    by (simp add: three_point_curve_def)
  have 3: "criticalPower twenty_minute_analysis = None"
    using calculateCriticalPower_null_exactly [of _ _ _ ?m twenty_minute_analysis] a n
    by blast
  show ?thesis using 1 2 3 a twenty_minute_buckets by simp
qed

section \<open>Training-load history: days (claim C3)\<close>

lemma history_loop_past: "today < d \<Longrightarrow> history_loop rt m acts today d c a = []"
  by (simp add: history_loop.simps)

lemma history_loop_step:
  "d \<le> today \<Longrightarrow>
   history_loop rt m acts today d c a =
     \<lparr> tl_date = iso_day d,
       ctl = round1 (calculateCTL rt m acts d c),
       atl = round1 (calculateATL rt m acts d a),
       tsb = round1 (calculateTSB (calculateCTL rt m acts d c) (calculateATL rt m acts d a)) \<rparr>
     # (case add_days rt d 1 of
          None \<Rightarrow> []
        | Some d' \<Rightarrow>
            history_loop rt m acts today d'
              (calculateCTL rt m acts d c) (calculateATL rt m acts d a))"
  by (subst history_loop.simps) (simp add: Let_def)

lemma history_loop_days:
  "map tl_date (history_loop rt m acts today d c a) =
     (if d \<le> today
      then iso_day d
             # (case add_days rt d 1 of
                  None \<Rightarrow> []
                | Some d' \<Rightarrow>
                    map tl_date
                      (history_loop rt m acts today d'
                         (calculateCTL rt m acts d c) (calculateATL rt m acts d a)))
      else [])"
  by (cases "d \<le> today")
    (simp_all add: history_loop_step history_loop_past split: option.split)











text \<open>
  When the start of the window is a local time that the day of the change skips, the loop
  runs an hour later in the day than the clock, and the last day is missing: at 02:30
  local time on 2 April 2025, \<open>daysBack = 3\<close> returns the three points of 30 March,
  31 March and 1 April.
\<close>

lemma spring_gap_days:
  "add_days spring_gap 1743553800000 (- 3) = Some 1743298200000"
  "add_days spring_gap 1743298200000 1 = Some 1743384600000"
  "add_days spring_gap 1743384600000 1 = Some 1743471000000"
  "add_days spring_gap 1743471000000 1 = Some 1743557400000"
  by (simp_all add: add_days_def utc_time_def local_time_def local_tza_def dst_active_def
        time_clip_def spring_gap_def demo_runtime_def brussels_2025_def day_ms_def
        hour_ms_def)

lemma spring_gap_history:
  "map tl_date (generateTrainingLoadHistory spring_gap (StravaMetrics 2025 2020 []) 3)
     = [20177, 20178, 20179]"
proof -
  have n: "now spring_gap = 1743553800000"
    by (simp add: spring_gap_def demo_runtime_def)
  show ?thesis
    unfolding generateTrainingLoadHistory_def Let_def n
    by (simp add: spring_gap_days history_loop_days iso_day_def day_ms_def)
qed

section \<open>Training-load history: balance (claim C2)\<close>

lemma fl_close_numeral: "\<bar>fl x - x\<bar> \<le> (\<bar>x\<bar> + 1) / 8000000000000000"
  using fl_close [of x] by simp

lemma round1_parts:
  fixes x :: real
  defines "k \<equiv> math_round (fmul x 10)"
  shows "real_of_int k \<le> fl (x * 10) + 1 / 2" and "fl (x * 10) + 1 / 2 < real_of_int k + 1"
    and "round1 x = fl (real_of_int k / 10)"
  unfolding k_def math_round_def fmul_def round1_def fdiv_def by linarith+

lemma round1_magnitude:
  fixes x :: real
  defines "k \<equiv> math_round (fmul x 10)"
  assumes "\<bar>round1 x\<bar> \<le> 1000000"
  shows "\<bar>real_of_int k / 10\<bar> \<le> 1000001" and "\<bar>x\<bar> \<le> 1000002"
    and "\<bar>fl (x * 10) - x * 10\<bar> \<le> 1 / 100000000"
    and "\<bar>round1 x - real_of_int k / 10\<bar> \<le> 1000002 / 8000000000000000"
proof -
  define u where "u = real_of_int k / 10"
  have r: "round1 x = fl u"
    unfolding u_def k_def by (rule round1_parts(3))
  have e1: "\<bar>fl u - u\<bar> \<le> (\<bar>u\<bar> + 1) / 8000000000000000" by (rule fl_close_numeral)
  from assms(2) e1 show u: "\<bar>u\<bar> \<le> 1000001" unfolding r by argo
  have k1: "real_of_int k \<le> fl (x * 10) + 1 / 2" and k2: "fl (x * 10) + 1 / 2 < real_of_int k + 1"
    unfolding k_def by (rule round1_parts)+
  from u have ku: "\<bar>real_of_int k\<bar> \<le> 10000010" unfolding u_def by simp
  from k1 k2 ku have y: "\<bar>fl (x * 10)\<bar> \<le> 10000011" by argo
  have e2: "\<bar>fl (x * 10) - x * 10\<bar> \<le> (\<bar>x * 10\<bar> + 1) / 8000000000000000" by (rule fl_close_numeral)
  from y e2 have x10: "\<bar>x * 10\<bar> \<le> 10000012" by argo
  then show "\<bar>x\<bar> \<le> 1000002" by simp
  from e2 x10 show "\<bar>fl (x * 10) - x * 10\<bar> \<le> 1 / 100000000" by argo
  from e1 u show "\<bar>round1 x - u\<bar> \<le> 1000002 / 8000000000000000" unfolding r by argo
qed

lemma round1_balance:
  assumes "\<bar>round1 c\<bar> \<le> 1000000" and "\<bar>round1 a\<bar> \<le> 1000000"
  shows "\<bar>round1 (fsub c a) - (round1 c - round1 a)\<bar> \<le> 1 / 10 + 1 / 10 ^ 9"
proof -
  define b where "b = fl (c - a)"
  define i where "i = math_round (fmul c 10)"
  define j where "j = math_round (fmul a 10)"
  define n where "n = math_round (fmul b 10)"
  note mc = round1_magnitude [OF assms(1), folded i_def]
  note ma = round1_magnitude [OF assms(2), folded j_def]
  have i: "real_of_int i \<le> fl (c * 10) + 1 / 2" "fl (c * 10) + 1 / 2 < real_of_int i + 1"
    unfolding i_def by (rule round1_parts)+
  have j: "real_of_int j \<le> fl (a * 10) + 1 / 2" "fl (a * 10) + 1 / 2 < real_of_int j + 1"
    unfolding j_def by (rule round1_parts)+
  have n: "real_of_int n \<le> fl (b * 10) + 1 / 2" "fl (b * 10) + 1 / 2 < real_of_int n + 1"
    unfolding n_def by (rule round1_parts)+
  have eb: "\<bar>b - (c - a)\<bar> \<le> (\<bar>c - a\<bar> + 1) / 8000000000000000"
    unfolding b_def by (rule fl_close_numeral)
  from mc(2) ma(2) have ca: "\<bar>c - a\<bar> \<le> 2000004" by argo
  from eb ca have eb': "\<bar>b - (c - a)\<bar> \<le> 1 / 1000000000" by argo
  from eb' ca have bb: "\<bar>b\<bar> \<le> 2000005" by argo
  have e3: "\<bar>fl (b * 10) - b * 10\<bar> \<le> (\<bar>b * 10\<bar> + 1) / 8000000000000000" by (rule fl_close_numeral)
  from bb have "\<bar>b * 10\<bar> \<le> 20000050" by simp
  with e3 have e3': "\<bar>fl (b * 10) - b * 10\<bar> \<le> 1 / 100000000" by argo
  have "\<bar>fl (b * 10) - (fl (c * 10) - fl (a * 10))\<bar> \<le> 1 / 10000000"
    using e3' mc(3) ma(3) eb' by argo
  with i j n have "real_of_int n < real_of_int i - real_of_int j + 2"
      "real_of_int i - real_of_int j < real_of_int n + 2"
    by argo+
  then have "real_of_int n < real_of_int (i - j) + 2" "real_of_int (i - j) < real_of_int n + 2"
    by simp_all
  then have "n < i - j + 2" "i - j < n + 2" by linarith+
  then have "\<bar>n - (i - j)\<bar> \<le> 1" by linarith
  then have d: "\<bar>real_of_int n - (real_of_int i - real_of_int j)\<bar> \<le> 1"
    by (metis of_int_1 of_int_abs of_int_diff of_int_le_iff)
  define u where "u = real_of_int n / 10"
  have rb: "round1 b = fl u" unfolding u_def n_def by (rule round1_parts(3))
  from n bb e3' have "\<bar>real_of_int n\<bar> \<le> 20000052" by argo
  then have un: "\<bar>u\<bar> \<le> 2000006" unfolding u_def by simp
  have "\<bar>fl u - u\<bar> \<le> (\<bar>u\<bar> + 1) / 8000000000000000" by (rule fl_close_numeral)
  with un have e4: "\<bar>round1 b - u\<bar> \<le> 2000007 / 8000000000000000" unfolding rb by argo
  from d have d': "\<bar>u - (real_of_int i / 10 - real_of_int j / 10)\<bar> \<le> 1 / 10"
    unfolding u_def by argo
  have "\<bar>round1 b - (round1 c - round1 a)\<bar> \<le> 1 / 10 + 1 / 1000000000"
    using e4 d' mc(4) ma(4) by argo
  then show ?thesis by (simp add: fsub_def b_def)
qed

lemma history_loop_balance:
  "\<forall>p \<in> set (history_loop rt m acts today d c a).
     \<bar>ctl p\<bar> \<le> 10 ^ 6 \<and> \<bar>atl p\<bar> \<le> 10 ^ 6
       \<longrightarrow> \<bar>tsb p - (ctl p - atl p)\<bar> \<le> 1 / 10 + 1 / 10 ^ 9"
proof (induction rt m acts today d c a rule: history_loop.induct)
  case (1 rt m acts today d c a)
  show ?case
  proof (cases "d \<le> today")
    case True
    define c' where "c' = calculateCTL rt m acts d c"
    define a' where "a' = calculateATL rt m acts d a"
    have first: "\<bar>round1 c'\<bar> \<le> 10 ^ 6 \<and> \<bar>round1 a'\<bar> \<le> 10 ^ 6
        \<longrightarrow> \<bar>round1 (fsub c' a') - (round1 c' - round1 a')\<bar> \<le> 1 / 10 + 1 / 10 ^ 9"
      using round1_balance [of c' a'] by simp
    have rest: "\<forall>p \<in> set (case add_days rt d 1 of
                              None \<Rightarrow> []
                            | Some d' \<Rightarrow> history_loop rt m acts today d' c' a').
        \<bar>ctl p\<bar> \<le> 10 ^ 6 \<and> \<bar>atl p\<bar> \<le> 10 ^ 6
          \<longrightarrow> \<bar>tsb p - (ctl p - atl p)\<bar> \<le> 1 / 10 + 1 / 10 ^ 9"
    proof (cases "add_days rt d 1")
      case None
      then show ?thesis by simp
    next
      case (Some d')
      from 1 [OF True c'_def a'_def refl Some] show ?thesis by (simp only: Some option.case)
    qed
    from first rest show ?thesis
      unfolding history_loop_step [OF True] calculateTSB_def c'_def [symmetric]
        a'_def [symmetric]
      by simp
  next
    case False
    then show ?thesis by (simp add: history_loop_past)
  qed
qed

text \<open>
  Claim C2, as the code has it: the three values of a point are rounded to one decimal
  independently, \<open>tsb\<close> from the unrounded difference \<open>ctl - atl\<close>. For every point of
  a history whose \<open>ctl\<close> and \<open>atl\<close> do not exceed \<open>10^6\<close> in absolute value,
  \<open>tsb = ctl - atl\<close> holds within a tolerance of \<open>0.1 + 10^(-9)\<close>: one step of the
  first decimal, and the error of writing the three decimals in binary64.
\<close>

theorem generateTrainingLoadHistory_balance:
  "\<forall>p \<in> set (generateTrainingLoadHistory rt m daysBack).
     \<bar>ctl p\<bar> \<le> 10 ^ 6 \<and> \<bar>atl p\<bar> \<le> 10 ^ 6
       \<longrightarrow> \<bar>tsb p - (ctl p - atl p)\<bar> \<le> 1 / 10 + 1 / 10 ^ 9"
proof (cases "add_days rt (now rt) (- daysBack)")
  case None
  then show ?thesis by (simp add: generateTrainingLoadHistory_def)
next
  case (Some startDate)
  show ?thesis
    unfolding generateTrainingLoadHistory_def Let_def Some option.case
    by (rule history_loop_balance)
qed

lemma exp_minus_bounds:
  fixes x :: real
  assumes "0 \<le> x" and "x \<le> 1"
  shows "1 / (1 + x + x\<^sup>2) \<le> exp (- x)" and "exp (- x) \<le> 1 / (1 + x + x\<^sup>2 / 2)"
proof -
  have lo: "1 + x + x\<^sup>2 / 2 \<le> exp x" using assms(1) by (rule exp_lower_Taylor_quadratic)
  have hi: "exp x \<le> 1 + x + x\<^sup>2" using assms by (rule exp_bound)
  have pos: "0 < 1 + x + x\<^sup>2 / 2" using assms(1) by (simp add: add_pos_nonneg)
  have e: "exp (- x) = 1 / exp x" by (simp add: exp_minus divide_inverse)
  have pos2: "0 < 1 + x + x\<^sup>2" using assms(1) by (simp add: add_pos_nonneg)
  have ex: "0 < exp x" by simp
  show "1 / (1 + x + x\<^sup>2) \<le> exp (- x)"
    unfolding e using hi ex pos2 by (simp add: frac_le)
  show "exp (- x) \<le> 1 / (1 + x + x\<^sup>2 / 2)"
    unfolding e using lo pos by (simp add: frac_le)
qed

lemma fl_bracket:
  assumes "lo \<le> x" and "x \<le> hi" and "- 1000 \<le> lo" and "hi \<le> 1000"
  shows "lo - 1 / 1000000000000 \<le> fl x" and "fl x \<le> hi + 1 / 1000000000000"
  using fl_close_numeral [of x] assms by argo+

lemma decay_1: "fdiv (- 1) 42 = - (857828500451523 / 36028797018963968)"
  unfolding fdiv_def by (subst fl_eval_lt1 [where n = 6]) (simp_all add: rne_def)

lemma decay_2: "fdiv (- 1) 7 = - (2573485501354569 / 18014398509481984)"
  unfolding fdiv_def by (subst fl_eval_lt1 [where n = 3]) (simp_all add: rne_def)

lemma ctl_gain_bounds:
  "2351 / 100000 \<le> fsub 1 (math_exp (fdiv (- 1) 42))"
  "fsub 1 (math_exp (fdiv (- 1) 42)) \<le> 2381 / 100000"
proof -
  define q :: real where "q = 857828500451523 / 36028797018963968"
  have "1 / (1 + q + q\<^sup>2) \<le> exp (- q)" and "exp (- q) \<le> 1 / (1 + q + q\<^sup>2 / 2)"
    by (rule exp_minus_bounds; simp add: q_def)+
  moreover have "97620 / 100000 \<le> 1 / (1 + q + q\<^sup>2)"
    and "1 / (1 + q + q\<^sup>2 / 2) \<le> 97648 / 100000"
    by (simp_all add: q_def power2_eq_square)
  ultimately have "97620 / 100000 \<le> exp (- q)" "exp (- q) \<le> 97648 / 100000" by linarith+
  then have e: "97620 / 100000 - 1 / 1000000000000 \<le> fl (exp (- q))"
      "fl (exp (- q)) \<le> 97648 / 100000 + 1 / 1000000000000"
    using fl_bracket [of "97620 / 100000" "exp (- q)" "97648 / 100000"] by simp_all
  have "1 - (97648 / 100000 + 1 / 1000000000000) - 1 / 1000000000000 \<le> fl (1 - fl (exp (- q)))"
    and "fl (1 - fl (exp (- q))) \<le> 1 - (97620 / 100000 - 1 / 1000000000000) + 1 / 1000000000000"
    using fl_bracket [of "1 - (97648 / 100000 + 1 / 1000000000000)" "1 - fl (exp (- q))"
                         "1 - (97620 / 100000 - 1 / 1000000000000)"] e
    by simp_all
  then show "2351 / 100000 \<le> fsub 1 (math_exp (fdiv (- 1) 42))"
    "fsub 1 (math_exp (fdiv (- 1) 42)) \<le> 2381 / 100000"
    unfolding decay_1 decay_2 fsub_def math_exp_def q_def by simp_all
qed

lemma atl_gain_bounds:
  "13273 / 100000 \<le> fsub 1 (math_exp (fdiv (- 1) 7))"
  "fsub 1 (math_exp (fdiv (- 1) 7)) \<le> 14037 / 100000"
proof -
  define q :: real where "q = 2573485501354569 / 18014398509481984"
  have "1 / (1 + q + q\<^sup>2) \<le> exp (- q)" and "exp (- q) \<le> 1 / (1 + q + q\<^sup>2 / 2)"
    by (rule exp_minus_bounds; simp add: q_def)+
  moreover have "85964 / 100000 \<le> 1 / (1 + q + q\<^sup>2)"
    and "1 / (1 + q + q\<^sup>2 / 2) \<le> 86726 / 100000"
    by (simp_all add: q_def power2_eq_square)
  ultimately have "85964 / 100000 \<le> exp (- q)" "exp (- q) \<le> 86726 / 100000" by linarith+
  then have e: "85964 / 100000 - 1 / 1000000000000 \<le> fl (exp (- q))"
      "fl (exp (- q)) \<le> 86726 / 100000 + 1 / 1000000000000"
    using fl_bracket [of "85964 / 100000" "exp (- q)" "86726 / 100000"] by simp_all
  have "1 - (86726 / 100000 + 1 / 1000000000000) - 1 / 1000000000000 \<le> fl (1 - fl (exp (- q)))"
    and "fl (1 - fl (exp (- q))) \<le> 1 - (85964 / 100000 - 1 / 1000000000000) + 1 / 1000000000000"
    using fl_bracket [of "1 - (86726 / 100000 + 1 / 1000000000000)" "1 - fl (exp (- q))"
                         "1 - (85964 / 100000 - 1 / 1000000000000)"] e
    by simp_all
  then show "13273 / 100000 \<le> fsub 1 (math_exp (fdiv (- 1) 7))"
    "fsub 1 (math_exp (fdiv (- 1) 7)) \<le> 14037 / 100000"
    unfolding decay_1 decay_2 fsub_def math_exp_def q_def by simp_all
qed

lemma short_jog_1: "fdiv 240 3600 = 4803839602528529 / 72057594037927936"
  unfolding fdiv_def by (subst fl_eval_lt1 [where n = 4]) (simp_all add: rne_def)

lemma short_jog_2: "fdiv 240 60 = 4"
  by (simp add: fdiv_def)

lemma short_jog_3: "fdiv 600 1000 = 5404319552844595 / 9007199254740992"
  unfolding fdiv_def by (subst fl_eval_lt1 [where n = 1]) (simp_all add: rne_def)

lemma short_jog_4:
  "fdiv 4 (5404319552844595 / 9007199254740992)
     = 7505999378950827 / 1125899906842624"
  unfolding fdiv_def by (subst fl_eval_ge1 [where n = 2]) (simp_all add: rne_def)

lemma short_jog_5: "fmul (4803839602528529 / 72057594037927936) 60 = 4"
  unfolding fmul_def by (subst fl_eval_ge1 [where n = 1]) (simp_all add: rne_def)

lemma short_jog_6: "fmul 4 (1 / 2) = 2"
  by (simp add: fmul_def)



lemma short_jog_tss: "calculateTSS (StravaMetrics 2025 2020 [short_jog]) short_jog = 2"
proof -
  have f: "estimateFTP [short_jog] = 250"
    by (simp add: estimateFTP_def short_jog_def bare_activity_def truthy_def)
  show ?thesis
    by (simp add: calculateTSS_def StravaMetrics_fields f Let_def short_jog_def
          bare_activity_def truthy_def num_def math_round_def
          short_jog_1 short_jog_2 short_jog_3 short_jog_4 short_jog_5 short_jog_6)
qed

lemma short_jog_today:
  "tss_today demo_runtime (StravaMetrics 2025 2020 [short_jog]) [short_jog] (now demo_runtime) = 2"
proof -
  have "on_day demo_runtime (now demo_runtime) short_jog"
    by (simp add: on_day_def date_value_def demo_runtime_def demo_parse_def local_day_def
          local_time_def local_tza_def dst_active_def brussels_2025_def day_ms_def hour_ms_def
          short_jog_def bare_activity_def)
  then show ?thesis
    by (simp add: tss_today_def short_jog_tss)
qed

lemma jog_ctl:
  defines "c \<equiv> calculateCTL demo_runtime (StravaMetrics 2025 2020 [short_jog]) [short_jog]
                  (now demo_runtime) 0"
  shows "470 / 10000 \<le> c" and "c \<le> 477 / 10000"
proof -
  define g where "g = fsub 1 (math_exp (fdiv (- 1) 42))"
  have g: "2351 / 100000 \<le> g" "g \<le> 2381 / 100000"
    unfolding g_def by (rule ctl_gain_bounds)+
  have c: "c = fl (fl (2 * g))"
    unfolding c_def calculateCTL_def Let_def short_jog_today g_def [symmetric]
    by (simp add: fadd_def fmul_def fsub_def)
  have x: "4702 / 100000 - 1 / 1000000000000 \<le> fl (2 * g)"
      "fl (2 * g) \<le> 4762 / 100000 + 1 / 1000000000000"
    using fl_bracket [of "4702 / 100000" "2 * g" "4762 / 100000"] g by simp_all
  show "470 / 10000 \<le> c" and "c \<le> 477 / 10000"
    using fl_bracket [of "4702 / 100000 - 1 / 1000000000000" "fl (2 * g)"
                         "4762 / 100000 + 1 / 1000000000000"] x
    unfolding c by simp_all
qed

lemma jog_atl:
  defines "a \<equiv> calculateATL demo_runtime (StravaMetrics 2025 2020 [short_jog]) [short_jog]
                  (now demo_runtime) 0"
  shows "2654 / 10000 \<le> a" and "a \<le> 2808 / 10000"
proof -
  define g where "g = fsub 1 (math_exp (fdiv (- 1) 7))"
  have g: "13273 / 100000 \<le> g" "g \<le> 14037 / 100000"
    unfolding g_def by (rule atl_gain_bounds)+
  have a: "a = fl (fl (2 * g))"
    unfolding a_def calculateATL_def Let_def short_jog_today g_def [symmetric]
    by (simp add: fadd_def fmul_def fsub_def)
  have x: "26546 / 100000 - 1 / 1000000000000 \<le> fl (2 * g)"
      "fl (2 * g) \<le> 28074 / 100000 + 1 / 1000000000000"
    using fl_bracket [of "26546 / 100000" "2 * g" "28074 / 100000"] g by simp_all
  show "2654 / 10000 \<le> a" and "a \<le> 2808 / 10000"
    using fl_bracket [of "26546 / 100000 - 1 / 1000000000000" "fl (2 * g)"
                         "28074 / 100000 + 1 / 1000000000000"] x
    unfolding a by simp_all
qed

lemma round1_between:
  assumes "real_of_int k - 1 / 2 + 1 / 1000 \<le> x * 10" and "x * 10 \<le> real_of_int k + 1 / 2 - 1 / 1000"
    and "- 90 \<le> x" and "x \<le> 90"
  shows "round1 x = fl (real_of_int k / 10)"
proof -
  have "x * 10 - 1 / 1000000000000 \<le> fl (x * 10)" "fl (x * 10) \<le> x * 10 + 1 / 1000000000000"
    using fl_bracket [of "x * 10" "x * 10" "x * 10"] assms(3,4) by simp_all
  with assms(1,2) have "real_of_int k \<le> fl (x * 10) + 1 / 2" "fl (x * 10) + 1 / 2 < real_of_int k + 1"
    by linarith+
  then have "\<lfloor>fl (x * 10) + 1 / 2\<rfloor> = k" by (intro floor_unique)
  then show ?thesis by (simp add: round1_def math_round_def fmul_def fdiv_def)
qed

lemma jog_history:
  "generateTrainingLoadHistory demo_runtime (StravaMetrics 2025 2020 [short_jog]) 0
     = [jog_day_point]"
proof -
  let ?m = "StravaMetrics 2025 2020 [short_jog]"
  define c where "c = calculateCTL demo_runtime ?m [short_jog] (now demo_runtime) 0"
  define a where "a = calculateATL demo_runtime ?m [short_jog] (now demo_runtime) 0"
  have cb: "470 / 10000 \<le> c" "c \<le> 477 / 10000" unfolding c_def by (rule jog_ctl)+
  have ab: "2654 / 10000 \<le> a" "a \<le> 2808 / 10000" unfolding a_def by (rule jog_atl)+
  have bb: "- 2338 / 10000 - 1 / 1000000000000 \<le> fl (c - a)"
      "fl (c - a) \<le> - 2177 / 10000 + 1 / 1000000000000"
    using fl_bracket [of "- 2338 / 10000" "c - a" "- 2177 / 10000"] cb ab by simp_all
  have rc: "round1 c = 0"
    using round1_between [of 0 c] cb by simp
  have ra: "round1 a = fl (3 / 10)"
    using round1_between [of 3 a] ab by simp
  have rb: "round1 (fsub c a) = fl (- (2 / 10))"
    using round1_between [of "- 2" "fl (c - a)"] bb by (simp add: fsub_def)
  have s: "sort_by (starts_after demo_runtime) (activities ?m) = [short_jog]"
    by (simp add: StravaMetrics_fields sort_by_def)
  have n: "now demo_runtime = 1748800800000" by (simp add: demo_runtime_def)
  have start: "add_days demo_runtime 1748800800000 (- 0) = Some 1748800800000"
    and nxt: "add_days demo_runtime 1748800800000 1 = Some 1748887200000"
    by (simp_all add: add_days_def utc_time_def local_time_def local_tza_def dst_active_def
          time_clip_def demo_runtime_def brussels_2025_def day_ms_def hour_ms_def)
  have d: "iso_day 1748800800000 = 20240" by (simp add: iso_day_def day_ms_def)
  have past: "(1748800800000::int) < 1748887200000" by simp
  show ?thesis
    unfolding generateTrainingLoadHistory_def Let_def s n start option.case
      history_loop_step [OF order_refl] nxt history_loop_past [OF past] calculateTSB_def
      c_def [symmetric, unfolded n] a_def [symmetric, unfolded n] rc ra rb d
      jog_day_point_def
    by (rule refl)
qed

theorem generateTrainingLoadHistory_balance_witness:
  "jog_day_point \<in> set (generateTrainingLoadHistory demo_runtime
                            (StravaMetrics 2025 2020 [short_jog]) 0)
   \<and> \<bar>ctl jog_day_point\<bar> \<le> 10 ^ 6 \<and> \<bar>atl jog_day_point\<bar> \<le> 10 ^ 6
   \<and> \<bar>tsb jog_day_point - (ctl jog_day_point - atl jog_day_point)\<bar> \<le> 1 / 10 + 1 / 10 ^ 9"
proof -
  have m: "\<bar>ctl jog_day_point\<bar> \<le> 10 ^ 6" "\<bar>atl jog_day_point\<bar> \<le> 10 ^ 6"
    by (simp_all add: jog_day_point_def binary64_0_3)
  from generateTrainingLoadHistory_balance
         [of demo_runtime "StravaMetrics 2025 2020 [short_jog]" 0] m
  show ?thesis by (simp add: jog_history)
qed

text \<open>
  The tolerance 0.05 of the claim as stated is too small. One activity with a TSS of 2
  today and \<open>daysBack = 0\<close>: \<open>ctl = 0.047\<close> is rounded to \<open>0\<close>, \<open>atl = 0.266\<close> to
  \<open>0.3\<close> and \<open>tsb = -0.219\<close> to \<open>-0.2\<close>, which differs from \<open>0 - 0.3\<close> by \<open>0.1\<close>.
\<close>

theorem generateTrainingLoadHistory_tolerance_counterexample:
  "generateTrainingLoadHistory demo_runtime (StravaMetrics 2025 2020 [short_jog]) 0
     = [jog_day_point]
   \<and> \<not> \<bar>tsb jog_day_point - (ctl jog_day_point - atl jog_day_point)\<bar> \<le> 5 / 100"
  using jog_history by (simp add: jog_day_point_def binary64_0_3 binary64_minus0_2)

section \<open>Race-time prediction (claim C8)\<close>

lemma binary64_0_2_literal: "fl 0.2 = 3602879701896397 / 18014398509481984"
  by (simp add: binary64_0_2)

lemma binary64_0_000104_literal: "fl 0.000104 = 7673845534663173 / 73786976294838206464"
  by (simp add: binary64_0_000104)

lemma binary64_0_182258_literal: "fl 0.182258 = 6566536487082335 / 36028797018963968"
  by (simp add: binary64_0_182258)

lemma floor_div60: "\<lfloor>t / 60 :: real\<rfloor> = \<lfloor>t\<rfloor> div 60"
proof -
  have "\<lfloor>t\<rfloor> div 60 = \<lfloor>t / real_of_int 60\<rfloor>"
    by (rule floor_divide_real_eq_div [symmetric]) simp
  then show ?thesis by simp
qed

lemma minutes_part:
  assumes "0 \<le> (t::real)"
  shows "\<lfloor>js_rem t 60\<rfloor> = \<lfloor>t\<rfloor> mod 60"
proof -
  from assms have "js_trunc (t / 60) = \<lfloor>t / 60\<rfloor>" by (simp add: js_trunc_def)
  then have "js_rem t 60 = t - real_of_int (60 * \<lfloor>t / 60\<rfloor>)"
    by (simp add: js_rem_def)
  then have "\<lfloor>js_rem t 60\<rfloor> = \<lfloor>t\<rfloor> - 60 * \<lfloor>t / 60\<rfloor>"
    by (simp only: floor_diff_of_int)
  also have "\<dots> = \<lfloor>t\<rfloor> - 60 * (\<lfloor>t\<rfloor> div 60)" by (simp only: floor_div60)
  also have "\<dots> = \<lfloor>t\<rfloor> mod 60" by (simp add: minus_mult_div_eq_mod)
  finally show ?thesis .
qed

lemma fraction_part: "0 \<le> (t::real) \<Longrightarrow> js_rem t 1 = t - real_of_int \<lfloor>t\<rfloor>"
  by (simp add: js_rem_def js_trunc_def)

lemma hours_positive:
  assumes "60 \<le> t"
  shows "1 \<le> \<lfloor>fdiv t 60\<rfloor>"
proof -
  from assms have "1 \<le> t / 60" by simp
  then have "1 \<le> fl (t / 60)" by (rule fl_ge_one)
  then show ?thesis by (simp add: fdiv_def le_floor_iff)
qed

lemma hours_zero:
  assumes "0 \<le> fl x" and "fl x < 60"
  shows "\<lfloor>fdiv (fl x) 60\<rfloor> = 0"
proof -
  define y where "y = fl x / 60"
  have y0: "0 \<le> y" using assms(1) by (simp add: y_def)
  have y1: "y < 1" using assms(2) by (simp add: y_def)
  have "fl y < 1"
  proof (cases "y < 1 / 2")
    case True
    with y0 have "\<bar>y\<bar> < 1 / 2" by simp
    then have "\<bar>fl y\<bar> \<le> 1 / 2" by (rule fl_abs_le_half)
    then show ?thesis by linarith
  next
    case False
    then have "30 \<le> fl x" by (simp add: y_def)
    then have "16 \<le> \<bar>fl x\<bar>" by simp
    then obtain k where k: "fl x = real_of_int k / 2 ^ 48" using fl_grid_48 by blast
    from assms(2) have "real_of_int k < real_of_int (60 * 2 ^ 48)" by (simp add: k field_simps)
    then have "k < 60 * 2 ^ 48" by (simp only: of_int_less_iff)
    then have "k \<le> 60 * 2 ^ 48 - 1" by simp
    then have "real_of_int k \<le> real_of_int (60 * 2 ^ 48 - 1)" by (simp only: of_int_le_iff)
    then have "y * 2 ^ 53 \<le> (60 * 2 ^ 48 - 1) * 32 / 60"
      by (simp add: y_def k)
    also have "\<dots> < real_of_int (2 ^ 53 - 1) + 1 / 2" by simp
    finally have "rne (y * 2 ^ 53) \<le> 2 ^ 53 - 1" by (rule rne_below_half)
    then have r: "real_of_int (rne (y * 2 ^ 53)) \<le> real_of_int (2 ^ 53 - 1)"
      by (simp only: of_int_le_iff)
    have "fl y = real_of_int (rne (y * 2 ^ (52 + 1))) / 2 ^ (52 + 1)"
      using False y0 y1 by (intro fl_eval_lt1) simp_all
    then have "fl y = real_of_int (rne (y * 2 ^ 53)) / 2 ^ 53" by simp
    also have "\<dots> \<le> real_of_int (2 ^ 53 - 1) / 2 ^ 53"
      using r by (simp only: divide_right_mono zero_le_numeral zero_le_power)
    also have "\<dots> < 1" by simp
    finally show ?thesis .
  qed
  moreover have "0 \<le> fl y" using y0 by (rule fl_nonneg)
  ultimately have "\<lfloor>fl y\<rfloor> = 0" by (simp add: floor_eq_iff)
  then show ?thesis by (simp add: fdiv_def y_def)
qed

lemma whole_seconds_range:
  assumes "0 \<le> fl x"
  shows "0 \<le> whole_seconds (fl x) \<and> whole_seconds (fl x) \<le> 59"
proof -
  define t where "t = fl x"
  define r where "r = t - real_of_int \<lfloor>t\<rfloor>"
  have r0: "0 \<le> r" and r1: "r < 1" unfolding r_def by linarith+
  have lo: "0 \<le> fl (r * 60)" using r0 by (intro fl_nonneg) simp
  have "fl (r * 60) < 60"
  proof (cases "r * 60 < 32")
    case True
    with r0 have "\<bar>r * 60\<bar> < 32" by simp
    then have "\<bar>fl (r * 60)\<bar> \<le> 32" by (rule fl_abs_le_32)
    then show ?thesis by linarith
  next
    case False
    then have big: "32 \<le> r * 60" by simp
    then have "1 / 2 \<le> r" by simp
    moreover have "r \<le> t" using assms unfolding r_def t_def
      by (simp add: of_int_floor_le)
    ultimately have "1 / 2 \<le> \<bar>fl x\<bar>" by (simp add: t_def)
    then obtain k where k: "fl x = real_of_int k / 2 ^ 53" using fl_grid_53 by blast
    define j where "j = k - \<lfloor>t\<rfloor> * 2 ^ 53"
    have rj: "r = real_of_int j / 2 ^ 53"
      unfolding r_def j_def using k by (simp add: t_def field_simps)
    from r1 have "real_of_int j < real_of_int (2 ^ 53)" by (simp add: rj field_simps)
    then have "j < 2 ^ 53" by (simp only: of_int_less_iff)
    then have "j \<le> 2 ^ 53 - 1" by simp
    then have "real_of_int j \<le> real_of_int (2 ^ 53 - 1)" by (simp only: of_int_le_iff)
    then have "r * 60 * 2 ^ 47 \<le> (2 ^ 53 - 1) * 60 / 64"
      by (simp add: rj)
    also have "\<dots> < real_of_int (60 * 2 ^ 47 - 1) + 1 / 2" by simp
    finally have "rne (r * 60 * 2 ^ 47) \<le> 60 * 2 ^ 47 - 1" by (rule rne_below_half)
    then have q: "real_of_int (rne (r * 60 * 2 ^ 47)) \<le> real_of_int (60 * 2 ^ 47 - 1)"
      by (simp only: of_int_le_iff)
    have "fl (r * 60) = real_of_int (rne (r * 60 * 2 ^ (52 - 5))) / 2 ^ (52 - 5)"
      using big r0 r1 by (intro fl_eval_ge1) simp_all
    then have "fl (r * 60) = real_of_int (rne (r * 60 * 2 ^ 47)) / 2 ^ 47" by simp
    also have "\<dots> \<le> real_of_int (60 * 2 ^ 47 - 1) / 2 ^ 47"
      using q by (simp only: divide_right_mono zero_le_numeral zero_le_power)
    also have "\<dots> < 60" by simp
    finally show ?thesis .
  qed
  with lo have "0 \<le> \<lfloor>fl (r * 60)\<rfloor>" "\<lfloor>fl (r * 60)\<rfloor> < 60"
    by (simp_all add: floor_less_iff)
  then show ?thesis
    unfolding whole_seconds_def fmul_def t_def [symmetric] r_def [symmetric] by simp
qed

lemma time_minutes_nonneg:
  assumes "0 < v" and "0 < D"
  shows "0 \<le> time_minutes D v"
proof -
  have a: "0 \<le> fmul (fmul v (fl 0.2)) D"
    unfolding fmul_def using assms by (intro fl_nonneg mult_nonneg_nonneg) simp_all
  have b: "0 \<le> fadd (fmul (fl 0.000104) D) (fl 0.182258)"
    unfolding fmul_def fadd_def using assms
    by (intro fl_nonneg add_nonneg_nonneg mult_nonneg_nonneg) simp_all
  have "0 \<le> race_velocity D v"
    unfolding race_velocity_def fdiv_def using a b by (intro fl_nonneg divide_nonneg_nonneg)
  moreover have "0 \<le> fmul D 1000"
    unfolding fmul_def using assms by (intro fl_nonneg) simp
  ultimately show ?thesis
    unfolding time_minutes_def Let_def fdiv_def by (intro fl_nonneg divide_nonneg_nonneg)
qed

text \<open>
  The velocity is positive on every input of a sensible size; it is rounded to zero only
  when a product underflows.
\<close>

lemma fl_positive:
  assumes "1 / 1000 \<le> x"
  shows "x - (x + 1) / 8000000000000000 \<le> fl x" and "0 < fl x"
proof -
  show "x - (x + 1) / 8000000000000000 \<le> fl x"
    using fl_close_numeral [of x] assms by argo
  then show "0 < fl x" using assms by argo
qed

lemma race_velocity_positive:
  assumes "1 \<le> v" and "v \<le> 1000" and "1 / 10 \<le> D" and "D \<le> 1000"
  shows "0 < race_velocity D v"
proof -
  define c :: real where "c = 3602879701896397 / 18014398509481984"
  define a where "a = fl (v * c)"
  define b where "b = fl (a * D)"
  define e where "e = fl (7673845534663173 / 73786976294838206464 * D)"
  define f where "f = fl (e + 6566536487082335 / 36028797018963968)"
  have a: "19 / 100 \<le> a"
    unfolding a_def using fl_bracket [of "199 / 1000" "v * c" 201] assms(1,2)
    by (simp add: c_def)
  have "19 / 100 * (1 / 10) \<le> a * D"
    using a assms(3) by (intro mult_mono) simp_all
  then have aD: "19 / 1000 \<le> a * D" by simp
  then have "a * D - (a * D + 1) / 8000000000000000 \<le> b"
    unfolding b_def by (intro fl_positive) simp
  with aD have b: "18 / 1000 \<le> b" by argo
  have e: "- (1 / 100) \<le> e" "e \<le> 2 / 10"
    unfolding e_def
    using fl_bracket [of 0 "7673845534663173 / 73786976294838206464 * D" "11 / 100"]
      assms(3,4)
    by simp_all
  have f: "17 / 100 \<le> f" "f \<le> 4 / 10"
    unfolding f_def
    using fl_bracket [of "172 / 1000" "e + 6566536487082335 / 36028797018963968" "39 / 100"] e
    by simp_all
  have "1 / 1000 \<le> b / f"
    using b f by (simp add: field_simps)
  then have "0 < fl (b / f)" by (rule fl_positive)
  then show ?thesis
    unfolding race_velocity_def fdiv_def fmul_def fadd_def binary64_0_2_literal
      binary64_0_000104_literal binary64_0_182258_literal
      f_def e_def b_def a_def c_def
    by (simp add: mult.commute)
qed

lemma time_minutes_rounded: "\<exists>x. time_minutes D v = fl x"
  unfolding time_minutes_def Let_def fdiv_def by blast

lemma show_nat_one_digit: "n < 10 \<Longrightarrow> length (show_nat n) = 1"
  by (simp add: show_nat.simps)

lemma show_nat_two_digits: "10 \<le> n \<Longrightarrow> n < 100 \<Longrightarrow> length (show_nat n) = 2"
  by (subst show_nat.simps) (simp add: show_nat_one_digit)

lemma padStart2_length:
  assumes "0 \<le> i" and "i < 100"
  shows "length (padStart2 (show_int i)) = 2"
proof (cases "nat i < 10")
  case True
  with assms show ?thesis by (simp add: padStart2_def show_int_def show_nat_one_digit)
next
  case False
  with assms have "length (show_nat (nat i)) = 2"
    by (intro show_nat_two_digits) auto
  with assms show ?thesis by (simp add: padStart2_def show_int_def)
qed

lemma show_nat_digit: "n < 10 \<Longrightarrow> show_nat n = [''0123456789'' ! n]"
  by (simp add: show_nat.simps)

lemma show_nat_tens:
  "10 \<le> n \<Longrightarrow> n < 100 \<Longrightarrow> show_nat n = [''0123456789'' ! (n div 10), ''0123456789'' ! (n mod 10)]"
  by (subst show_nat.simps) (simp add: show_nat_digit)

lemma marathon_1: "fmul 50 (3602879701896397 / 18014398509481984) = 10"
  unfolding fmul_def by (subst fl_eval_ge1 [where n = 3]) (simp_all add: rne_def)

lemma marathon_2:
  "fmul 10 (5938418321153065 / 140737488355328)
     = 7423022901441331 / 17592186044416"
  unfolding fmul_def by (subst fl_eval_ge1 [where n = 8]) (simp_all add: rne_def)

lemma marathon_3:
  "fmul (7673845534663173 / 73786976294838206464) (5938418321153065 / 140737488355328)
     = 2529671190118067 / 576460752303423488"
  unfolding fmul_def by (subst fl_eval_lt1 [where n = 8]) (simp_all add: rne_def)

lemma marathon_4:
  "fadd (2529671190118067 / 576460752303423488) (6566536487082335 / 36028797018963968)
     = 3362320468232357 / 18014398509481984"
  unfolding fadd_def by (subst fl_eval_lt1 [where n = 3]) (simp_all add: rne_def)

lemma marathon_5:
  "fdiv (7423022901441331 / 17592186044416) (3362320468232357 / 18014398509481984)
     = 4971317203215443 / 2199023255552"
  unfolding fdiv_def by (subst fl_eval_ge1 [where n = 11]) (simp_all add: rne_def)

lemma marathon_6: "fmul (5938418321153065 / 140737488355328) 1000 = 42195"
  unfolding fmul_def by (subst fl_eval_ge1 [where n = 15]) (simp_all add: rne_def)

lemma marathon_7:
  "fdiv 42195 (4971317203215443 / 2199023255552)
     = 5253625731613057 / 281474976710656"
  unfolding fdiv_def by (subst fl_eval_ge1 [where n = 4]) (simp_all add: rne_def)

lemma marathon_8:
  "fdiv (5253625731613057 / 281474976710656) 60
     = 5603867447053927 / 18014398509481984"
  unfolding fdiv_def by (subst fl_eval_lt1 [where n = 2]) (simp_all add: rne_def)

lemma marathon_9:
  "fmul (187076150821249 / 281474976710656) 60
     = 2806142262318735 / 70368744177664"
  unfolding fmul_def by (subst fl_eval_ge1 [where n = 5]) (simp_all add: rne_def)

lemma slow_marathon_1: "fmul 5 (3602879701896397 / 18014398509481984) = 1"
  unfolding fmul_def by (subst fl_eval_ge1 [where n = 0]) (simp_all add: rne_def)

lemma slow_marathon_2:
  "fmul 1 (5938418321153065 / 140737488355328)
     = 5938418321153065 / 140737488355328"
  unfolding fmul_def by (subst fl_eval_ge1 [where n = 5]) (simp_all add: rne_def)

lemma slow_marathon_3:
  "fmul (7673845534663173 / 73786976294838206464) (5938418321153065 / 140737488355328)
     = 2529671190118067 / 576460752303423488"
  unfolding fmul_def by (subst fl_eval_lt1 [where n = 8]) (simp_all add: rne_def)

lemma slow_marathon_4:
  "fadd (2529671190118067 / 576460752303423488) (6566536487082335 / 36028797018963968)
     = 3362320468232357 / 18014398509481984"
  unfolding fadd_def by (subst fl_eval_lt1 [where n = 3]) (simp_all add: rne_def)

lemma slow_marathon_5:
  "fdiv (5938418321153065 / 140737488355328) (3362320468232357 / 18014398509481984)
     = 1988526881286177 / 8796093022208"
  unfolding fdiv_def by (subst fl_eval_ge1 [where n = 7]) (simp_all add: rne_def)

lemma slow_marathon_6: "fmul (5938418321153065 / 140737488355328) 1000 = 42195"
  unfolding fmul_def by (subst fl_eval_ge1 [where n = 15]) (simp_all add: rne_def)

lemma slow_marathon_7:
  "fdiv 42195 (1988526881286177 / 8796093022208)
     = 3283516082258161 / 17592186044416"
  unfolding fdiv_def by (subst fl_eval_ge1 [where n = 7]) (simp_all add: rne_def)

lemma slow_marathon_8:
  "fdiv (3283516082258161 / 17592186044416) 60
     = 3502417154408705 / 1125899906842624"
  unfolding fdiv_def by (subst fl_eval_ge1 [where n = 1]) (simp_all add: rne_def)

lemma slow_marathon_9:
  "fmul (11369477996785 / 17592186044416) 60
     = 170542169951775 / 4398046511104"
  unfolding fmul_def by (subst fl_eval_ge1 [where n = 5]) (simp_all add: rne_def)

lemma five_k_1:
  "fmul (5193213320311603 / 140737488355328) (3602879701896397 / 18014398509481984)
     = 8309141312498565 / 1125899906842624"
  unfolding fmul_def by (subst fl_eval_ge1 [where n = 2]) (simp_all add: rne_def)

lemma five_k_2:
  "fmul (8309141312498565 / 1125899906842624) 5
     = 5193213320311603 / 140737488355328"
  unfolding fmul_def by (subst fl_eval_ge1 [where n = 5]) (simp_all add: rne_def)

lemma five_k_3:
  "fmul (7673845534663173 / 73786976294838206464) 5
     = 4796153459164483 / 9223372036854775808"
  unfolding fmul_def by (subst fl_eval_lt1 [where n = 11]) (simp_all add: rne_def)

lemma five_k_4:
  "fadd (4796153459164483 / 9223372036854775808) (6566536487082335 / 36028797018963968)
     = 1646317865383049 / 9007199254740992"
  unfolding fadd_def by (subst fl_eval_lt1 [where n = 3]) (simp_all add: rne_def)

lemma five_k_5:
  "fdiv (5193213320311603 / 140737488355328) (1646317865383049 / 9007199254740992)
     = 3551585338711171 / 17592186044416"
  unfolding fdiv_def by (subst fl_eval_ge1 [where n = 7]) (simp_all add: rne_def)

lemma five_k_6: "fmul 5 1000 = 5000"
  by (simp add: fmul_def)

lemma five_k_7:
  "fdiv 5000 (3551585338711171 / 17592186044416)
     = 1742799230800145 / 70368744177664"
  unfolding fdiv_def by (subst fl_eval_ge1 [where n = 4]) (simp_all add: rne_def)

lemma five_k_8:
  "fdiv (1742799230800145 / 70368744177664) 60
     = 7435943384747285 / 18014398509481984"
  unfolding fdiv_def by (subst fl_eval_lt1 [where n = 2]) (simp_all add: rne_def)

lemma five_k_9: "fmul (53949370536209 / 70368744177664) 60 = 809240558043135 / 17592186044416"
  unfolding fmul_def by (subst fl_eval_ge1 [where n = 5]) (simp_all add: rne_def)

lemma marathon_minutes:
  "race_velocity (fl 42.195) 50 = 4971317203215443 / 2199023255552"
  "time_minutes (fl 42.195) 50 = 5253625731613057 / 281474976710656"
  "whole_seconds (5253625731613057 / 281474976710656) = 39"
  by (simp_all add: race_velocity_def time_minutes_def whole_seconds_def
        binary64_42_195 binary64_0_2 binary64_0_000104 binary64_0_182258 marathon_1
        marathon_2 marathon_3 marathon_4 marathon_5 marathon_6 marathon_7 marathon_8
        marathon_9)

lemma slow_marathon_minutes:
  "race_velocity (fl 42.195) 5 = 1988526881286177 / 8796093022208"
  "time_minutes (fl 42.195) 5 = 3283516082258161 / 17592186044416"
  "whole_seconds (3283516082258161 / 17592186044416) = 38"
  "\<lfloor>fdiv (3283516082258161 / 17592186044416) 60\<rfloor> = 3"
  by (simp_all add: race_velocity_def time_minutes_def whole_seconds_def
        binary64_42_195 binary64_0_2 binary64_0_000104 binary64_0_182258
        slow_marathon_1 slow_marathon_2 slow_marathon_3 slow_marathon_4
        slow_marathon_5 slow_marathon_6 slow_marathon_7 slow_marathon_8
        slow_marathon_9)

lemma five_k_minutes:
  "time_minutes 5 (fl 36.9) = 1742799230800145 / 70368744177664"
  by (simp add: race_velocity_def time_minutes_def
        binary64_36_9 binary64_0_2 binary64_0_000104 binary64_0_182258 five_k_1
        five_k_2 five_k_3 five_k_4 five_k_5 five_k_6 five_k_7 five_k_8 five_k_9)

text \<open>
  Claim C8, as the code has it: for every positive VO2max \<open>v\<close> and positive distance
  \<open>D\<close> km for which the velocity is not rounded to zero, \<open>predictTime(D, v)\<close> renders
  \<open>timeMinutes\<close>, the binary64 value of \<open>(D * 1000) / velocity\<close> with
  \<open>velocity = v * 0.2 * D / (0.000104 D + 0.182258)\<close>, as \<open>H:MM:SS\<close> when it is at
  least 60 and as \<open>M:SS\<close> otherwise. \<open>H\<close> is the integer part of the binary64 quotient
  \<open>timeMinutes / 60\<close> and is at least 1, \<open>MM\<close> the whole minutes modulo 60, \<open>M\<close> the
  whole minutes, and \<open>SS\<close>, between 0 and 59, the integer part of the binary64 product
  of the fraction of a minute and 60; \<open>MM\<close> and \<open>SS\<close> are two digits each.
\<close>

theorem predictTime_formatted:
  assumes "0 < v" and "0 < D" and "race_velocity D v \<noteq> 0"
  shows "predictTime D v =
           (if 60 \<le> time_minutes D v
            then show_int \<lfloor>fdiv (time_minutes D v) 60\<rfloor> @ '':''
                   @ padStart2 (show_int (\<lfloor>time_minutes D v\<rfloor> mod 60)) @ '':''
                   @ padStart2 (show_int (whole_seconds (time_minutes D v)))
            else show_int \<lfloor>time_minutes D v\<rfloor> @ '':''
                   @ padStart2 (show_int (whole_seconds (time_minutes D v))))
       \<and> (60 \<le> time_minutes D v \<longrightarrow> 1 \<le> \<lfloor>fdiv (time_minutes D v) 60\<rfloor>)
       \<and> 0 \<le> whole_seconds (time_minutes D v) \<and> whole_seconds (time_minutes D v) \<le> 59
       \<and> length (padStart2 (show_int (\<lfloor>time_minutes D v\<rfloor> mod 60))) = 2
       \<and> length (padStart2 (show_int (whole_seconds (time_minutes D v)))) = 2"
proof -
  define t where "t = time_minutes D v"
  obtain x where x: "t = fl x" unfolding t_def using time_minutes_rounded by blast
  have t0: "0 \<le> t" unfolding t_def using assms(1,2) by (rule time_minutes_nonneg)
  have sec: "0 \<le> whole_seconds t" "whole_seconds t \<le> 59"
    using whole_seconds_range [of x] t0 unfolding x by simp_all
  have s: "\<lfloor>fmul (js_rem t 1) 60\<rfloor> = whole_seconds t"
    by (simp add: whole_seconds_def fraction_part [OF t0])
  have rendered: "predictTime D v =
           (if 60 \<le> t
            then show_int \<lfloor>fdiv t 60\<rfloor> @ '':'' @ padStart2 (show_int (\<lfloor>t\<rfloor> mod 60)) @ '':''
                   @ padStart2 (show_int (whole_seconds t))
            else show_int \<lfloor>t\<rfloor> @ '':'' @ padStart2 (show_int (whole_seconds t)))"
  proof (cases "60 \<le> t")
    case True
    then have "0 < \<lfloor>fdiv t 60\<rfloor>" using hours_positive [of t] by simp
    with True show ?thesis
      unfolding predictTime_def Let_def t_def [symmetric] s minutes_part [OF t0] by simp
  next
    case False
    then have "\<lfloor>fdiv t 60\<rfloor> = 0" using hours_zero [of x] t0 unfolding x by simp
    moreover have "\<lfloor>t\<rfloor> mod 60 = \<lfloor>t\<rfloor>"
    proof -
      from False have "\<lfloor>t\<rfloor> < 60" by (simp add: floor_less_iff)
      moreover from t0 have "0 \<le> \<lfloor>t\<rfloor>" by simp
      ultimately show ?thesis by simp
    qed
    ultimately show ?thesis
      using False
      unfolding predictTime_def Let_def t_def [symmetric] s minutes_part [OF t0] by simp
  qed
  have "length (padStart2 (show_int (\<lfloor>t\<rfloor> mod 60))) = 2"
    by (rule padStart2_length) simp_all
  moreover have "length (padStart2 (show_int (whole_seconds t))) = 2"
    using sec by (intro padStart2_length) simp_all
  ultimately show ?thesis
    using rendered sec hours_positive [of t] unfolding t_def by simp
qed

theorem predictTime_formatted_witness:
  "(0::real) < 50 \<and> 0 < fl 42.195 \<and> race_velocity (fl 42.195) 50 \<noteq> 0
   \<and> predictTime (fl 42.195) 50 = ''18:39''
   \<and> (0::real) < 5 \<and> race_velocity (fl 42.195) 5 \<noteq> 0
   \<and> predictTime (fl 42.195) 5 = ''3:06:38''"
proof -
  have D: "0 < fl 42.195" by (simp add: binary64_42_195)
  have 1: "predictTime (fl 42.195) 50 = ''18:39''"
    using predictTime_formatted [of 50 "fl 42.195"] D
    unfolding marathon_minutes
    by (simp add: show_int_def show_nat_digit show_nat_tens padStart2_def)
  have 2: "predictTime (fl 42.195) 5 = ''3:06:38''"
    using predictTime_formatted [of 5 "fl 42.195"] D
    unfolding slow_marathon_minutes
    by (simp add: show_int_def show_nat_digit show_nat_tens padStart2_def)
  have 3: "race_velocity (fl 42.195) 50 \<noteq> 0" "race_velocity (fl 42.195) 5 \<noteq> 0"
    unfolding marathon_minutes slow_marathon_minutes by simp_all
  from D 1 2 3 show ?thesis by simp
qed

text \<open>
  The claim as stated takes the formula over the real numbers and the duration in whole
  seconds. For 5 km and the binary64 number \<open>36.9\<close> the exact time is just above 24
  minutes 46 seconds, and is printed as \<open>24:46\<close>; the binary64 time is
  \<open>24.766666666666666\<close> minutes, whose fraction times 60 is rounded to a number
  below 46, and \<open>predictTime\<close> returns \<open>24:45\<close>.
\<close>

theorem predictTime_rounding_counterexample:
  "predictTime 5 (fl 36.9) = ''24:45''
   \<and> format_duration (exact_minutes 5 (fl 36.9)) = ''24:46''"
proof -
  have "predictTime 5 (fl 36.9) = ''24:45''"
    unfolding predictTime_def Let_def five_k_minutes
    by (simp add: js_rem_def js_trunc_def show_int_def show_nat_digit show_nat_tens
          padStart2_def binary64_36_9 binary64_0_2 binary64_0_000104 binary64_0_182258 five_k_1
          five_k_2 five_k_3 five_k_4 five_k_5 five_k_6 five_k_7 five_k_8 five_k_9)
  moreover have "format_duration (exact_minutes 5 (fl 36.9)) = ''24:46''"
    by (simp add: exact_minutes_def format_duration_def binary64_36_9 show_int_def
          show_nat_digit show_nat_tens padStart2_def)
  ultimately show ?thesis by simp
qed

section \<open>Daily TSS (claim C9)\<close>

lemma daily_loop_total:
  "\<forall>a \<in> set acts. start_date_local a \<noteq> None \<Longrightarrow>
     daily_loop m acts d = Inr (merge_totals d (daily_total m acts))"
proof (induction acts arbitrary: d)
  case Nil
  show ?case by (simp add: merge_totals_def daily_total_def)
next
  case (Cons a acts)
  from Cons.prems obtain s where s: "start_date_local a = Some s" by auto
  let ?k = "split_T s"
  let ?d' = "d(?k \<mapsto> (case d ?k of None \<Rightarrow> 0 | Some v \<Rightarrow> v) + calculateTSS m a)"
  have cur: "(case d ?k of None \<Rightarrow> 0 | Some v \<Rightarrow> if v = 0 then 0 else v)
               = (case d ?k of None \<Rightarrow> 0 | Some v \<Rightarrow> v)"
    by (simp split: option.splits)
  have step: "daily_loop m (a # acts) d = daily_loop m acts ?d'"
    by (simp add: s Let_def cur)
  have key: "date_key a = Some ?k" by (simp add: date_key_def s)
  have "merge_totals ?d' (daily_total m acts) = merge_totals d (daily_total m (a # acts))"
  proof
    fix k
    show "merge_totals ?d' (daily_total m acts) k = merge_totals d (daily_total m (a # acts)) k"
      using key by (cases "k = ?k") (auto simp: merge_totals_def daily_total_def split: option.splits)
  qed
  moreover from Cons.prems have "daily_loop m acts ?d' = Inr (merge_totals ?d' (daily_total m acts))"
    by (intro Cons.IH) simp
  ultimately show ?case by (simp only: step)
qed

lemma merge_totals_empty: "merge_totals Map.empty e = e"
  by (rule ext) (simp add: merge_totals_def split: option.splits)

text \<open>
  Claim C9: for every activity list (each record carrying its \<open>start_date_local\<close>),
  \<open>getDailyTSS\<close> returns the map that assigns to each local calendar date the sum of
  \<open>calculateTSS\<close> over all activities on that date, across the whole list; the
  parameter \<open>daysBack\<close> has no effect on the result.
\<close>

theorem getDailyTSS_totals:
  assumes "\<forall>a \<in> set (activities m). start_date_local a \<noteq> None"
  shows "getDailyTSS m d1 = Inr (daily_total m (activities m))
         \<and> getDailyTSS m d2 = getDailyTSS m d1"
  using daily_loop_total [OF assms, of m Map.empty]
  by (simp add: getDailyTSS_def merge_totals_empty)

theorem getDailyTSS_totals_witness:
  "start_date_local zero_watts_run \<noteq> None \<and> start_date_local evening_jog \<noteq> None
   \<and> start_date_local bare_activity \<noteq> None
   \<and> getDailyTSS (StravaMetrics 2025 2020 [zero_watts_run, evening_jog, bare_activity]) 30
       = getDailyTSS (StravaMetrics 2025 2020 [zero_watts_run, evening_jog, bare_activity]) 120
   \<and> (\<exists>f. getDailyTSS (StravaMetrics 2025 2020 [zero_watts_run, evening_jog, bare_activity]) 120
             = Inr f
          \<and> f ''2025-06-01'' = Some 30 \<and> f ''2025-06-02'' = Some 15
          \<and> f ''2025-06-03'' = None)"
proof -
  let ?acts = "[zero_watts_run, evening_jog, bare_activity]"
  let ?m = "StravaMetrics 2025 2020 ?acts"
  have f: "estimateFTP ?acts = 250"
    by (simp add: estimateFTP_def zero_watts_run_def evening_jog_def bare_activity_def
          truthy_def)
  have dated: "\<forall>a \<in> set (activities ?m). start_date_local a \<noteq> None"
    by (simp add: StravaMetrics_fields zero_watts_run_def evening_jog_def bare_activity_def)
  have k: "date_key zero_watts_run = Some ''2025-06-01''"
      "date_key evening_jog = Some ''2025-06-02''"
      "date_key bare_activity = Some ''2025-06-01''"
    by (simp_all add: date_key_def split_T_def zero_watts_run_def evening_jog_def
          bare_activity_def)
  have t: "calculateTSS ?m zero_watts_run = 30" "calculateTSS ?m evening_jog = 15"
      "calculateTSS ?m bare_activity = 0"
    by (simp_all add: calculateTSS_def StravaMetrics_fields f Let_def zero_watts_run_def
          evening_jog_def bare_activity_def truthy_def num_def math_round_def fdiv_def
          fmul_def fl_half)
  have v: "daily_total ?m ?acts ''2025-06-01'' = Some 30"
      "daily_total ?m ?acts ''2025-06-02'' = Some 15"
      "daily_total ?m ?acts ''2025-06-03'' = None"
    by (simp_all add: daily_total_def k t)
  have each: "start_date_local zero_watts_run \<noteq> None"
      "start_date_local evening_jog \<noteq> None" "start_date_local bare_activity \<noteq> None"
    by (simp_all add: zero_watts_run_def evening_jog_def bare_activity_def)
  from getDailyTSS_totals [OF dated, of 120 30] v each show ?thesis
    by (simp add: StravaMetrics_fields)
qed

section \<open>VO2max history (claim C4)\<close>

lemma mset_insert_by: "mset (insert_by after x ys) = add_mset x (mset ys)"
  by (induction ys) auto

lemma mset_sort_by: "mset (sort_by after xs) = mset xs"
  by (induction xs) (simp_all add: sort_by_Cons mset_insert_by, simp add: sort_by_def)

lemma length_filter_sort_by:
  "length (filter P (sort_by after xs)) = length (filter P xs)"
proof -
  have "mset (filter P (sort_by after xs)) = mset (filter P xs)"
    by (simp add: mset_sort_by)
  then show ?thesis by (rule mset_eq_length)
qed

lemma accepted_quality_run: "accepted m a \<Longrightarrow> quality_run m a"
  by (auto simp: accepted_def estimateVO2max_def quality_run_def Let_def
        split: if_splits option.splits)

lemma vo2max_loop_samples:
  "vo2max_loop m xs = Inr h \<Longrightarrow>
     (\<forall>s \<in> set h. 30 < vo2max s \<and> vo2max s < 90
         \<and> (\<exists>a \<in> set xs. estimateVO2max m a = Some (vo2max s)))
     \<and> length h = length (filter (accepted m) xs)"
proof (induction xs arbitrary: h)
  case Nil
  then show ?case by simp
next
  case (Cons a xs)
  show ?case
  proof (cases "accepted m a")
    case True
    then obtain v where v: "estimateVO2max m a = Some v" "30 < v" "v < 90"
      by (auto simp: accepted_def split: option.splits)
    with Cons.prems obtain s h' where
      h: "h = \<lparr> vs_date = split_T s, vo2max = v, vs_distance = distance a,
                 activityName = name a \<rparr> # h'"
      and h': "vo2max_loop m xs = Inr h'"
      by (auto split: option.splits sum.splits)
    from Cons.IH [OF h'] v True show ?thesis unfolding h by auto
  next
    case False
    with Cons.prems have "vo2max_loop m xs = Inr h"
      by (auto simp: accepted_def split: option.splits if_splits)
    from Cons.IH [OF this] False show ?thesis by auto
  qed
qed

text \<open>
  Claim C4: every sample of the history that \<open>generateVO2maxHistory\<close> returns
  satisfies \<open>30 < vo2max < 90\<close> and is the estimate of one of the activities; the
  history has exactly one entry for each activity whose estimate is a number inside the
  interval, so an activity whose estimate is \<open>null\<close> or outside of it contributes no
  entry.
\<close>

theorem generateVO2maxHistory_in_range:
  assumes "generateVO2maxHistory rt m = Inr h"
  shows "(\<forall>s \<in> set h. 30 < vo2max s \<and> vo2max s < 90
            \<and> (\<exists>a \<in> set (activities m). estimateVO2max m a = Some (vo2max s)))
         \<and> length h = length (filter (accepted m) (activities m))"
proof -
  let ?q = "sort_by (starts_after rt) (filter (quality_run m) (activities m))"
  from assms have loop: "vo2max_loop m ?q = Inr h"
    by (simp add: generateVO2maxHistory_def)
  have sub: "set ?q \<subseteq> set (activities m)" by (auto simp: set_sort_by)
  have "filter (accepted m) (filter (quality_run m) (activities m))
          = filter (accepted m) (activities m)"
    by (auto simp: accepted_quality_run intro: filter_cong)
  then have len: "length (filter (accepted m) ?q) = length (filter (accepted m) (activities m))"
    by (simp add: length_filter_sort_by)
  from vo2max_loop_samples [OF loop]
  have samples: "\<forall>s \<in> set h. 30 < vo2max s \<and> vo2max s < 90
         \<and> (\<exists>a \<in> set ?q. estimateVO2max m a = Some (vo2max s))"
    and count: "length h = length (filter (accepted m) ?q)"
    by blast+
  from samples sub have "\<forall>s \<in> set h. 30 < vo2max s \<and> vo2max s < 90
         \<and> (\<exists>a \<in> set (activities m). estimateVO2max m a = Some (vo2max s))"
    by (meson subsetD)
  with count len show ?thesis by simp
qed


lemma round1_close:
  assumes "\<bar>x\<bar> \<le> 90"
  shows "\<bar>round1 x - x\<bar> \<le> 1 / 10"
proof -
  define k where "k = math_round (fmul x 10)"
  have k: "real_of_int k \<le> fl (x * 10) + 1 / 2" "fl (x * 10) + 1 / 2 < real_of_int k + 1"
    and r: "round1 x = fl (real_of_int k / 10)"
    unfolding k_def by (rule round1_parts)+
  have y: "x * 10 - 1 / 1000000000000 \<le> fl (x * 10)"
      "fl (x * 10) \<le> x * 10 + 1 / 1000000000000"
    using fl_bracket [of "x * 10" "x * 10" "x * 10"] assms by simp_all
  define u where "u = real_of_int k / 10"
  from k y assms have u: "\<bar>u - x\<bar> \<le> 6 / 100" "\<bar>u\<bar> \<le> 91" unfolding u_def by argo+
  then have "u - 1 / 1000000000000 \<le> fl u" "fl u \<le> u + 1 / 1000000000000"
    using fl_bracket [of u u u] by simp_all
  with u show ?thesis unfolding r u_def [symmetric] by argo
qed

lemma steady_1:
  "fmul (6566536487082335 / 36028797018963968) 250
     = 6412633288166343 / 140737488355328"
  unfolding fmul_def by (subst fl_eval_ge1 [where n = 5]) (simp_all add: rne_def)

lemma steady_2:
  "fadd (- (2589569785738035 / 562949953421312)) (6412633288166343 / 140737488355328)
     = 2882620420865917 / 70368744177664"
  unfolding fadd_def by (subst fl_eval_ge1 [where n = 5]) (simp_all add: rne_def)

lemma steady_3:
  "fmul (7673845534663173 / 73786976294838206464) 250
     = 7493989779944505 / 288230376151711744"
  unfolding fmul_def by (subst fl_eval_lt1 [where n = 6]) (simp_all add: rne_def)

lemma steady_4: "fmul (7493989779944505 / 288230376151711744) 250 = 13 / 2"
  unfolding fmul_def by (subst fl_eval_ge1 [where n = 2]) (simp_all add: rne_def)

lemma steady_5:
  "fadd (2882620420865917 / 70368744177664) (13 / 2)
     = 3340017258020733 / 70368744177664"
  unfolding fadd_def by (subst fl_eval_ge1 [where n = 5]) (simp_all add: rne_def)

lemma steady_6:
  "fmul (- (7366015492933145 / 576460752303423488)) 40
     = - (287734980192701 / 562949953421312)"
  unfolding fmul_def by (subst fl_eval_lt1 [where n = 1]) (simp_all add: rne_def)

lemma steady_7:
  "fmul (- (3481471663141743 / 18014398509481984)) 40
     = - (4351839578927179 / 562949953421312)"
  unfolding fmul_def by (subst fl_eval_ge1 [where n = 2]) (simp_all add: rne_def)

lemma exp_unit:
  fixes q :: real
  assumes "0 \<le> q"
  shows "0 \<le> math_exp (- q)" and "math_exp (- q) \<le> 1"
proof -
  show "0 \<le> math_exp (- q)" unfolding math_exp_def by (rule fl_nonneg) simp
  have "\<bar>exp (- q)\<bar> \<le> 1" using assms by simp
  then have "\<bar>fl (exp (- q))\<bar> \<le> 1" by (rule fl_abs_le_one)
  then show "math_exp (- q) \<le> 1" unfolding math_exp_def by simp
qed

lemma steady_vdot_bounds: "36 < steady_vdot" "steady_vdot < 61"
proof -
  have y1: "fmul (- fl 0.012778) 40 = - (287734980192701 / 562949953421312)"
    and y2: "fmul (- fl 0.1932605) 40 = - (4351839578927179 / 562949953421312)"
    and n: "fadd (fadd (- fl 4.6) (fmul (fl 0.182258) 250)) (fmul (fmul (fl 0.000104) 250) 250)
              = 3340017258020733 / 70368744177664"
    by (simp_all add: binary64_4_6 binary64_0_182258 binary64_0_000104 binary64_0_012778
        binary64_0_1932605 binary64_0_8 binary64_0_1894393 binary64_0_2989558
        steady_1 steady_2 steady_3 steady_4 steady_5 steady_6 steady_7)
  have c0: "fl 0.8 = 3602879701896397 / 4503599627370496"
    and c1: "fl 0.1894393 = 6825270087114621 / 36028797018963968"
    and c2: "fl 0.2989558 = 2692754458960497 / 9007199254740992"
    by (simp_all add: binary64_0_8 binary64_0_1894393 binary64_0_2989558)
  define e1 where "e1 = math_exp (fmul (- fl 0.012778) 40)"
  define e2 where "e2 = math_exp (fmul (- fl 0.1932605) 40)"
  have e: "0 \<le> e1" "e1 \<le> 1" "0 \<le> e2" "e2 \<le> 1"
    unfolding e1_def e2_def y1 y2 by (rule exp_unit; simp)+
  define t1 where "t1 = fmul (fl 0.1894393) e1"
  define t2 where "t2 = fmul (fl 0.2989558) e2"
  have t1: "- (1 / 1000000000000) \<le> t1" "t1 \<le> 19 / 100 + 1 / 1000000000000"
    unfolding t1_def c1 fmul_def
    using fl_bracket [of 0 "6825270087114621 / 36028797018963968 * e1" "19 / 100"] e by simp_all
  have t2: "- (1 / 1000000000000) \<le> t2" "t2 \<le> 30 / 100 + 1 / 1000000000000"
    unfolding t2_def c2 fmul_def
    using fl_bracket [of 0 "2692754458960497 / 9007199254740992 * e2" "30 / 100"] e by simp_all
  define s1 where "s1 = fadd (fl 0.8) t1"
  have s1: "79 / 100 \<le> s1" "s1 \<le> 1"
    unfolding s1_def c0 fadd_def
    using fl_bracket [of "799 / 1000" "3602879701896397 / 4503599627370496 + t1" "999 / 1000"] t1 by simp_all
  define den where "den = fadd s1 t2"
  have den: "78 / 100 \<le> den" "den \<le> 131 / 100"
    unfolding den_def fadd_def
    using fl_bracket [of "789 / 1000" "s1 + t2" "1301 / 1000"] s1 t2 by simp_all
  have "steady_vdot
          = fdiv (fadd (fadd (- fl 4.6) (fmul (fl 0.182258) 250))
                    (fmul (fmul (fl 0.000104) 250) 250)) den"
    unfolding steady_vdot_def vdot_formula_def den_def s1_def t1_def t2_def e1_def e2_def
    by (rule refl)
  then have v: "steady_vdot = fl (3340017258020733 / 70368744177664 / den)"
    unfolding n fdiv_def .
  have pos: "0 < den" using den by simp
  have "362 / 10 \<le> 3340017258020733 / 70368744177664 / den" "3340017258020733 / 70368744177664 / den \<le> 609 / 10"
    using den pos by (simp_all add: field_simps)
  then have "362 / 10 - 1 / 1000000000000 \<le> steady_vdot"
      "steady_vdot \<le> 609 / 10 + 1 / 1000000000000"
    unfolding v
    using fl_bracket [of "362 / 10" "3340017258020733 / 70368744177664 / den" "609 / 10"] by simp_all
  then show "36 < steady_vdot" "steady_vdot < 61" by simp_all
qed

lemma steady_hr_1: "fdiv 160 190 = 948126237341157 / 1125899906842624"
  unfolding fdiv_def by (subst fl_eval_lt1 [where n = 1]) (simp_all add: rne_def)

lemma steady_hr_2: "fdiv 10000 1000 = 10"
  by (simp add: fdiv_def)

lemma steady_hr_3: "fmul 10 1000 = 10000"
  by (simp add: fmul_def)

lemma steady_hr_4: "fdiv 2400 60 = 40"
  by (simp add: fdiv_def)

lemma steady_hr_5: "fdiv 10000 40 = 250"
  by (simp add: fdiv_def)

lemma steady_estimate:
  "estimateVO2max (StravaMetrics 2025 2020 [steady_run]) steady_run = Some (round1 steady_vdot)"
  by (simp add: estimateVO2max_def StravaMetrics_fields steady_run_def bare_activity_def
        truthy_def num_def quotient_exceeds_def Let_def steady_vdot_def
        steady_hr_1 steady_hr_2 steady_hr_3 steady_hr_4 steady_hr_5)

lemma steady_history:
  "generateVO2maxHistory demo_runtime (StravaMetrics 2025 2020 [steady_run]) = Inr [steady_sample]"
proof -
  let ?m = "StravaMetrics 2025 2020 [steady_run]"
  have q: "quality_run ?m steady_run"
    by (simp add: quality_run_def StravaMetrics_fields steady_run_def bare_activity_def
          truthy_def num_def quotient_exceeds_def steady_hr_1 steady_hr_2 steady_hr_3 steady_hr_4 steady_hr_5)
  have "\<bar>round1 steady_vdot - steady_vdot\<bar> \<le> 1 / 10"
    using steady_vdot_bounds by (intro round1_close) simp
  with steady_vdot_bounds
  have r: "30 < round1 steady_vdot" "round1 steady_vdot < 90" "round1 steady_vdot \<noteq> 0"
    by linarith+
  have f: "start_date_local steady_run = Some ''2025-06-01T08:00:00Z''"
      "distance steady_run = Some 10000" "name steady_run = Some ''Morning Run''"
    by (simp_all add: steady_run_def bare_activity_def)
  show ?thesis
    by (simp add: generateVO2maxHistory_def StravaMetrics_fields q sort_by_def
          steady_estimate r f split_T_def steady_sample_def)
qed

theorem generateVO2maxHistory_in_range_witness:
  "generateVO2maxHistory demo_runtime (StravaMetrics 2025 2020 [steady_run]) = Inr [steady_sample]
   \<and> 30 < vo2max steady_sample \<and> vo2max steady_sample < 90
   \<and> estimateVO2max (StravaMetrics 2025 2020 [steady_run]) steady_run = Some (vo2max steady_sample)"
  using generateVO2maxHistory_in_range [OF steady_history] steady_history steady_estimate
  by (simp add: steady_sample_def)

section \<open>Totality on sparse records (claim C5)\<close>

lemma vo2max_loop_total:
  "\<forall>a \<in> set xs. start_date_local a \<noteq> None \<Longrightarrow> \<exists>h. vo2max_loop m xs = Inr h"
  by (induction xs) (auto split: option.splits)

lemma generateVO2maxHistory_total:
  assumes "\<forall>a \<in> set (activities m). start_date_local a \<noteq> None"
  shows "\<exists>h. generateVO2maxHistory rt m = Inr h"
  unfolding generateVO2maxHistory_def Let_def
  using assms by (intro vo2max_loop_total) (simp add: set_sort_by)

lemma predictRaceTimes_total:
  assumes "\<forall>a \<in> set (activities m). start_date_local a \<noteq> None"
  shows "\<exists>r. predictRaceTimes rt m = Inr r"
proof -
  from generateVO2maxHistory_total [OF assms] obtain h
    where "generateVO2maxHistory rt m = Inr h" by blast
  then show ?thesis
    by (cases "h = []") (simp_all add: predictRaceTimes_def Let_def)
qed

lemma best_effort_member:
  "foldl (\<lambda>best current. if effort_power current > effort_power best then current else best)
     c cs \<in> set (c # cs)"
proof (induction cs arbitrary: c)
  case Nil
  show ?case by simp
next
  case (Cons x cs)
  from Cons.IH [of c] Cons.IH [of x] show ?case by auto
qed

lemma curve_loop_total:
  assumes "\<forall>a \<in> set awp. start_date_local a \<noteq> None"
  shows "\<exists>ps. curve_loop awp ds = Inr ps"
proof (induction ds)
  case Nil
  show ?case by simp
next
  case (Cons d ds)
  then obtain qs where qs: "curve_loop awp ds = Inr qs" by blast
  show ?case
  proof (cases "filter (near_duration d) awp")
    case Nil
    with qs show ?thesis by simp
  next
    case (Cons c0 cands)
    let ?best = "foldl (\<lambda>best current.
        if effort_power current > effort_power best then current else best) c0 cands"
    have "?best \<in> set (c0 # cands)" by (rule best_effort_member)
    also have "set (c0 # cands) \<subseteq> set awp"
      unfolding Cons [symmetric] by auto
    finally have "start_date_local ?best \<noteq> None" using assms by blast
    then obtain s where "start_date_local ?best = Some s" by auto
    with Cons qs show ?thesis by (simp add: Let_def)
  qed
qed

lemma analyzePowerCurve_total:
  assumes "\<forall>a \<in> set (activities m). start_date_local a \<noteq> None"
  shows "\<exists>r. analyzePowerCurve m = Inr r"
proof -
  let ?awp = "filter (\<lambda>a. truthy (average_watts a)) (activities m)"
  from assms have "\<forall>a \<in> set ?awp. start_date_local a \<noteq> None" by simp
  from curve_loop_total [OF this] obtain ps
    where "curve_loop ?awp [5, 10, 30, 60, 120, 300, 600, 1200, 1800, 3600] = Inr ps"
    by blast
  then show ?thesis
    by (cases "?awp = []") (simp_all add: analyzePowerCurve_def Let_def)
qed

lemma interval_filter_total:
  "\<forall>a \<in> set xs. name a \<noteq> None \<Longrightarrow>
     \<exists>ys. interval_filter xs = Inr ys \<and> set ys \<subseteq> set xs"
  by (induction xs) (auto split: option.splits)

lemma interval_map_total:
  "\<forall>a \<in> set xs. start_date_local a \<noteq> None \<Longrightarrow> \<exists>ws. interval_map m xs = Inr ws"
  by (induction xs) (auto simp: Let_def split: option.splits)

lemma detectIntervals_total:
  assumes "\<forall>a \<in> set (activities m). name a \<noteq> None \<and> start_date_local a \<noteq> None"
  shows "\<exists>ws. detectIntervals rt m k = Inr ws"
proof -
  from assms have "\<forall>a \<in> set (activities m). name a \<noteq> None" by blast
  from interval_filter_total [OF this] obtain ys
    where ys: "interval_filter (activities m) = Inr ys" "set ys \<subseteq> set (activities m)"
    by blast
  with assms have "\<forall>a \<in> set ys. start_date_local a \<noteq> None" by blast
  from interval_map_total [OF this] obtain ws where "interval_map m ys = Inr ws" by blast
  with ys show ?thesis by (simp add: detectIntervals_def)
qed

lemma getDailyTSS_total:
  assumes "\<forall>a \<in> set (activities m). start_date_local a \<noteq> None"
  shows "\<exists>d. getDailyTSS m k = Inr d"
  using daily_loop_total [OF assms, of m Map.empty] by (simp add: getDailyTSS_def)

lemma generateTrainingLoadHistory_negative:
  assumes "daysBack < 0"
  shows "generateTrainingLoadHistory rt m daysBack = []"
proof (cases "add_days rt (now rt) (- daysBack)")
  case None
  then show ?thesis by (simp add: generateTrainingLoadHistory_def)
next
  case (Some startDate)
  then have "startDate = utc_time rt (local_time rt (now rt) + (- daysBack) * day_ms)"
    by (simp add: add_days_def time_clip_def split: if_splits)
  then have "now rt + (- daysBack) * day_ms - hour_ms \<le> startDate"
    by (simp add: utc_time_def local_time_def local_tza_def hour_ms_def)
  moreover have "1 * day_ms \<le> (- daysBack) * day_ms"
    using assms by (intro mult_right_mono) (simp_all add: day_ms_def)
  ultimately have "now rt < startDate" by (simp add: day_ms_def hour_ms_def)
  then show ?thesis
    by (simp add: generateTrainingLoadHistory_def Some history_loop_past)
qed

lemma calculateWorkoutQuality_clamped:
  "0 \<le> calculateWorkoutQuality m a t \<and> calculateWorkoutQuality m a t \<le> 10"
  by (simp add: calculateWorkoutQuality_def Let_def)

lemma calculateTSS_default:
  "\<not> truthy (average_watts a) \<Longrightarrow> \<not> has_heartrate a \<Longrightarrow> \<not> truthy (distance a)
     \<Longrightarrow> calculateTSS m a = 0"
  by (simp add: calculateTSS_def Let_def)

text \<open>
  Claim C5, as the code has it: on every activity list whose records all carry \<open>name\<close>
  and \<open>start_date_local\<close>, while heart rate, power and distance may be absent from
  any of them, every derivation operation returns a value and raises nothing:
  \<open>generateVO2maxHistory\<close>, \<open>predictRaceTimes\<close>, \<open>analyzePowerCurve\<close>,
  \<open>detectIntervals\<close> and \<open>getDailyTSS\<close> return a result, the training-load history
  is a list, empty for a negative \<open>daysBack\<close>, the quality score lies in \<open>[0, 10]\<close>,
  and \<open>calculateTSS\<close> is \<open>0\<close> for a record without power, heart rate and distance.
\<close>

theorem operations_total:
  assumes "\<forall>a \<in> set (activities m). name a \<noteq> None \<and> start_date_local a \<noteq> None"
  shows "(\<exists>h. generateVO2maxHistory rt m = Inr h)
       \<and> (\<exists>r. predictRaceTimes rt m = Inr r)
       \<and> (\<exists>r. analyzePowerCurve m = Inr r)
       \<and> (\<exists>ws. detectIntervals rt m minActivities = Inr ws)
       \<and> (\<exists>d. getDailyTSS m daysBack = Inr d)
       \<and> (daysBack < 0 \<longrightarrow> generateTrainingLoadHistory rt m daysBack = [])
       \<and> 0 \<le> calculateWorkoutQuality m a t \<and> calculateWorkoutQuality m a t \<le> 10
       \<and> (\<not> truthy (average_watts a) \<and> \<not> has_heartrate a \<and> \<not> truthy (distance a)
            \<longrightarrow> calculateTSS m a = 0)"
proof -
  from assms have dated: "\<forall>a \<in> set (activities m). start_date_local a \<noteq> None" by blast
  show ?thesis
    using generateVO2maxHistory_total [OF dated] predictRaceTimes_total [OF dated]
      analyzePowerCurve_total [OF dated] detectIntervals_total [OF assms]
      getDailyTSS_total [OF dated] generateTrainingLoadHistory_negative [of daysBack rt m]
      calculateWorkoutQuality_clamped [of m a t] calculateTSS_default [of a m]
    by blast
qed

theorem operations_total_witness:
  "name bare_activity \<noteq> None \<and> start_date_local bare_activity \<noteq> None
   \<and> name short_jog \<noteq> None \<and> start_date_local short_jog \<noteq> None
   \<and> name steady_run \<noteq> None \<and> start_date_local steady_run \<noteq> None
   \<and> distance bare_activity = None \<and> average_heartrate bare_activity = None
   \<and> average_watts bare_activity = None
   \<and> (\<exists>h. generateVO2maxHistory demo_runtime
             (StravaMetrics 2025 2020 [bare_activity, short_jog, steady_run]) = Inr h)
   \<and> (\<exists>r. predictRaceTimes demo_runtime
             (StravaMetrics 2025 2020 [bare_activity, short_jog, steady_run]) = Inr r)
   \<and> (\<exists>r. analyzePowerCurve
             (StravaMetrics 2025 2020 [bare_activity, short_jog, steady_run]) = Inr r)
   \<and> (\<exists>ws. detectIntervals demo_runtime
             (StravaMetrics 2025 2020 [bare_activity, short_jog, steady_run]) 20 = Inr ws)
   \<and> (\<exists>d. getDailyTSS
             (StravaMetrics 2025 2020 [bare_activity, short_jog, steady_run]) 120 = Inr d)
   \<and> generateTrainingLoadHistory demo_runtime
         (StravaMetrics 2025 2020 [bare_activity, short_jog, steady_run]) (- 1) = []
   \<and> calculateTSS (StravaMetrics 2025 2020 [bare_activity, short_jog, steady_run])
         bare_activity = 0"
proof -
  let ?m = "StravaMetrics 2025 2020 [bare_activity, short_jog, steady_run]"
  have h: "\<forall>a \<in> set (activities ?m). name a \<noteq> None \<and> start_date_local a \<noteq> None"
    by (simp add: StravaMetrics_fields bare_activity_def short_jog_def steady_run_def)
  have b: "distance bare_activity = None" "average_heartrate bare_activity = None"
      "average_watts bare_activity = None" "\<not> has_heartrate bare_activity"
    by (simp_all add: bare_activity_def)
  from operations_total [OF h, of demo_runtime 20 "- 1" bare_activity 0]
  have "generateTrainingLoadHistory demo_runtime ?m (- 1) = []"
    and "calculateTSS ?m bare_activity = 0"
    using b by (simp_all add: truthy_def)
  moreover have "name bare_activity \<noteq> None" "start_date_local bare_activity \<noteq> None"
    "name short_jog \<noteq> None" "start_date_local short_jog \<noteq> None"
    "name steady_run \<noteq> None" "start_date_local steady_run \<noteq> None"
    by (simp_all add: bare_activity_def short_jog_def steady_run_def)
  ultimately show ?thesis
    using operations_total [OF h, of demo_runtime 20 120 bare_activity 0] b by simp
qed

text \<open>
  The claim as stated counts \<open>name\<close> and the dates among the fields that may be absent.
  The code reads both without a guard: \<open>a.name.toLowerCase()\<close> in \<open>detectIntervals\<close>
  and \<open>activity.start_date_local.split('T')\<close> in \<open>getDailyTSS\<close> raise a
  \<open>TypeError\<close> on a record that lacks the field.
\<close>

theorem detectIntervals_unnamed_counterexample:
  "name unnamed_run = None
   \<and> detectIntervals demo_runtime (StravaMetrics 2025 2020 [unnamed_run]) 20 = Inl TypeError
   \<and> start_date_local undated_run = None
   \<and> getDailyTSS (StravaMetrics 2025 2020 [undated_run]) 120 = Inl TypeError"
  by (simp add: detectIntervals_def getDailyTSS_def StravaMetrics_fields unnamed_run_def
        undated_run_def bare_activity_def)

section \<open>The activity type is never read (claim C10)\<close>

lemma untyped_fields [simp]:
  "name (untyped a) = name a"
  "start_date_local (untyped a) = start_date_local a"
  "moving_time (untyped a) = moving_time a"
  "distance (untyped a) = distance a"
  "has_heartrate (untyped a) = has_heartrate a"
  "average_heartrate (untyped a) = average_heartrate a"
  "average_watts (untyped a) = average_watts a"
  "weighted_average_watts (untyped a) = weighted_average_watts a"
  by (simp_all add: untyped_def)

lemma without_types_fields [simp]:
  "activities (without_types m) = map untyped (activities m)"
  "maxHR (without_types m) = maxHR m"
  "restingHR (without_types m) = restingHR m"
  "ftp (without_types m) = ftp m"
  by (simp_all add: without_types_def)

lemma filter_map_same:
  "(\<And>a. P (f a) = P a) \<Longrightarrow> filter P (map f xs) = map f (filter P xs)"
  by (induction xs) simp_all

lemma insert_by_map:
  "(\<And>a b. after (f a) (f b) = after a b) \<Longrightarrow>
     insert_by after (f x) (map f ys) = map f (insert_by after x ys)"
  by (induction ys) simp_all

lemma sort_by_map:
  "(\<And>a b. after (f a) (f b) = after a b) \<Longrightarrow>
     sort_by after (map f xs) = map f (sort_by after xs)"
  by (induction xs) (simp_all add: sort_by_Cons insert_by_map, simp add: sort_by_def)

lemma untyped_activity [simp]:
  "effort_power (untyped a) = effort_power a"
  "qualifying (untyped a) = qualifying a"
  "twenty_to_thirty (untyped a) = twenty_to_thirty a"
  "on_day rt d (untyped a) = on_day rt d a"
  "starts_after rt (untyped a) (untyped b) = starts_after rt a b"
  "quality_run m (untyped a) = quality_run m a"
  "estimateVO2max m (untyped a) = estimateVO2max m a"
  "calculateTSS m (untyped a) = calculateTSS m a"
  "calculateWorkoutQuality m (untyped a) t = calculateWorkoutQuality m a t"
  "avg_pace (untyped a) = avg_pace a"
  "near_duration dur (untyped a) = near_duration dur a"
  by (simp_all only: effort_power_def qualifying_def twenty_to_thirty_def on_day_def
        starts_after_def quality_run_def estimateVO2max_def calculateTSS_def
        calculateWorkoutQuality_def avg_pace_def near_duration_def untyped_fields)

lemma without_types_activity [simp]:
  "quality_run (without_types m) a = quality_run m a"
  "estimateVO2max (without_types m) a = estimateVO2max m a"
  "calculateTSS (without_types m) a = calculateTSS m a"
  "calculateWorkoutQuality (without_types m) a t = calculateWorkoutQuality m a t"
  by (simp_all only: quality_run_def estimateVO2max_def calculateTSS_def
        calculateWorkoutQuality_def without_types_fields)

lemma estimateFTP_untyped: "estimateFTP (map untyped xs) = estimateFTP xs"
proof -
  let ?less = "\<lambda>a b. effort_power a < effort_power b"
  have q: "filter qualifying (map untyped xs) = map untyped (filter qualifying xs)"
    by (rule filter_map_same) simp
  have r: "filter twenty_to_thirty (map untyped (filter qualifying xs))
             = map untyped (filter twenty_to_thirty (filter qualifying xs))"
    by (rule filter_map_same) simp
  have s: "sort_by ?less (map untyped (filter twenty_to_thirty (filter qualifying xs)))
             = map untyped (sort_by ?less (filter twenty_to_thirty (filter qualifying xs)))"
    by (rule sort_by_map) simp
  have mx: "(\<lambda>a. num (average_watts a)) ` set (map untyped (filter qualifying xs))
             = (\<lambda>a. num (average_watts a)) ` set (filter qualifying xs)"
    by (simp add: image_image)
  show ?thesis
    unfolding estimateFTP_unfold [of "map untyped xs"] estimateFTP_unfold [of xs] q r s mx
    by (cases "sort_by ?less (filter twenty_to_thirty (filter qualifying xs))") simp_all
qed

lemma StravaMetrics_untyped:
  "StravaMetrics cy ay (map untyped xs) = without_types (StravaMetrics cy ay xs)"
  by (simp add: StravaMetrics_def without_types_def Let_def estimateFTP_untyped)

lemma tss_today_untyped:
  "tss_today rt (without_types m) (map untyped acts) d = tss_today rt m acts d"
proof -
  have f: "filter (on_day rt d) (map untyped acts) = map untyped (filter (on_day rt d) acts)"
    by (rule filter_map_same) simp
  have "foldl (\<lambda>sum a. sum + real_of_int (calculateTSS m a)) z (map untyped ys)
          = foldl (\<lambda>sum a. sum + real_of_int (calculateTSS m a)) z ys" for z ys
    by (induction ys arbitrary: z) simp_all
  then show ?thesis by (simp add: tss_today_def f)
qed

lemma history_loop_untyped:
  "history_loop rt (without_types m) (map untyped acts) today d c a
     = history_loop rt m acts today d c a"
proof (induction rt m acts today d c a rule: history_loop.induct)
  case (1 rt m acts today d c a)
  show ?case
  proof (cases "d \<le> today")
    case True
    have c: "calculateCTL rt (without_types m) (map untyped acts) d c = calculateCTL rt m acts d c"
      and a: "calculateATL rt (without_types m) (map untyped acts) d a = calculateATL rt m acts d a"
      by (simp_all add: calculateCTL_def calculateATL_def tss_today_untyped)
    have "(case add_days rt d 1 of
             None \<Rightarrow> []
           | Some d' \<Rightarrow>
               history_loop rt (without_types m) (map untyped acts) today d'
                 (calculateCTL rt m acts d c) (calculateATL rt m acts d a))
          = (case add_days rt d 1 of
               None \<Rightarrow> []
             | Some d' \<Rightarrow>
                 history_loop rt m acts today d'
                   (calculateCTL rt m acts d c) (calculateATL rt m acts d a))"
      using 1 [OF True refl refl refl] by (cases "add_days rt d 1") simp_all
    then show ?thesis
      unfolding history_loop_step [OF True] c a by simp
  next
    case False
    then show ?thesis by (simp add: history_loop_past)
  qed
qed

lemma generateTrainingLoadHistory_untyped:
  "generateTrainingLoadHistory rt (without_types m) n = generateTrainingLoadHistory rt m n"
proof -
  have "sort_by (starts_after rt) (map untyped (activities m))
          = map untyped (sort_by (starts_after rt) (activities m))"
    by (rule sort_by_map) simp
  then show ?thesis
    by (cases "add_days rt (now rt) (- n)")
      (simp_all add: generateTrainingLoadHistory_def Let_def history_loop_untyped)
qed

lemma vo2max_loop_untyped:
  "vo2max_loop (without_types m) (map untyped xs) = vo2max_loop m xs"
  by (induction xs) (simp_all split: option.splits sum.splits)

lemma generateVO2maxHistory_untyped:
  "generateVO2maxHistory rt (without_types m) = generateVO2maxHistory rt m"
proof -
  have f: "filter (quality_run m) (map untyped (activities m))
             = map untyped (filter (quality_run m) (activities m))"
    by (rule filter_map_same) simp
  have s: "sort_by (starts_after rt) (map untyped (filter (quality_run m) (activities m)))
             = map untyped (sort_by (starts_after rt) (filter (quality_run m) (activities m)))"
    by (rule sort_by_map) simp
  have q: "quality_run (without_types m) = quality_run m" by (rule ext) simp
  show ?thesis
    by (simp add: generateVO2maxHistory_def Let_def q f s vo2max_loop_untyped)
qed

lemma predictRaceTimes_untyped:
  "predictRaceTimes rt (without_types m) = predictRaceTimes rt m"
  by (simp add: predictRaceTimes_def generateVO2maxHistory_untyped)

lemma best_effort_untyped:
  "foldl (\<lambda>best current. if effort_power current > effort_power best then current else best)
     (untyped c) (map untyped cs)
   = untyped (foldl (\<lambda>best current.
        if effort_power current > effort_power best then current else best) c cs)"
  by (induction cs arbitrary: c) simp_all

lemma curve_loop_untyped: "curve_loop (map untyped awp) ds = curve_loop awp ds"
proof (induction ds)
  case Nil
  show ?case by simp
next
  case (Cons d ds)
  have f: "filter (near_duration d) (map untyped awp)
             = map untyped (filter (near_duration d) awp)"
    by (rule filter_map_same) simp
  show ?case
    unfolding curve_loop.simps f Cons.IH
    by (cases "filter (near_duration d) awp")
       (simp_all only: list.map list.case best_effort_untyped Let_def untyped_fields
          untyped_activity)
qed

lemma analyzePowerCurve_untyped: "analyzePowerCurve (without_types m) = analyzePowerCurve m"
proof -
  have f: "filter (\<lambda>a. truthy (average_watts a)) (map untyped (activities m))
             = map untyped (filter (\<lambda>a. truthy (average_watts a)) (activities m))"
    by (rule filter_map_same) simp
  show ?thesis
    by (simp only: analyzePowerCurve_def Let_def without_types_fields f curve_loop_untyped
          map_is_Nil_conv)
qed

lemma interval_filter_untyped:
  "interval_filter (map untyped xs) = map_sum id (map untyped) (interval_filter xs)"
  by (induction xs) (simp_all split: option.splits sum.splits)

lemma interval_map_untyped:
  "interval_map (without_types m) (map untyped xs) = interval_map m xs"
  by (induction xs) (simp_all add: Let_def split: option.splits sum.splits)

lemma detectIntervals_untyped:
  "detectIntervals rt (without_types m) k = detectIntervals rt m k"
  by (cases "interval_filter (activities m)")
     (simp_all add: detectIntervals_def interval_filter_untyped interval_map_untyped)

lemma daily_loop_untyped:
  "daily_loop (without_types m) (map untyped xs) d = daily_loop m xs d"
  by (induction xs arbitrary: d) (simp_all add: Let_def split: option.splits)

lemma getDailyTSS_untyped: "getDailyTSS (without_types m) k = getDailyTSS m k"
  by (simp add: getDailyTSS_def daily_loop_untyped)

text \<open>
  Claim C10: no operation of \<open>StravaMetrics\<close> reads the \<open>type\<close> of an activity.
  For two activity lists that differ only in the \<open>type\<close> fields of their records, the
  calculators built from them have the same FTP, and training-load history, VO2max
  history, race predictions, power curve, interval detection and daily TSS give the same
  output; TSS and quality score agree on two records that differ only in \<open>type\<close>.
\<close>

theorem type_never_read:
  assumes "map untyped xs = map untyped ys"
  shows "estimateFTP xs = estimateFTP ys
       \<and> generateTrainingLoadHistory rt (StravaMetrics cy ay xs) daysBack
           = generateTrainingLoadHistory rt (StravaMetrics cy ay ys) daysBack
       \<and> generateVO2maxHistory rt (StravaMetrics cy ay xs)
           = generateVO2maxHistory rt (StravaMetrics cy ay ys)
       \<and> predictRaceTimes rt (StravaMetrics cy ay xs)
           = predictRaceTimes rt (StravaMetrics cy ay ys)
       \<and> analyzePowerCurve (StravaMetrics cy ay xs) = analyzePowerCurve (StravaMetrics cy ay ys)
       \<and> detectIntervals rt (StravaMetrics cy ay xs) minActivities
           = detectIntervals rt (StravaMetrics cy ay ys) minActivities
       \<and> getDailyTSS (StravaMetrics cy ay xs) daysBack
           = getDailyTSS (StravaMetrics cy ay ys) daysBack
       \<and> (untyped a = untyped b \<longrightarrow>
            calculateTSS (StravaMetrics cy ay xs) a = calculateTSS (StravaMetrics cy ay ys) b
          \<and> calculateWorkoutQuality (StravaMetrics cy ay xs) a t
              = calculateWorkoutQuality (StravaMetrics cy ay ys) b t)"
proof -
  let ?m = "StravaMetrics cy ay xs" and ?m' = "StravaMetrics cy ay ys"
  from assms have w: "without_types ?m = without_types ?m'"
    by (simp add: StravaMetrics_untyped [symmetric])
  have ftp: "estimateFTP xs = estimateFTP ys"
    using assms estimateFTP_untyped [of xs] estimateFTP_untyped [of ys] by simp
  have tl: "generateTrainingLoadHistory rt ?m daysBack = generateTrainingLoadHistory rt ?m' daysBack"
    using generateTrainingLoadHistory_untyped [of rt ?m] generateTrainingLoadHistory_untyped [of rt ?m'] w
    by simp
  have vo: "generateVO2maxHistory rt ?m = generateVO2maxHistory rt ?m'"
    using generateVO2maxHistory_untyped [of rt ?m] generateVO2maxHistory_untyped [of rt ?m'] w
    by simp
  have pr: "predictRaceTimes rt ?m = predictRaceTimes rt ?m'"
    using predictRaceTimes_untyped [of rt ?m] predictRaceTimes_untyped [of rt ?m'] w by simp
  have pc: "analyzePowerCurve ?m = analyzePowerCurve ?m'"
    using analyzePowerCurve_untyped [of ?m] analyzePowerCurve_untyped [of ?m'] w by simp
  have di: "detectIntervals rt ?m minActivities = detectIntervals rt ?m' minActivities"
    using detectIntervals_untyped [of rt ?m] detectIntervals_untyped [of rt ?m'] w by simp
  have dt: "getDailyTSS ?m daysBack = getDailyTSS ?m' daysBack"
    using getDailyTSS_untyped [of ?m] getDailyTSS_untyped [of ?m'] w by simp
  have per: "calculateTSS ?m a = calculateTSS ?m' b
          \<and> calculateWorkoutQuality ?m a t = calculateWorkoutQuality ?m' b t"
    if ab: "untyped a = untyped b"
  proof -
    have "calculateTSS ?m a = calculateTSS (without_types ?m) (untyped a)" by simp
    also have "\<dots> = calculateTSS (without_types ?m') (untyped b)" by (simp only: w ab)
    also have "\<dots> = calculateTSS ?m' b" by simp
    finally have 1: "calculateTSS ?m a = calculateTSS ?m' b" .
    have "calculateWorkoutQuality ?m a t = calculateWorkoutQuality (without_types ?m) (untyped a) t"
      by simp
    also have "\<dots> = calculateWorkoutQuality (without_types ?m') (untyped b) t"
      by (simp only: w ab)
    also have "\<dots> = calculateWorkoutQuality ?m' b t" by simp
    finally show ?thesis using 1 by simp
  qed
  from ftp tl vo pr pc di dt per show ?thesis by blast
qed


theorem type_never_read_witness:
  "map untyped [steady_run, long_ride] = map untyped [steady_ride, long_run]
   \<and> type steady_run = Some ''Run'' \<and> type steady_ride = Some ''Ride''
   \<and> type long_ride = Some ''Ride'' \<and> type long_run = Some ''Run''
   \<and> estimateFTP [steady_run, long_ride] = estimateFTP [steady_ride, long_run]
   \<and> generateVO2maxHistory demo_runtime (StravaMetrics 2025 2020 [steady_run, long_ride])
       = generateVO2maxHistory demo_runtime (StravaMetrics 2025 2020 [steady_ride, long_run])
   \<and> detectIntervals demo_runtime (StravaMetrics 2025 2020 [steady_run, long_ride]) 20
       = detectIntervals demo_runtime (StravaMetrics 2025 2020 [steady_ride, long_run]) 20
   \<and> calculateTSS (StravaMetrics 2025 2020 [steady_run, long_ride]) steady_run
       = calculateTSS (StravaMetrics 2025 2020 [steady_ride, long_run]) steady_ride"
proof -
  have u: "untyped steady_run = untyped steady_ride" "untyped long_ride = untyped long_run"
    by (simp_all add: untyped_def steady_ride_def long_run_def)
  then have h: "map untyped [steady_run, long_ride] = map untyped [steady_ride, long_run]"
    by simp
  have t: "type steady_run = Some ''Run''" "type steady_ride = Some ''Ride''"
      "type long_ride = Some ''Ride''" "type long_run = Some ''Run''"
    by (simp_all add: steady_run_def steady_ride_def long_ride_def long_run_def
          bare_activity_def)
  from type_never_read [OF h, of demo_runtime 2025 2020 90 20 steady_run steady_ride 0] u h t
  show ?thesis by blast
qed

section \<open>Binary64 rounding in the other operations\<close>

text \<open>
  Four more values on which the rounding of binary64 or the range of \<open>Date\<close> decides
  the result. The pace-based score of 5 km in 1025 s is 20: the exact product
  \<open>1025 / 3600 * 60 * 1.2\<close> is \<open>20.5\<close>, the binary64 product is below it. The
  binary64 number \<open>1.005\<close> is below \<open>1.005\<close>, and \<open>toFixed(2)\<close> prints it as
  \<open>1.00\<close>. The predicted time for 5 km at a VO2max of \<open>15.2315\<close> is just below one
  hour and is printed as \<open>59:59\<close>. A window of 200 million days begins before the
  first day that a \<open>Date\<close> can hold, and the history is empty.
\<close>

lemma brisk_1: "fdiv 1025 3600 = 2564549787808199 / 9007199254740992"
  unfolding fdiv_def by (subst fl_eval_lt1 [where n = 2]) (simp_all add: rne_def)

lemma brisk_2: "fdiv 1025 60 = 4808530852140373 / 281474976710656"
  unfolding fdiv_def by (subst fl_eval_ge1 [where n = 4]) (simp_all add: rne_def)

lemma brisk_3: "fdiv 5000 1000 = 5"
  by (simp add: fdiv_def)

lemma brisk_4:
  "fdiv (4808530852140373 / 281474976710656) 5
     = 7693649363424597 / 2251799813685248"
  unfolding fdiv_def by (subst fl_eval_ge1 [where n = 1]) (simp_all add: rne_def)

lemma brisk_5:
  "fmul (2564549787808199 / 9007199254740992) 60
     = 4808530852140373 / 281474976710656"
  unfolding fmul_def by (subst fl_eval_ge1 [where n = 4]) (simp_all add: rne_def)

lemma brisk_6:
  "fmul (4808530852140373 / 281474976710656) (5404319552844595 / 4503599627370496)
     = 5770237022568447 / 281474976710656"
  unfolding fmul_def by (subst fl_eval_ge1 [where n = 4]) (simp_all add: rne_def)

lemma brisk_run_tss: "calculateTSS (StravaMetrics 2025 2020 []) brisk_run = 20"
  by (simp add: calculateTSS_def StravaMetrics_fields estimateFTP_no_power Let_def
        brisk_run_def bare_activity_def truthy_def num_def math_round_def
        binary64_1_2 brisk_1 brisk_2 brisk_3 brisk_4 brisk_5 brisk_6)

lemma brisk_run_exact: "math_round (1025 / 3600 * 60 * 1.2) = 21"
  by (simp add: math_round_def)

lemma toFixed2_binary64: "toFixed2 (fl 1.005) = ''1.00''"
  by (simp add: toFixed2_def binary64_1_005 math_round_def show_nat_digit padStart2_def)

lemma hour_edge_1:
  "fmul (4287286107768357 / 281474976710656) (3602879701896397 / 18014398509481984)
     = 1714914443107343 / 562949953421312"
  unfolding fmul_def by (subst fl_eval_ge1 [where n = 1]) (simp_all add: rne_def)

lemma hour_edge_2:
  "fmul (1714914443107343 / 562949953421312) 5
     = 8574572215536715 / 562949953421312"
  unfolding fmul_def by (subst fl_eval_ge1 [where n = 3]) (simp_all add: rne_def)

lemma hour_edge_3:
  "fmul (7673845534663173 / 73786976294838206464) 5
     = 4796153459164483 / 9223372036854775808"
  unfolding fmul_def by (subst fl_eval_lt1 [where n = 11]) (simp_all add: rne_def)

lemma hour_edge_4:
  "fadd (4796153459164483 / 9223372036854775808) (6566536487082335 / 36028797018963968)
     = 1646317865383049 / 9007199254740992"
  unfolding fadd_def by (subst fl_eval_lt1 [where n = 3]) (simp_all add: rne_def)

lemma hour_edge_5:
  "fdiv (8574572215536715 / 562949953421312) (1646317865383049 / 9007199254740992)
     = 2932031007402667 / 35184372088832"
  unfolding fdiv_def by (subst fl_eval_ge1 [where n = 6]) (simp_all add: rne_def)

lemma hour_edge_6: "fmul 5 1000 = 5000"
  by (simp add: fmul_def)

lemma hour_edge_7:
  "fdiv 5000 (2932031007402667 / 35184372088832)
     = 8444249301319679 / 140737488355328"
  unfolding fdiv_def by (subst fl_eval_ge1 [where n = 5]) (simp_all add: rne_def)

lemma hour_edge_8:
  "fdiv (8444249301319679 / 140737488355328) 60
     = 9007199254740991 / 9007199254740992"
  unfolding fdiv_def by (subst fl_eval_lt1 [where n = 1]) (simp_all add: rne_def)

lemma hour_edge_9:
  "fmul (140737488355327 / 140737488355328) 60
     = 2111062325329905 / 35184372088832"
  unfolding fmul_def by (subst fl_eval_ge1 [where n = 5]) (simp_all add: rne_def)

lemma predictTime_below_one_hour: "predictTime 5 (fl 15.2315) = ''59:59''"
  by (simp add: predictTime_def time_minutes_def race_velocity_def Let_def js_rem_def
        js_trunc_def show_int_def show_nat_digit show_nat_tens padStart2_def
        binary64_15_2315 binary64_0_2 binary64_0_000104 binary64_0_182258
        hour_edge_1 hour_edge_2 hour_edge_3 hour_edge_4 hour_edge_5 hour_edge_6
        hour_edge_7 hour_edge_8 hour_edge_9)

lemma history_out_of_range:
  "generateTrainingLoadHistory demo_runtime (StravaMetrics 2025 2020 []) 200000000 = []"
  by (simp add: generateTrainingLoadHistory_def Let_def add_days_def utc_time_def
        local_time_def local_tza_def dst_active_def time_clip_def demo_runtime_def
        brussels_2025_def day_ms_def hour_ms_def)

end
